theory Spec2Isabelle
  imports Complex_Main
begin

section \<open>Values, strings and containers of the TypeScript program\<close>

text \<open>
  A field of a remote record has the TypeScript type \<open>unknown\<close>: it is whatever JSON the
  store sent. \<open>JUndef\<close> is JavaScript's \<open>undefined\<close>, the result of reading a key
  that is not there. Numbers are modelled as rationals: the program never computes with
  them, it only compares them, tests them for zero and passes them on; \<open>NaN\<close> and the
  infinities are not represented. An object is the list of its entries in the order
  \<open>Object.entries\<close> yields them; its keys are distinct.
\<close>

datatype json =
    JNull
  | JUndef
  | JBool bool
  | JNum rat
  | JStr string
  | JArr "json list"
  | JObj "(string \<times> json) list"

text \<open>JavaScript truthiness, as used by \<open>!x\<close>, \<open>x && y\<close>, \<open>x || y\<close> and \<open>if (x)\<close>.\<close>

fun truthy :: "json \<Rightarrow> bool" where
  "truthy JNull = False"
| "truthy JUndef = False"
| "truthy (JBool b) = b"
| "truthy (JNum r) = (r \<noteq> 0)"
| "truthy (JStr s) = (s \<noteq> [])"
| "truthy (JArr xs) = True"
| "truthy (JObj kvs) = True"

text \<open>\<open>a || b\<close> on values.\<close>

definition js_or :: "json \<Rightarrow> json \<Rightarrow> json" where
  "js_or a b = (if truthy a then a else b)"

text \<open>
  Reading a key of an object: \<open>obj[key]\<close>; a missing key reads as \<open>undefined\<close>. This
  is the property of the object itself; the program reads no key under which an object
  parsed from JSON would inherit a member of \<open>Object.prototype\<close>.
\<close>

definition getField :: "(string \<times> json) list \<Rightarrow> string \<Rightarrow> json" where
  "getField kvs k = (case map_of kvs k of None \<Rightarrow> JUndef | Some v \<Rightarrow> v)"

text \<open>
  \<open>v?.key\<close>: \<open>undefined\<close> when \<open>v\<close> is \<open>null\<close> or \<open>undefined\<close>, the property of an
  object, and \<open>undefined\<close> on the primitive and array values, which own none of the keys
  (\<open>id\<close>, \<open>value\<close>) the program reads this way.
\<close>

fun optProp :: "json \<Rightarrow> string \<Rightarrow> json" where
  "optProp (JObj kvs) k = getField kvs k"
| "optProp v k = JUndef"

text \<open>
  \<open>v[0]\<close> for a value the program has cast to an array: the first entry of an array, the
  first character of a string, the property \<open>0\<close> of an object, \<open>undefined\<close> otherwise.
\<close>

fun index0 :: "json \<Rightarrow> json" where
  "index0 (JArr []) = JUndef"
| "index0 (JArr (x # xs)) = x"
| "index0 (JStr []) = JUndef"
| "index0 (JStr (c # cs)) = JStr [c]"
| "index0 (JObj kvs) = getField kvs ''0''"
| "index0 v = JUndef"

text \<open>
  \<open>v && v.length > 0\<close> for a value cast to \<open>Array<...> | undefined\<close>. Arrays and strings
  carry their length; an object is read through its own \<open>length\<close> property, which counts
  when it is a number (the coercion of other values to a number is not modelled); every
  other value has no length, and \<open>undefined > 0\<close> is false. The store sends the fields
  read this way as arrays.
\<close>

fun nonEmptyArray :: "json \<Rightarrow> bool" where
  "nonEmptyArray (JArr xs) = (xs \<noteq> [])"
| "nonEmptyArray (JStr s) = (s \<noteq> [])"
| "nonEmptyArray (JObj kvs) = (case getField kvs ''length'' of JNum r \<Rightarrow> 0 < r | _ \<Rightarrow> False)"
| "nonEmptyArray v = False"

subsection \<open>Strings\<close>

text \<open>
  Strings are lists of 8-bit characters. \<open>toLowerCase\<close> maps the letters \<open>A\<close> to \<open>Z\<close>
  to \<open>a\<close> to \<open>z\<close> and leaves every other character alone.
\<close>

definition lowerChar :: "char \<Rightarrow> char" where
  "lowerChar c = (let n = (of_char c :: nat) in if 65 \<le> n \<and> n \<le> 90 then char_of (n + 32) else c)"

definition toLowerCase :: "string \<Rightarrow> string" where
  "toLowerCase s = map lowerChar s"

fun startsWith :: "string \<Rightarrow> string \<Rightarrow> bool" where
  "startsWith s [] = True"
| "startsWith [] (c # t) = False"
| "startsWith (d # s) (c # t) = (d = c \<and> startsWith s t)"

text \<open>\<open>s.includes(t)\<close>: \<open>t\<close> occurs in \<open>s\<close> as a contiguous substring.\<close>

fun strIncludes :: "string \<Rightarrow> string \<Rightarrow> bool" where
  "strIncludes [] t = (t = [])"
| "strIncludes (c # s) t = (startsWith (c # s) t \<or> strIncludes s t)"

text \<open>\<open>xs.join(sep)\<close>.\<close>

fun join :: "string \<Rightarrow> string list \<Rightarrow> string" where
  "join sep [] = []"
| "join sep [x] = x"
| "join sep (x # y # ys) = x @ sep @ join sep (y # ys)"

text \<open>Decimal rendering of an integer, as a template literal renders an integral number.\<close>

definition digitChar :: "nat \<Rightarrow> char" where
  "digitChar n = char_of (48 + n)"

function showNat :: "nat \<Rightarrow> string" where
  "showNat n = (if n < 10 then [digitChar n] else showNat (n div 10) @ [digitChar (n mod 10)])"
  by pat_completeness auto
termination
  by (relation "measure id") auto

declare showNat.simps [simp del]

definition showInt :: "int \<Rightarrow> string" where
  "showInt i = (if i < 0 then CHR ''-'' # showNat (nat (- i)) else showNat (nat i))"

definition dquote :: string where
  "dquote = [CHR 0x22]"

subsection \<open>A JavaScript \<open>Map\<close>: entries in insertion order\<close>

text \<open>\<open>m.set(k, v)\<close> replaces the value of a key in place and appends a new key.\<close>

fun mapSet :: "'k \<Rightarrow> 'v \<Rightarrow> ('k \<times> 'v) list \<Rightarrow> ('k \<times> 'v) list" where
  "mapSet k v [] = [(k, v)]"
| "mapSet k v ((k', v') # m) = (if k' = k then (k, v) # m else (k', v') # mapSet k v m)"

definition mapGet :: "('k \<times> 'v) list \<Rightarrow> 'k \<Rightarrow> 'v option" where
  "mapGet m k = map_of m k"

definition mapHas :: "('k \<times> 'v) list \<Rightarrow> 'k \<Rightarrow> bool" where
  "mapHas m k = (map_of m k \<noteq> None)"

subsection \<open>Assignment to a property of an object\<close>

text \<open>
  \<open>obj[key] = value\<close> on an ordinary object replaces the property \<open>key\<close> in place or
  appends it, as \<open>mapSet\<close> does, for every key but \<open>__proto__\<close>. An assignment to
  \<open>__proto__\<close> reaches the accessor that every ordinary object inherits from
  \<open>Object.prototype\<close>: it replaces the prototype of the object when the value is an
  object or \<open>null\<close> and does nothing otherwise, and in neither case does the object get
  a property \<open>__proto__\<close>. The model of an object is the list of the properties of the
  object itself, which are what \<open>Object.entries\<close> and the serialization of a response
  read; so the assignment to \<open>__proto__\<close> leaves the list as it is.
\<close>

definition assignProperty :: "string \<Rightarrow> json \<Rightarrow> (string \<times> json) list \<Rightarrow> (string \<times> json) list" where
  "assignProperty key value obj = (if key = ''__proto__'' then obj else mapSet key value obj)"

section \<open>Errors\<close>

text \<open>
  The exceptions the program throws. \<open>TypeError\<close> is the runtime's own, raised when a
  method is called on a value that does not have it.
\<close>

datatype exn =
    UnauthorizedTableAccessError string
  | BaserowApiError string int json
  | BaserowConnectionError string
  | ValidationError string
  | Error string
  | TypeError string

section \<open>The allow list (security/allowList.ts)\<close>

definition ALLOWED_TABLE_NAMES :: "string list" where
  "ALLOWED_TABLE_NAMES =
     [''manufacturing_orders'', ''mo_parts_usage'', ''raw_material_lots'',
      ''inventory_transactions'', ''finished_goods'', ''cycle_counts'',
      ''fg_parts_mapping'', ''label_inventory'', ''parts'']"

record table_config =
  cfg_name :: string
  envKey :: string
  cfg_description :: string

record table_info =
  ti_name :: string
  ti_id :: int
  ti_description :: string

definition TABLE_CONFIGS :: "table_config list" where
  "TABLE_CONFIGS =
     [\<lparr>cfg_name = ''manufacturing_orders'', envKey = ''TABLE_ID_MANUFACTURING_ORDERS'',
       cfg_description = ''Manufacturing Orders (MO) for tracking production lifecycle''\<rparr>,
      \<lparr>cfg_name = ''mo_parts_usage'', envKey = ''TABLE_ID_MO_PARTS_USAGE'',
       cfg_description = ''Parts consumption records for manufacturing orders''\<rparr>,
      \<lparr>cfg_name = ''raw_material_lots'', envKey = ''TABLE_ID_RAW_MATERIAL_LOTS'',
       cfg_description = ''Raw material lot tracking and traceability''\<rparr>,
      \<lparr>cfg_name = ''inventory_transactions'', envKey = ''TABLE_ID_INVENTORY_TRANSACTIONS'',
       cfg_description = ''Inventory movement and transaction logs''\<rparr>,
      \<lparr>cfg_name = ''finished_goods'', envKey = ''TABLE_ID_FINISHED_GOODS'',
       cfg_description = ''Finished product inventory tracking''\<rparr>,
      \<lparr>cfg_name = ''cycle_counts'', envKey = ''TABLE_ID_CYCLE_COUNTS'',
       cfg_description = ''Inventory cycle count records''\<rparr>,
      \<lparr>cfg_name = ''fg_parts_mapping'', envKey = ''TABLE_ID_FG_PARTS_MAPPING'',
       cfg_description = ''Finished Goods to Parts BOM mapping''\<rparr>,
      \<lparr>cfg_name = ''label_inventory'', envKey = ''TABLE_ID_LABEL_INVENTORY'',
       cfg_description = ''Label inventory tracking by label code''\<rparr>,
      \<lparr>cfg_name = ''parts'', envKey = ''TABLE_ID_PARTS'',
       cfg_description = ''Parts/Components/Raw Materials master table''\<rparr>]"

text \<open>
  \<open>parseInt(s, 10)\<close>: leading white space is skipped, one sign is read, then the longest
  run of decimal digits; whatever follows the digits is ignored. \<open>None\<close> is \<open>NaN\<close>, the
  result when no digit is found. The value is exact (no rounding to a double).
\<close>

definition isWhiteSpace :: "char \<Rightarrow> bool" where
  "isWhiteSpace c = ((of_char c :: nat) \<in> {9, 10, 11, 12, 13, 32, 160})"

definition isDigit :: "char \<Rightarrow> bool" where
  "isDigit c = (48 \<le> (of_char c :: nat) \<and> (of_char c :: nat) \<le> 57)"

definition digitsValue :: "string \<Rightarrow> int" where
  "digitsValue ds = foldl (\<lambda>a c. 10 * a + (int (of_char c) - 48)) 0 ds"

definition parseInt :: "string \<Rightarrow> int option" where
  "parseInt s =
     (let s1 = dropWhile isWhiteSpace s;
          sgn = (case s1 of c # r \<Rightarrow> if c = CHR ''-'' then - 1 else 1 | [] \<Rightarrow> (1::int));
          s2 = (case s1 of c # r \<Rightarrow> if c = CHR ''-'' \<or> c = CHR ''+'' then r else s1 | [] \<Rightarrow> s1);
          ds = takeWhile isDigit s2
      in if ds = [] then None else Some (sgn * digitsValue ds))"

text \<open>
  The manager's two fields. \<open>tableMap\<close> is a \<open>Map\<close> from table name to table
  information; the process environment is a partial map from variable names to strings.
\<close>

record allow_list_manager =
  tableMap :: "(string \<times> table_info) list"
  initialized :: bool

definition newAllowListManager :: allow_list_manager where
  "newAllowListManager = \<lparr>tableMap = [], initialized = False\<rparr>"

type_synonym env = "string \<Rightarrow> string option"

text \<open>
  The loop of \<open>initialize\<close> over the table configurations. It returns the exception thrown
  inside the loop, if any, with the table map and the list of missing tables as they are
  at that moment.
\<close>

fun initLoop :: "env \<Rightarrow> table_config list \<Rightarrow> (string \<times> table_info) list \<Rightarrow> string list
    \<Rightarrow> exn option \<times> (string \<times> table_info) list \<times> string list" where
  "initLoop e [] tm missing = (None, tm, missing)"
| "initLoop e (config # rest) tm missing =
     (case e (envKey config) of
        None \<Rightarrow> initLoop e rest tm (missing @ [cfg_name config @ '' ('' @ envKey config @ '')''])
      | Some tableIdStr \<Rightarrow>
          if tableIdStr = [] then
            initLoop e rest tm (missing @ [cfg_name config @ '' ('' @ envKey config @ '')''])
          else
            (case parseInt tableIdStr of
               None \<Rightarrow>
                 (Some (Error (''Invalid table ID for '' @ cfg_name config @ '': '' @ tableIdStr
                          @ '' - must be a positive integer'')), tm, missing)
             | Some tableId \<Rightarrow>
                 if tableId \<le> 0 then
                   (Some (Error (''Invalid table ID for '' @ cfg_name config @ '': '' @ tableIdStr
                            @ '' - must be a positive integer'')), tm, missing)
                 else
                   initLoop e rest
                     (mapSet (cfg_name config)
                        \<lparr>ti_name = cfg_name config, ti_id = tableId,
                         ti_description = cfg_description config\<rparr> tm)
                     missing))"

text \<open>
  \<open>initialize\<close>: the outcome (\<open>Inl\<close> the exception thrown), the manager afterwards, and
  the messages passed to \<open>logger.warn\<close> (the debug and info messages are left out).
\<close>

definition initialize :: "env \<Rightarrow> allow_list_manager
    \<Rightarrow> (exn + unit) \<times> allow_list_manager \<times> string list" where
  "initialize e m =
     (if initialized m then (Inr (), m, [''AllowListManager already initialized''])
      else
        (case initLoop e TABLE_CONFIGS (tableMap m) [] of
           (Some err, tm, missing) \<Rightarrow> (Inl err, m\<lparr>tableMap := tm\<rparr>, [])
         | (None, tm, missing) \<Rightarrow>
             (let warns =
                    (if missing \<noteq> [] then
                       [''Missing table configurations (these tables will be unavailable): ''
                          @ join '', '' missing]
                     else [])
              in if tm = [] then
                   (Inl (Error ''No tables configured. Please set at least one TABLE_ID_* environment variable.''),
                    m\<lparr>tableMap := tm\<rparr>, warns)
                 else (Inr (), m\<lparr>tableMap := tm, initialized := True\<rparr>, warns))))"

definition isTableAllowed :: "allow_list_manager \<Rightarrow> string \<Rightarrow> exn + bool" where
  "isTableAllowed m tableName =
     (if \<not> initialized m then Inl (Error ''AllowListManager not initialized'')
      else
        (let isAllowed = (tableName \<in> set ALLOWED_TABLE_NAMES);
             isConfigured = mapHas (tableMap m) tableName
         in Inr (isAllowed \<and> isConfigured)))"

definition getTableId :: "allow_list_manager \<Rightarrow> string \<Rightarrow> exn + int" where
  "getTableId m tableName =
     (case isTableAllowed m tableName of
        Inl err \<Rightarrow> Inl err
      | Inr ok \<Rightarrow>
          if \<not> ok then Inl (UnauthorizedTableAccessError tableName)
          else
            (case mapGet (tableMap m) tableName of
               None \<Rightarrow> Inl (UnauthorizedTableAccessError tableName)
             | Some tableInfo \<Rightarrow> Inr (ti_id tableInfo)))"


fun errorMessage :: "exn \<Rightarrow> string" where
  "errorMessage (UnauthorizedTableAccessError t) =
     ''Access denied: Table '' @ dquote @ t @ dquote @ '' is not authorized for access''"
| "errorMessage (BaserowApiError m s b) = m"
| "errorMessage (BaserowConnectionError m) = m"
| "errorMessage (ValidationError m) = m"
| "errorMessage (Error m) = m"
| "errorMessage (TypeError m) = m"

section \<open>Remote records and the outbound calls\<close>

text \<open>
  A record of the store: the numeric identifier, the ordering key, and the other fields
  (\<open>[key: string]: unknown\<close>) in entry order.
\<close>

record baserow_record =
  rec_id :: int
  rec_order :: string
  rec_fields :: "(string \<times> json) list"

text \<open>
  A list response. \<open>lr_note\<close> is the \<open>_note\<close> property, which only the response shaper
  sets.
\<close>

record list_response =
  lr_count :: int
  lr_next :: "string option"
  lr_previous :: "string option"
  lr_results :: "baserow_record list"
  lr_note :: "string option"

type_synonym filters = "(string \<times> json) list"
type_synonym record_data = "(string \<times> json) list"

text \<open>
  One HTTP request of the client, by the arguments of the client method that issues it
  (\<open>GET\<close> list, \<open>POST\<close>, \<open>PATCH\<close>, \<open>DELETE\<close>). The table identifier is a number in
  the stdio server and a string in the HTTP servers.
\<close>

datatype 'tid call =
    ListRecords 'tid "filters option" "int option" "int option"
  | CreateRecord 'tid record_data
  | UpdateRecord 'tid int record_data
  | DeleteRecord 'tid int

text \<open>
  The remote store is not part of the program. It is a parameter: what it answers to a
  request, given the requests issued before (so its answers may depend on earlier writes).
  \<open>Inl\<close> is the exception the client's \<open>request\<close> throws: a \<open>BaserowApiError\<close> for a
  non-success status, a \<open>BaserowConnectionError\<close> otherwise.
\<close>

record 'tid remote =
  r_list :: "'tid call list \<Rightarrow> 'tid \<Rightarrow> filters option \<Rightarrow> int option \<Rightarrow> int option
               \<Rightarrow> exn + list_response"
  r_create :: "'tid call list \<Rightarrow> 'tid \<Rightarrow> record_data \<Rightarrow> exn + baserow_record"
  r_update :: "'tid call list \<Rightarrow> 'tid \<Rightarrow> int \<Rightarrow> record_data \<Rightarrow> exn + baserow_record"
  r_delete :: "'tid call list \<Rightarrow> 'tid \<Rightarrow> int \<Rightarrow> exn + unit"

text \<open>
  The client methods. Each takes the log of the requests issued so far and returns it with
  its own request appended: the log is how the theorems count outbound calls.
\<close>

definition client_listRecords :: "'tid remote \<Rightarrow> 'tid \<Rightarrow> filters option \<Rightarrow> int option
    \<Rightarrow> int option \<Rightarrow> 'tid call list \<Rightarrow> (exn + list_response) \<times> 'tid call list" where
  "client_listRecords R tableId fs page sz lg =
     (r_list R lg tableId fs page sz, lg @ [ListRecords tableId fs page sz])"

definition client_createRecord :: "'tid remote \<Rightarrow> 'tid \<Rightarrow> record_data
    \<Rightarrow> 'tid call list \<Rightarrow> (exn + baserow_record) \<times> 'tid call list" where
  "client_createRecord R tableId data lg =
     (r_create R lg tableId data, lg @ [CreateRecord tableId data])"

definition client_updateRecord :: "'tid remote \<Rightarrow> 'tid \<Rightarrow> int \<Rightarrow> record_data
    \<Rightarrow> 'tid call list \<Rightarrow> (exn + baserow_record) \<times> 'tid call list" where
  "client_updateRecord R tableId recordId data lg =
     (r_update R lg tableId recordId data, lg @ [UpdateRecord tableId recordId data])"

definition client_deleteRecord :: "'tid remote \<Rightarrow> 'tid \<Rightarrow> int
    \<Rightarrow> 'tid call list \<Rightarrow> (exn + unit) \<times> 'tid call list" where
  "client_deleteRecord R tableId recordId lg =
     (r_delete R lg tableId recordId, lg @ [DeleteRecord tableId recordId])"

section \<open>The tables service (baserow/tables.ts)\<close>

definition validateAndGetTableId :: "allow_list_manager \<Rightarrow> string \<Rightarrow> exn + int" where
  "validateAndGetTableId m tableName =
     (case isTableAllowed m tableName of
        Inl err \<Rightarrow> Inl err
      | Inr ok \<Rightarrow>
          if \<not> ok then Inl (UnauthorizedTableAccessError tableName)
          else getTableId m tableName)"

definition readRecords :: "int remote \<Rightarrow> allow_list_manager \<Rightarrow> string \<Rightarrow> filters option
    \<Rightarrow> int option \<Rightarrow> int option \<Rightarrow> int call list \<Rightarrow> (exn + list_response) \<times> int call list" where
  "readRecords R m tableName fs page sz lg =
     (case validateAndGetTableId m tableName of
        Inl err \<Rightarrow> (Inl err, lg)
      | Inr tableId \<Rightarrow> client_listRecords R tableId fs page sz lg)"

definition createRecord :: "int remote \<Rightarrow> allow_list_manager \<Rightarrow> string \<Rightarrow> record_data
    \<Rightarrow> int call list \<Rightarrow> (exn + baserow_record) \<times> int call list" where
  "createRecord R m tableName data lg =
     (case validateAndGetTableId m tableName of
        Inl err \<Rightarrow> (Inl err, lg)
      | Inr tableId \<Rightarrow> client_createRecord R tableId data lg)"

definition updateRecord :: "int remote \<Rightarrow> allow_list_manager \<Rightarrow> string \<Rightarrow> int \<Rightarrow> record_data
    \<Rightarrow> int call list \<Rightarrow> (exn + baserow_record) \<times> int call list" where
  "updateRecord R m tableName recordId data lg =
     (case validateAndGetTableId m tableName of
        Inl err \<Rightarrow> (Inl err, lg)
      | Inr tableId \<Rightarrow> client_updateRecord R tableId recordId data lg)"

definition deleteRecord :: "int remote \<Rightarrow> allow_list_manager \<Rightarrow> string \<Rightarrow> int
    \<Rightarrow> int call list \<Rightarrow> (exn + unit) \<times> int call list" where
  "deleteRecord R m tableName recordId lg =
     (case validateAndGetTableId m tableName of
        Inl err \<Rightarrow> (Inl err, lg)
      | Inr tableId \<Rightarrow> client_deleteRecord R tableId recordId lg)"

section \<open>The response shaper (mcp/handler.ts)\<close>

definition MAX_RESPONSE_CHARS :: nat where
  "MAX_RESPONSE_CHARS = 50000"

definition MAX_RECORDS_PER_PAGE :: nat where
  "MAX_RECORDS_PER_PAGE = 25"

definition FIELDS_TO_SIMPLIFY :: "string list" where
  "FIELDS_TO_SIMPLIFY =
     [''AMAZON SALES & INVENTORY'', ''ShipStation SKU Mapping'', ''TikTok Sales & Inventory'',
      ''Walmart Sales & Inventory - Finished Goods'', ''FBA Inventory Qty'', ''WH Inventory Qty'',
      ''Amazon Inventory Health'', ''Fulfillment Orders'', ''Manufacturing Orders'',
      ''FG Parts Mapping'', ''Inventory Transactions'', ''MO Parts Usage'', ''Cycle Count Log'',
      ''Kit Components Mapping'', ''Kit Parts Mapping'', ''Kitting Orders'', ''Mo Plan'',
      ''Mo Plan 2'', ''IHF Order Summary By Day'', ''Manufacturing Batches'',
      ''FO Plan (Multi-Channel) v2'', ''IHF Sales & Inventory'', ''Receiving Log'',
      ''Count Cycle Schedule'', ''Labels'', ''Finished Goods Inventory'']"

text \<open>\<open>Array.isArray(value)\<close>.\<close>

fun isArray :: "json \<Rightarrow> bool" where
  "isArray (JArr xs) = True"
| "isArray v = False"

text \<open>
  \<open>typeof item === 'object' && item !== null && 'id' in item\<close>. An array is an object
  too, but it has no property \<open>id\<close>.
\<close>

fun isObjectWithId :: "json \<Rightarrow> bool" where
  "isObjectWithId (JObj kvs) = (map_of kvs ''id'' \<noteq> None)"
| "isObjectWithId v = False"

text \<open>
  The same test with its one operation that can throw written as a fallible step. Of the
  operations that \<open>simplifyRecord\<close> and \<open>simplifyResponse\<close> apply to values parsed
  from JSON, only \<open>'id' in item\<close> can throw: it raises a \<open>TypeError\<close> when \<open>item\<close>
  is not an object, which includes \<open>null\<close>. \<open>typeof\<close> answers \<open>'object'\<close> for
  objects, arrays and \<open>null\<close>, and \<open>&&\<close> evaluates its right operand only when the
  left one holds. The text of the runtime's message is not modelled.
\<close>

fun typeofObject :: "json \<Rightarrow> bool" where
  "typeofObject (JObj kvs) = True"
| "typeofObject (JArr xs) = True"
| "typeofObject JNull = True"
| "typeofObject v = False"

fun idIn :: "json \<Rightarrow> exn + bool" where
  "idIn (JObj kvs) = Inr (map_of kvs ''id'' \<noteq> None)"
| "idIn (JArr xs) = Inr False"
| "idIn v = Inl (TypeError ''Cannot use in operator'')"

definition isObjectWithIdChecked :: "json \<Rightarrow> exn + bool" where
  "isObjectWithIdChecked item =
     (if typeofObject item then (if item \<noteq> JNull then idIn item else Inr False) else Inr False)"

text \<open>The callback mapped over an array of at most three entries.\<close>

definition simplifyItem :: "json \<Rightarrow> json" where
  "simplifyItem item =
     (if isObjectWithId item
      then JObj [(''id'', optProp item ''id''), (''value'', optProp item ''value'')]
      else item)"

text \<open>The three branches on the length of an array value of a known-large field.\<close>

fun simplifyArray :: "json list \<Rightarrow> json" where
  "simplifyArray [] = JArr []"
| "simplifyArray (firstItem # rest) =
     (if length (firstItem # rest) \<le> 3 then JArr (map simplifyItem (firstItem # rest))
      else JObj
        [(''_count'', JNum (of_nat (length (firstItem # rest)))),
         (''_first'',
            if isObjectWithId firstItem then JObj [(''id'', optProp firstItem ''id'')]
            else firstItem),
         (''_note'', JStr (showNat (length (firstItem # rest)) @ '' items (simplified)''))])"

text \<open>
  The loop of \<open>simplifyRecord\<close> over the entries of the record; \<open>acc\<close> holds the fields
  assigned to \<open>simplified\<close> so far, beside \<open>id\<close> and \<open>order\<close>. Each branch ends in
  an assignment \<open>simplified[key] = ...\<close>.
\<close>

fun simplifyLoop :: "(string \<times> json) list \<Rightarrow> (string \<times> json) list \<Rightarrow> (string \<times> json) list" where
  "simplifyLoop [] acc = acc"
| "simplifyLoop ((key, value) # rest) acc =
     (if key = ''id'' \<or> key = ''order'' then simplifyLoop rest acc
      else if key \<in> set FIELDS_TO_SIMPLIFY \<and> isArray value then
        (case value of
           JArr xs \<Rightarrow> simplifyLoop rest (assignProperty key (simplifyArray xs) acc)
         | _ \<Rightarrow> simplifyLoop rest (assignProperty key value acc))
      else simplifyLoop rest (assignProperty key value acc))"

definition simplifyRecord :: "baserow_record \<Rightarrow> baserow_record" where
  "simplifyRecord r =
     \<lparr>rec_id = rec_id r, rec_order = rec_order r, rec_fields = simplifyLoop (rec_fields r) []\<rparr>"

text \<open>
  \<open>simplifyResponse\<close>. The serializer \<open>JSON.stringify\<close> belongs to the runtime and is a
  parameter, \<open>stringify\<close>; only the length of what it returns is used.
\<close>

definition simplifyResponse :: "(baserow_record list \<Rightarrow> string) \<Rightarrow> list_response \<Rightarrow> list_response" where
  "simplifyResponse stringify response =
     (let limitedResults = take MAX_RECORDS_PER_PAGE (lr_results response);
          simplifiedResults = map simplifyRecord limitedResults;
          jsonStr = stringify simplifiedResults
      in if length jsonStr > MAX_RESPONSE_CHARS \<and> length simplifiedResults > 10 then
           response\<lparr>lr_results := take 10 simplifiedResults,
                    lr_note := Some (''Response truncated: showing 10 of '' @ showInt (lr_count response)
                                     @ '' records. Use filters for specific data.'')\<rparr>
         else if length limitedResults < length (lr_results response) then
           response\<lparr>lr_results := simplifiedResults,
                    lr_note := Some (''Response limited: showing '' @ showNat (length limitedResults)
                                     @ '' of '' @ showInt (lr_count response)
                                     @ '' records. Use pagination or filters.'')\<rparr>
         else response\<lparr>lr_results := simplifiedResults\<rparr>)"

section \<open>The request handler (mcp/handler.ts)\<close>

record metadata =
  md_count :: int
  md_page :: int
  md_size :: int
  md_next :: "string option"
  md_previous :: "string option"

text \<open>The response envelope: \<open>{success: true, data, metadata?}\<close> or
  \<open>{success: false, error: {code, message, details?}}\<close>.\<close>

datatype 'a mcp_response =
    SuccessResponse 'a "metadata option"
  | ErrorResponse string string "json option"

text \<open>\<open>handleError\<close>: the conversion of a caught exception to an error response.\<close>

fun handleError :: "exn \<Rightarrow> 'a mcp_response" where
  "handleError (ValidationError m) = ErrorResponse ''VALIDATION_ERROR'' m None"
| "handleError (UnauthorizedTableAccessError t) =
     ErrorResponse ''UNAUTHORIZED_TABLE_ACCESS'' (errorMessage (UnauthorizedTableAccessError t))
       (Some (JObj [(''table'', JStr t)]))"
| "handleError (BaserowApiError m statusCode body) =
     ErrorResponse ''BASEROW_API_ERROR'' m
       (Some (JObj [(''statusCode'', JNum (of_int statusCode)), (''response'', body)]))"
| "handleError (BaserowConnectionError m) = ErrorResponse ''CONNECTION_ERROR'' m None"
| "handleError (Error m) = ErrorResponse ''INTERNAL_ERROR'' m None"
| "handleError (TypeError m) = ErrorResponse ''INTERNAL_ERROR'' m None"

text \<open>
  The \<open>try\<close>/\<open>catch\<close> of \<open>handleToolCall\<close> around the routed handler: an exception
  thrown by the handler becomes an error response.
\<close>

definition catchError :: "(exn + 'a mcp_response) \<times> 'l \<Rightarrow> 'a mcp_response \<times> 'l" where
  "catchError r = (case r of (Inl err, lg) \<Rightarrow> (handleError err, lg) | (Inr resp, lg) \<Rightarrow> (resp, lg))"

definition handleRead :: "(baserow_record list \<Rightarrow> string) \<Rightarrow> int remote \<Rightarrow> allow_list_manager
    \<Rightarrow> string \<Rightarrow> filters option \<Rightarrow> int option \<Rightarrow> int option \<Rightarrow> int call list
    \<Rightarrow> (exn + list_response mcp_response) \<times> int call list" where
  "handleRead stringify R m table fs page sz lg =
     (let limitedSize = min (case sz of None \<Rightarrow> 100 | Some n \<Rightarrow> n) (int MAX_RECORDS_PER_PAGE)
      in case readRecords R m table fs page (Some limitedSize) lg of
           (Inl err, lg') \<Rightarrow> (Inl err, lg')
         | (Inr response, lg') \<Rightarrow>
             (Inr (SuccessResponse (simplifyResponse stringify response)
                     (Some \<lparr>md_count = lr_count response,
                            md_page = (case page of None \<Rightarrow> 1 | Some n \<Rightarrow> n),
                            md_size = limitedSize,
                            md_next = lr_next response,
                            md_previous = lr_previous response\<rparr>)), lg'))"

definition handleCreate :: "int remote \<Rightarrow> allow_list_manager \<Rightarrow> string \<Rightarrow> record_data
    \<Rightarrow> int call list \<Rightarrow> (exn + baserow_record mcp_response) \<times> int call list" where
  "handleCreate R m table data lg =
     (case createRecord R m table data lg of
        (Inl err, lg') \<Rightarrow> (Inl err, lg')
      | (Inr record, lg') \<Rightarrow> (Inr (SuccessResponse record None), lg'))"

definition handleUpdate :: "int remote \<Rightarrow> allow_list_manager \<Rightarrow> string \<Rightarrow> int \<Rightarrow> record_data
    \<Rightarrow> int call list \<Rightarrow> (exn + baserow_record mcp_response) \<times> int call list" where
  "handleUpdate R m table recordId data lg =
     (case updateRecord R m table recordId data lg of
        (Inl err, lg') \<Rightarrow> (Inl err, lg')
      | (Inr record, lg') \<Rightarrow> (Inr (SuccessResponse record None), lg'))"

text \<open>The data of a successful delete is \<open>{deleted: true, record_id}\<close>.\<close>

definition handleDelete :: "int remote \<Rightarrow> allow_list_manager \<Rightarrow> string \<Rightarrow> int
    \<Rightarrow> int call list \<Rightarrow> (exn + (bool \<times> int) mcp_response) \<times> int call list" where
  "handleDelete R m table recordId lg =
     (case deleteRecord R m table recordId lg of
        (Inl err, lg') \<Rightarrow> (Inl err, lg')
      | (Inr u, lg') \<Rightarrow> (Inr (SuccessResponse (True, recordId) None), lg'))"

subsection \<open>get_bom\<close>

text \<open>Truthiness of an optional number and of an optional string argument.\<close>

definition truthyNum :: "int option \<Rightarrow> bool" where
  "truthyNum x = (case x of None \<Rightarrow> False | Some n \<Rightarrow> n \<noteq> 0)"

definition truthyStr :: "string option \<Rightarrow> bool" where
  "truthyStr x = (case x of None \<Rightarrow> False | Some s \<Rightarrow> s \<noteq> [])"

text \<open>
  A BOM item. \<open>part_id\<close>, \<open>part_name\<close> and \<open>part_role\<close> are read out of the mapping
  record unchecked, so they are values. \<open>quantity_per_unit\<close> is the floating-point
  number \<open>parseFloat(String(q))\<close>; both are runtime functions, and their composition is
  the parameter \<open>parseFloatString\<close> of the functions below, of an arbitrary result type.
\<close>

record 'q bom_item =
  mapping_id :: int
  part_id :: json
  part_name :: json
  quantity_per_unit :: 'q
  part_role :: json

record 'q get_bom_response =
  gb_fg_id :: int
  gb_fg_isku :: json
  gb_parts :: "'q bom_item list"
  gb_total_parts :: nat

text \<open>
  The loop of \<open>handleGetBOM\<close> over the fetched mappings, with the two variables it
  updates: \<open>bomItems\<close> and \<open>targetIsku\<close>.
\<close>

fun bomLoop :: "(json \<Rightarrow> 'q) \<Rightarrow> int \<Rightarrow> baserow_record list \<Rightarrow> 'q bom_item list \<Rightarrow> json
    \<Rightarrow> 'q bom_item list \<times> json" where
  "bomLoop parseFloatString targetFgId [] bomItems targetIsku = (bomItems, targetIsku)"
| "bomLoop parseFloatString targetFgId (mapping # rest) bomItems targetIsku =
     (let finishedGood = getField (rec_fields mapping) ''Finished Good''
      in if nonEmptyArray finishedGood
            \<and> optProp (index0 finishedGood) ''id'' = JNum (of_int targetFgId) then
           (let part = getField (rec_fields mapping) ''Part'';
                partRole = getField (rec_fields mapping) ''Part Role'';
                bomItems' =
                  (if nonEmptyArray part then
                     bomItems @
                       [\<lparr>mapping_id = rec_id mapping,
                         part_id = js_or (optProp (index0 part) ''id'') (JNum 0),
                         part_name = js_or (optProp (index0 part) ''value'') (JStr ''Unknown''),
                         quantity_per_unit =
                           parseFloatString
                             (js_or (getField (rec_fields mapping) ''Quantity'') (JStr ''0'')),
                         part_role = js_or (optProp partRole ''value'') (JStr ''Unknown'')\<rparr>]
                   else bomItems);
                targetIsku' =
                  (if \<not> truthy targetIsku \<and> truthy (optProp (index0 finishedGood) ''value'')
                   then optProp (index0 finishedGood) ''value'' else targetIsku)
            in bomLoop parseFloatString targetFgId rest bomItems' targetIsku')
         else bomLoop parseFloatString targetFgId rest bomItems targetIsku)"

text \<open>\<open>handleGetBOM\<close> from the test \<open>if (!targetFgId)\<close> on.\<close>

definition getBOMFrom :: "(json \<Rightarrow> 'q) \<Rightarrow> int remote \<Rightarrow> allow_list_manager \<Rightarrow> int option
    \<Rightarrow> string \<Rightarrow> int call list \<Rightarrow> (exn + 'q get_bom_response mcp_response) \<times> int call list" where
  "getBOMFrom parseFloatString R m targetFgId targetIsku lg =
     (case targetFgId of
        None \<Rightarrow>
          (Inr (ErrorResponse ''INVALID_REQUEST'' ''Either fg_id or isku must be provided'' None), lg)
      | Some fg \<Rightarrow>
          if fg = 0 then
            (Inr (ErrorResponse ''INVALID_REQUEST'' ''Either fg_id or isku must be provided'' None), lg)
          else
            (case readRecords R m ''fg_parts_mapping'' (Some []) (Some 1) (Some 200) lg of
               (Inl err, lg') \<Rightarrow> (Inl err, lg')
             | (Inr allMappings, lg') \<Rightarrow>
                 (case bomLoop parseFloatString fg (lr_results allMappings) [] (JStr targetIsku) of
                    (bomItems, isku') \<Rightarrow>
                      (Inr (SuccessResponse
                              \<lparr>gb_fg_id = fg, gb_fg_isku = isku', gb_parts = bomItems,
                               gb_total_parts = length bomItems\<rparr> None), lg'))))"

definition handleGetBOM :: "(json \<Rightarrow> 'q) \<Rightarrow> int remote \<Rightarrow> allow_list_manager \<Rightarrow> int option
    \<Rightarrow> string option \<Rightarrow> int call list
    \<Rightarrow> (exn + 'q get_bom_response mcp_response) \<times> int call list" where
  "handleGetBOM parseFloatString R m fgId isku lg =
     (let targetIsku = (case isku of None \<Rightarrow> [] | Some s \<Rightarrow> s)
      in if \<not> truthyNum fgId \<and> truthyStr isku then
           (case readRecords R m ''finished_goods'' (Some [(''iSKU'', JStr targetIsku)])
                   (Some 1) (Some 1) lg of
              (Inl err, lg') \<Rightarrow> (Inl err, lg')
            | (Inr fgResponse, lg') \<Rightarrow>
                (case lr_results fgResponse of
                   [] \<Rightarrow>
                     (Inr (ErrorResponse ''FG_NOT_FOUND''
                             (''Finished Good with iSKU '' @ dquote @ targetIsku @ dquote
                                @ '' not found'') None), lg')
                 | fg # others \<Rightarrow>
                     getBOMFrom parseFloatString R m (Some (rec_id fg)) targetIsku lg'))
         else getBOMFrom parseFloatString R m fgId targetIsku lg)"

subsection \<open>search_parts\<close>

record part_info =
  pi_part_id :: int
  pi_part_name :: string

record part_search_result =
  sr_part_id :: int
  sr_part_name :: string
  sr_search_term :: string
  sr_found :: bool

record search_parts_response =
  sp_results :: "part_search_result list"
  sp_found_count :: nat
  sp_not_found :: "string list"

text \<open>The first truthy value among the candidate name fields, else the empty string.\<close>

definition partNameOf :: "baserow_record \<Rightarrow> json" where
  "partNameOf part =
     js_or (getField (rec_fields part) ''BOM ID'')
       (js_or (getField (rec_fields part) ''Name'')
          (js_or (getField (rec_fields part) ''Part Name'')
             (js_or (getField (rec_fields part) ''iSKU'')
                (js_or (getField (rec_fields part) ''Part Number'')
                   (js_or (getField (rec_fields part) ''SKU'') (JStr []))))))"

text \<open>
  The inner loop over the records of one page. The name is cast to a string, not checked:
  on a truthy value that is no string, \<open>partName.toLowerCase()\<close> throws.
\<close>

fun indexParts :: "baserow_record list \<Rightarrow> (string \<times> part_info) list
    \<Rightarrow> exn + (string \<times> part_info) list" where
  "indexParts [] partNameToId = Inr partNameToId"
| "indexParts (part # rest) partNameToId =
     (let partName = partNameOf part
      in if truthy partName then
           (case partName of
              JStr name \<Rightarrow>
                indexParts rest
                  (mapSet (toLowerCase name) \<lparr>pi_part_id = rec_id part, pi_part_name = name\<rparr>
                     partNameToId)
            | _ \<Rightarrow> Inl (TypeError ''partName.toLowerCase is not a function''))
         else indexParts rest partNameToId)"

text \<open>
  The paging loop, entered with \<open>hasMore\<close> true. After a page, \<open>page\<close> is incremented;
  beyond 50 the loop breaks, otherwise it goes on while \<open>hasMore\<close>.
\<close>

function loadParts :: "int remote \<Rightarrow> allow_list_manager \<Rightarrow> int \<Rightarrow> (string \<times> part_info) list
    \<Rightarrow> int call list \<Rightarrow> (exn + (string \<times> part_info) list) \<times> int call list" where
  "loadParts R m page partNameToId lg =
     (case readRecords R m ''parts'' (Some []) (Some page) (Some 200) lg of
        (Inl err, lg') \<Rightarrow> (Inl err, lg')
      | (Inr partsPage, lg') \<Rightarrow>
          (case indexParts (lr_results partsPage) partNameToId of
             Inl err \<Rightarrow> (Inl err, lg')
           | Inr partNameToId' \<Rightarrow>
               (let hasMore = (lr_next partsPage \<noteq> None \<and> lr_results partsPage \<noteq> [])
                in if page + 1 > 50 then (Inr partNameToId', lg')
                   else if hasMore then loadParts R m (page + 1) partNameToId' lg'
                   else (Inr partNameToId', lg'))))"
  by pat_completeness auto
termination
  by (relation "measure (\<lambda>(R, m, page, partNameToId, lg). nat (51 - page))") auto

declare loadParts.simps [simp del]

text \<open>The partial match: the first entry, in the order of the \<open>Map\<close>, whose name contains
  the term or is contained in it.\<close>

fun findPartial :: "(string \<times> part_info) list \<Rightarrow> string \<Rightarrow> part_info option" where
  "findPartial [] termLower = None"
| "findPartial ((name, info) # rest) termLower =
     (if strIncludes name termLower \<or> strIncludes termLower name then Some info
      else findPartial rest termLower)"

text \<open>The body of the loop over the search terms: the result pushed for one term.\<close>

definition searchTerm :: "(string \<times> part_info) list \<Rightarrow> string \<Rightarrow> part_search_result" where
  "searchTerm partNameToId term =
     (let termLower = toLowerCase term;
          found = (case mapGet partNameToId termLower of
                     Some info \<Rightarrow> Some info
                   | None \<Rightarrow> findPartial partNameToId termLower)
      in case found of
           Some info \<Rightarrow>
             \<lparr>sr_part_id = pi_part_id info, sr_part_name = pi_part_name info,
              sr_search_term = term, sr_found = True\<rparr>
         | None \<Rightarrow>
             \<lparr>sr_part_id = 0, sr_part_name = [], sr_search_term = term, sr_found = False\<rparr>)"

fun searchLoop :: "(string \<times> part_info) list \<Rightarrow> string list \<Rightarrow> part_search_result list
    \<Rightarrow> string list \<Rightarrow> part_search_result list \<times> string list" where
  "searchLoop partNameToId [] results notFound = (results, notFound)"
| "searchLoop partNameToId (term # rest) results notFound =
     (let r = searchTerm partNameToId term
      in if sr_found r then searchLoop partNameToId rest (results @ [r]) notFound
         else searchLoop partNameToId rest (results @ [r]) (notFound @ [term]))"

definition handleSearchParts :: "int remote \<Rightarrow> allow_list_manager \<Rightarrow> string list \<Rightarrow> int call list
    \<Rightarrow> (exn + search_parts_response mcp_response) \<times> int call list" where
  "handleSearchParts R m searchTerms lg =
     (case loadParts R m 1 [] lg of
        (Inl err, lg') \<Rightarrow> (Inl err, lg')
      | (Inr partNameToId, lg') \<Rightarrow>
          (case searchLoop partNameToId searchTerms [] [] of
             (results, notFound) \<Rightarrow>
               (Inr (SuccessResponse
                       \<lparr>sp_results = results,
                        sp_found_count = length (filter sr_found results),
                        sp_not_found = notFound\<rparr> None), lg')))"

subsection \<open>process_bpr\<close>

record parts_usage_item =
  bom_id :: int
  quantity :: rat
  lot_id :: "int option"
  lot_number :: "string option"
  label_id :: "int option"
  label_code :: "string option"
  waste :: "rat option"
  item_notes :: "string option"

record bom_info =
  bi_part_id :: json
  bi_fg_id :: json
  bi_part_name :: json

record process_bpr_response =
  pb_success :: bool
  pb_mo_id :: int
  pb_mo_number :: string
  pb_parts_usage_created :: nat
  pb_parts_usage_ids :: "int list"
  pb_mo_updated :: bool
  pb_summary :: string

definition MO_STATUS_CLOSED :: rat where
  "MO_STATUS_CLOSED = 4554566"

definition DEDUCTION_METHOD_ACTUAL_USAGE :: rat where
  "DEDUCTION_METHOD_ACTUAL_USAGE = 4669016"

text \<open>Step 2: the loop that fills \<open>bomLookup\<close> from the fetched mappings.\<close>

fun bomLookupLoop :: "int list \<Rightarrow> baserow_record list \<Rightarrow> (int \<times> bom_info) list
    \<Rightarrow> (int \<times> bom_info) list" where
  "bomLookupLoop bomIds [] bomLookup = bomLookup"
| "bomLookupLoop bomIds (mapping # rest) bomLookup =
     (if rec_id mapping \<in> set bomIds then
        (let part = getField (rec_fields mapping) ''Part'';
             finishedGood = getField (rec_fields mapping) ''Finished Good''
         in if nonEmptyArray part \<and> nonEmptyArray finishedGood then
              bomLookupLoop bomIds rest
                (mapSet (rec_id mapping)
                   \<lparr>bi_part_id = js_or (optProp (index0 part) ''id'') (JNum 0),
                    bi_fg_id = js_or (optProp (index0 finishedGood) ''id'') (JNum 0),
                    bi_part_name = js_or (optProp (index0 part) ''value'') (JStr ''Unknown'')\<rparr>
                   bomLookup)
            else bomLookupLoop bomIds rest bomLookup)
      else bomLookupLoop bomIds rest bomLookup)"

text \<open>
  Step 2.5: the lot loop. \<open>lotNumbersToLookup.includes(v)\<close> holds only of a string among
  the lot numbers.
\<close>

fun lotLookupLoop :: "string list \<Rightarrow> baserow_record list \<Rightarrow> (string \<times> int) list
    \<Rightarrow> (string \<times> int) list" where
  "lotLookupLoop lotNumbersToLookup [] lotLookup = lotLookup"
| "lotLookupLoop lotNumbersToLookup (lot # rest) lotLookup =
     (case getField (rec_fields lot) ''Internal Lot Number'' of
        JStr internalLotNumber \<Rightarrow>
          if internalLotNumber \<noteq> [] \<and> internalLotNumber \<in> set lotNumbersToLookup then
            lotLookupLoop lotNumbersToLookup rest (mapSet internalLotNumber (rec_id lot) lotLookup)
          else lotLookupLoop lotNumbersToLookup rest lotLookup
      | _ \<Rightarrow> lotLookupLoop lotNumbersToLookup rest lotLookup)"

text \<open>The predicate passed to \<open>some\<close> and to \<open>find\<close> in the label loop.\<close>

definition labelMatches :: "string \<Rightarrow> string \<Rightarrow> bool" where
  "labelMatches labelCode code =
     (toLowerCase code = toLowerCase labelCode
      \<or> strIncludes (toLowerCase labelCode) (toLowerCase code)
      \<or> strIncludes (toLowerCase code) (toLowerCase labelCode))"

text \<open>
  The label loop. The display value of the link is cast to a string, not checked: on a
  truthy value that is no string, \<open>labelCode.toLowerCase()\<close> throws in the first call
  of the predicate.
\<close>

fun labelLookupLoop :: "string list \<Rightarrow> baserow_record list \<Rightarrow> (string \<times> int) list
    \<Rightarrow> exn + (string \<times> int) list" where
  "labelLookupLoop labelCodesToLookup [] labelLookup = Inr labelLookup"
| "labelLookupLoop labelCodesToLookup (label # rest) labelLookup =
     (let partBomId = getField (rec_fields label) ''Part BOM ID''
      in if nonEmptyArray partBomId then
           (let labelCode = optProp (index0 partBomId) ''value''
            in if truthy labelCode then
                 (case labelCode of
                    JStr lc \<Rightarrow>
                      if list_ex (labelMatches lc) labelCodesToLookup then
                        (case find (labelMatches lc) labelCodesToLookup of
                           Some matchedCode \<Rightarrow>
                             if matchedCode \<noteq> [] then
                               labelLookupLoop labelCodesToLookup rest
                                 (mapSet matchedCode (rec_id label) labelLookup)
                             else labelLookupLoop labelCodesToLookup rest labelLookup
                         | None \<Rightarrow> labelLookupLoop labelCodesToLookup rest labelLookup)
                      else labelLookupLoop labelCodesToLookup rest labelLookup
                  | _ \<Rightarrow>
                      if labelCodesToLookup = [] then
                        labelLookupLoop labelCodesToLookup rest labelLookup
                      else Inl (TypeError ''labelCode.toLowerCase is not a function''))
               else labelLookupLoop labelCodesToLookup rest labelLookup)
         else labelLookupLoop labelCodesToLookup rest labelLookup)"

text \<open>\<open>part.lot_id || (part.lot_number ? lotLookup.get(part.lot_number) : undefined)\<close>,
  and the same for labels.\<close>

definition resolveId :: "int option \<Rightarrow> string option \<Rightarrow> (string \<times> int) list \<Rightarrow> int option" where
  "resolveId direct name lookup =
     (if truthyNum direct then direct
      else (case name of
              None \<Rightarrow> None
            | Some n \<Rightarrow> if n \<noteq> [] then mapGet lookup n else None))"

text \<open>Step 3: the data of the usage record created for one item.\<close>

definition usageData :: "int \<Rightarrow> string \<Rightarrow> string option \<Rightarrow> bom_info \<Rightarrow> (string \<times> int) list
    \<Rightarrow> (string \<times> int) list \<Rightarrow> parts_usage_item \<Rightarrow> record_data" where
  "usageData moId moNumber enteredBy bomInfo lotLookup labelLookup part =
     [(''Manufacturing Order'', JArr [JNum (of_int moId)]),
      (''Parts'', JArr [bi_part_id bomInfo]),
      (''Finished Goods'', JArr [bi_fg_id bomInfo]),
      (''Actual Quantity Used'', JNum (quantity part)),
      (''Notes'', JStr (if truthyStr (item_notes part) then the (item_notes part)
                        else ''From BPR scan - '' @ moNumber)),
      (''Entered By'', JStr (if truthyStr enteredBy then the enteredBy else ''Alexa via Claude''))]
     @ (let resolvedLotId = resolveId (lot_id part) (lot_number part) lotLookup
        in if truthyNum resolvedLotId
           then [(''RM Lot Inventory Used'', JArr [JNum (of_int (the resolvedLotId))])] else [])
     @ (let resolvedLabelId = resolveId (label_id part) (label_code part) labelLookup
        in if truthyNum resolvedLabelId
           then [(''Label Inventory Used'', JArr [JNum (of_int (the resolvedLabelId))])] else [])
     @ (case waste part of None \<Rightarrow> [] | Some w \<Rightarrow> [(''Waste/Spillage'', JNum w)])"

text \<open>
  Step 3: the loop that creates the usage records, one request after the other. An
  exception of a creation leaves the loop at once. \<open>bomLookup.get(part.bom_id)!\<close> is
  not checked; reading a property of \<open>undefined\<close> would throw.
\<close>

fun createUsageLoop :: "int remote \<Rightarrow> allow_list_manager \<Rightarrow> int \<Rightarrow> string \<Rightarrow> string option
    \<Rightarrow> (int \<times> bom_info) list \<Rightarrow> (string \<times> int) list \<Rightarrow> (string \<times> int) list
    \<Rightarrow> parts_usage_item list \<Rightarrow> baserow_record list \<Rightarrow> int call list
    \<Rightarrow> (exn + baserow_record list) \<times> int call list" where
  "createUsageLoop R m moId moNumber enteredBy bomLookup lotLookup labelLookup [] usageRecords lg =
     (Inr usageRecords, lg)"
| "createUsageLoop R m moId moNumber enteredBy bomLookup lotLookup labelLookup (part # rest)
       usageRecords lg =
     (case mapGet bomLookup (bom_id part) of
        None \<Rightarrow> (Inl (TypeError ''Cannot read properties of undefined''), lg)
      | Some bomInfo \<Rightarrow>
          (case createRecord R m ''mo_parts_usage''
                  (usageData moId moNumber enteredBy bomInfo lotLookup labelLookup part) lg of
             (Inl err, lg') \<Rightarrow> (Inl err, lg')
           | (Inr record, lg') \<Rightarrow>
               createUsageLoop R m moId moNumber enteredBy bomLookup lotLookup labelLookup rest
                 (usageRecords @ [record]) lg'))"

text \<open>Step 4: the data of the update of the Manufacturing Order.\<close>

definition updateData :: "string \<Rightarrow> string \<Rightarrow> record_data" where
  "updateData completionDate grossProduced =
     [(''MO Status'', JNum MO_STATUS_CLOSED),
      (''Deduction Method'', JNum DEDUCTION_METHOD_ACTUAL_USAGE),
      (''MFG Date Completed'', JStr completionDate),
      (''Gross Produced'', JStr grossProduced),
      (''Actual Usage Complete'', JBool True),
      (''MO Inventory Processed'', JBool True)]"

text \<open>The lots and the labels are fetched only when some item asks for a lookup.\<close>

definition lotNumbersOf :: "parts_usage_item list \<Rightarrow> string list" where
  "lotNumbersOf partsUsage =
     map (\<lambda>p. the (lot_number p))
       (filter (\<lambda>p. truthyStr (lot_number p) \<and> \<not> truthyNum (lot_id p)) partsUsage)"

definition labelCodesOf :: "parts_usage_item list \<Rightarrow> string list" where
  "labelCodesOf partsUsage =
     map (\<lambda>p. the (label_code p))
       (filter (\<lambda>p. truthyStr (label_code p) \<and> \<not> truthyNum (label_id p)) partsUsage)"

definition lookupLots :: "int remote \<Rightarrow> allow_list_manager \<Rightarrow> string list \<Rightarrow> int call list
    \<Rightarrow> (exn + (string \<times> int) list) \<times> int call list" where
  "lookupLots R m lotNumbersToLookup lg =
     (if lotNumbersToLookup \<noteq> [] then
        (case readRecords R m ''raw_material_lots'' (Some []) (Some 1) (Some 200) lg of
           (Inl err, lg') \<Rightarrow> (Inl err, lg')
         | (Inr lotsResponse, lg') \<Rightarrow>
             (Inr (lotLookupLoop lotNumbersToLookup (lr_results lotsResponse) []), lg'))
      else (Inr [], lg))"

definition lookupLabels :: "int remote \<Rightarrow> allow_list_manager \<Rightarrow> string list \<Rightarrow> int call list
    \<Rightarrow> (exn + (string \<times> int) list) \<times> int call list" where
  "lookupLabels R m labelCodesToLookup lg =
     (if labelCodesToLookup \<noteq> [] then
        (case readRecords R m ''label_inventory'' (Some []) (Some 1) (Some 200) lg of
           (Inl err, lg') \<Rightarrow> (Inl err, lg')
         | (Inr labelsResponse, lg') \<Rightarrow>
             (labelLookupLoop labelCodesToLookup (lr_results labelsResponse) [], lg'))
      else (Inr [], lg))"

text \<open>Steps 3 and 4 with the answer, once the lookups are done.\<close>

definition createAndClose :: "int remote \<Rightarrow> allow_list_manager \<Rightarrow> int \<Rightarrow> string \<Rightarrow> string
    \<Rightarrow> string \<Rightarrow> string option \<Rightarrow> (int \<times> bom_info) list \<Rightarrow> (string \<times> int) list
    \<Rightarrow> (string \<times> int) list \<Rightarrow> parts_usage_item list \<Rightarrow> int call list
    \<Rightarrow> (exn + process_bpr_response mcp_response) \<times> int call list" where
  "createAndClose R m moId moNumber completionDate grossProduced enteredBy bomLookup lotLookup
       labelLookup partsUsage lg =
     (case createUsageLoop R m moId moNumber enteredBy bomLookup lotLookup labelLookup
             partsUsage [] lg of
        (Inl err, lg') \<Rightarrow> (Inl err, lg')
      | (Inr usageRecords, lg') \<Rightarrow>
          (case updateRecord R m ''manufacturing_orders'' moId
                  (updateData completionDate grossProduced) lg' of
             (Inl err, lg'') \<Rightarrow> (Inl err, lg'')
           | (Inr updated, lg'') \<Rightarrow>
               (Inr (SuccessResponse
                       \<lparr>pb_success = True, pb_mo_id = moId, pb_mo_number = moNumber,
                        pb_parts_usage_created = length usageRecords,
                        pb_parts_usage_ids = map rec_id usageRecords,
                        pb_mo_updated = True,
                        pb_summary =
                          ''BPR processed: MO '' @ moNumber @ '' closed with ''
                            @ showNat (length usageRecords)
                            @ '' parts usage records. Gross produced: '' @ grossProduced\<rparr>
                       None), lg'')))"

definition handleProcessBPR :: "int remote \<Rightarrow> allow_list_manager \<Rightarrow> string \<Rightarrow> string \<Rightarrow> string
    \<Rightarrow> parts_usage_item list \<Rightarrow> string option \<Rightarrow> int call list
    \<Rightarrow> (exn + process_bpr_response mcp_response) \<times> int call list" where
  "handleProcessBPR R m moNumber completionDate grossProduced partsUsage enteredBy lg =
     (case readRecords R m ''manufacturing_orders'' (Some [(''MO Number'', JStr moNumber)])
             (Some 1) (Some 1) lg of
        (Inl err, lg1) \<Rightarrow> (Inl err, lg1)
      | (Inr moResponse, lg1) \<Rightarrow>
          (case lr_results moResponse of
             [] \<Rightarrow>
               (Inr (ErrorResponse ''MO_NOT_FOUND''
                       (''Manufacturing Order '' @ moNumber @ '' not found'') None), lg1)
           | mo # others \<Rightarrow>
               (let moId = rec_id mo; bomIds = map bom_id partsUsage
                in case readRecords R m ''fg_parts_mapping'' (Some []) (Some 1) (Some 200) lg1 of
                     (Inl err, lg2) \<Rightarrow> (Inl err, lg2)
                   | (Inr mappingsResponse, lg2) \<Rightarrow>
                       (let bomLookup = bomLookupLoop bomIds (lr_results mappingsResponse) [];
                            missingBomIds = filter (\<lambda>i. \<not> mapHas bomLookup i) bomIds
                        in if missingBomIds \<noteq> [] then
                             (Inr (ErrorResponse ''BOM_NOT_FOUND''
                                     (''BOM mapping IDs not found: ''
                                        @ join '', '' (map showInt missingBomIds)) None), lg2)
                           else
                             (case lookupLots R m (lotNumbersOf partsUsage) lg2 of
                                (Inl err, lg3) \<Rightarrow> (Inl err, lg3)
                              | (Inr lotLookup, lg3) \<Rightarrow>
                                  (case lookupLabels R m (labelCodesOf partsUsage) lg3 of
                                     (Inl err, lg4) \<Rightarrow> (Inl err, lg4)
                                   | (Inr labelLookup, lg4) \<Rightarrow>
                                       createAndClose R m moId moNumber completionDate
                                         grossProduced enteredBy bomLookup lotLookup labelLookup
                                         partsUsage lg4))))))"

subsection \<open>list_tables\<close>

text \<open>\<open>getAllowedTables\<close> of the allow list, which \<open>listAllowedTables\<close> of the tables
  service returns, and the handler of the command.\<close>

definition getAllowedTables :: "allow_list_manager \<Rightarrow> exn + table_info list" where
  "getAllowedTables m =
     (if \<not> initialized m then Inl (Error ''AllowListManager not initialized'')
      else Inr (map snd (tableMap m)))"

definition handleListTables :: "allow_list_manager \<Rightarrow> exn + table_info list mcp_response" where
  "handleListTables m =
     (case getAllowedTables m of
        Inl err \<Rightarrow> Inl err
      | Inr tables \<Rightarrow> Inr (SuccessResponse tables None))"

subsection \<open>Tool calls: the request, its validation and its route\<close>

text \<open>
  The keys of \<open>commandMap\<close>, each mapped to itself. \<open>commandMap[toolName]\<close> reads a key
  of the object or, for another name, a member the object inherits from
  \<open>Object.prototype\<close>: a function, or for \<open>__proto__\<close> the prototype itself. Such a
  member is truthy and is no string, and the program asks nothing else of it; it is
  written \<open>JObj []\<close> here. Every other name reads as \<open>undefined\<close>.
\<close>

definition commandNames :: "string list" where
  "commandNames =
     [''list_tables'', ''read'', ''create'', ''update'', ''delete'', ''batch_create'',
      ''get_bom'', ''process_bpr'', ''search_parts'']"

definition objectPrototypeMembers :: "string list" where
  "objectPrototypeMembers =
     [''constructor'', ''__defineGetter__'', ''__defineSetter__'', ''hasOwnProperty'',
      ''__lookupGetter__'', ''__lookupSetter__'', ''isPrototypeOf'', ''propertyIsEnumerable'',
      ''toString'', ''valueOf'', ''__proto__'', ''toLocaleString'']"

definition commandMap :: "string \<Rightarrow> json" where
  "commandMap toolName =
     (if toolName \<in> set commandNames then JStr toolName
      else if toolName \<in> set objectPrototypeMembers then JObj []
      else JUndef)"

text \<open>
  The entries that \<open>...args\<close> copies into an object literal: those of an object, the
  indexed entries of an array, and none for a value that is not an object.
\<close>

definition spreadEntries :: "json \<Rightarrow> (string \<times> json) list" where
  "spreadEntries args =
     (case args of
        JObj kvs \<Rightarrow> kvs
      | JArr xs \<Rightarrow> zip (map showNat [0..<length xs]) xs
      | _ \<Rightarrow> [])"

text \<open>
  \<open>buildRequest\<close>: the request is \<open>{command, ...args}\<close>. An entry \<open>command\<close> of the
  arguments replaces the command of the tool. The order of the entries of the request is
  read by nothing.
\<close>

definition buildRequest :: "string \<Rightarrow> json \<Rightarrow> exn + (string \<times> json) list" where
  "buildRequest toolName args =
     (let command = commandMap toolName
      in if \<not> truthy command then Inl (Error (''Unknown tool: '' @ toolName))
         else Inr ((''command'',
                     (case map_of (spreadEntries args) ''command'' of
                        None \<Rightarrow> command
                      | Some v \<Rightarrow> v))
                   # filter (\<lambda>(k, v). k \<noteq> ''command'') (spreadEntries args)))"

text \<open>
  The schemas of \<open>types/mcp.ts\<close> are zod schemas. A failed check yields an issue, which
  \<open>validateRequest\<close> renders as \<open>path: message\<close>, the path being the keys and indices
  down to the value, joined by dots. The message is the library's, and is the parameter
  \<open>zodMessage\<close>, from the kind of check and the value. The issues come in the order of
  the keys of the schema, and for an array in the order of its entries.
\<close>

definition zodIssue :: "(string \<Rightarrow> json \<Rightarrow> string) \<Rightarrow> string \<Rightarrow> string \<Rightarrow> json \<Rightarrow> string" where
  "zodIssue zodMessage kind path v = path @ '': '' @ zodMessage kind v"

text \<open>\<open>TableNameSchema = z.enum(ALLOWED_TABLE_NAMES)\<close>.\<close>

definition tableIssues :: "(string \<Rightarrow> json \<Rightarrow> string) \<Rightarrow> string \<Rightarrow> json \<Rightarrow> string list" where
  "tableIssues zodMessage path v =
     (case v of
        JStr t \<Rightarrow>
          if t \<in> set ALLOWED_TABLE_NAMES then []
          else [zodIssue zodMessage ''invalid_enum_value'' path v]
      | _ \<Rightarrow> [zodIssue zodMessage ''invalid_type'' path v])"

text \<open>\<open>z.string()\<close>, with \<open>.optional()\<close> where the schema has it.\<close>

definition stringIssues :: "(string \<Rightarrow> json \<Rightarrow> string) \<Rightarrow> string \<Rightarrow> bool \<Rightarrow> json \<Rightarrow> string list" where
  "stringIssues zodMessage path optional v =
     (case v of
        JStr s \<Rightarrow> []
      | JUndef \<Rightarrow> if optional then [] else [zodIssue zodMessage ''invalid_type'' path v]
      | _ \<Rightarrow> [zodIssue zodMessage ''invalid_type'' path v])"

text \<open>\<open>z.number()\<close>, with \<open>.optional()\<close> where the schema has it.\<close>

definition numberIssues :: "(string \<Rightarrow> json \<Rightarrow> string) \<Rightarrow> string \<Rightarrow> bool \<Rightarrow> json \<Rightarrow> string list" where
  "numberIssues zodMessage path optional v =
     (case v of
        JNum r \<Rightarrow> []
      | JUndef \<Rightarrow> if optional then [] else [zodIssue zodMessage ''invalid_type'' path v]
      | _ \<Rightarrow> [zodIssue zodMessage ''invalid_type'' path v])"

text \<open>
  \<open>z.number().int().positive()\<close>, with \<open>.max(bound)\<close> and \<open>.optional()\<close> where the
  schema has them. Each failed check of a number is an issue of its own.
\<close>

definition positiveIntIssues :: "(string \<Rightarrow> json \<Rightarrow> string) \<Rightarrow> string \<Rightarrow> bool \<Rightarrow> rat option
    \<Rightarrow> json \<Rightarrow> string list" where
  "positiveIntIssues zodMessage path optional bound v =
     (case v of
        JNum r \<Rightarrow>
          (if r \<noteq> of_int \<lfloor>r\<rfloor> then [zodIssue zodMessage ''invalid_type'' path v] else [])
          @ (if r \<le> 0 then [zodIssue zodMessage ''too_small'' path v] else [])
          @ (case bound of
               None \<Rightarrow> []
             | Some b \<Rightarrow> if b < r then [zodIssue zodMessage ''too_big'' path v] else [])
      | JUndef \<Rightarrow> if optional then [] else [zodIssue zodMessage ''invalid_type'' path v]
      | _ \<Rightarrow> [zodIssue zodMessage ''invalid_type'' path v])"

text \<open>\<open>FilterValueSchema\<close>: a string, a number, a boolean or null. The values of
  \<open>RecordDataSchema\<close> may also be arrays, of anything.\<close>

fun isFilterValue :: "json \<Rightarrow> bool" where
  "isFilterValue (JStr s) = True"
| "isFilterValue (JNum r) = True"
| "isFilterValue (JBool b) = True"
| "isFilterValue JNull = True"
| "isFilterValue v = False"

definition isRecordValue :: "json \<Rightarrow> bool" where
  "isRecordValue v = (isFilterValue v \<or> isArray v)"

text \<open>
  \<open>z.record(z.string(), valueSchema)\<close>, the value schema being a union: the value must be
  an object, and each entry whose value no member of the union admits is one issue.
\<close>

definition recordIssues :: "(string \<Rightarrow> json \<Rightarrow> string) \<Rightarrow> string \<Rightarrow> (json \<Rightarrow> bool) \<Rightarrow> json
    \<Rightarrow> string list" where
  "recordIssues zodMessage path admitted v =
     (case v of
        JObj kvs \<Rightarrow>
          map (\<lambda>(k, x). zodIssue zodMessage ''invalid_union'' (path @ ''.'' @ k) x)
            (filter (\<lambda>(k, x). \<not> admitted x) kvs)
      | _ \<Rightarrow> [zodIssue zodMessage ''invalid_type'' path v])"

text \<open>\<open>FiltersSchema = z.record(z.string(), FilterValueSchema).optional()\<close>.\<close>

definition filtersIssues :: "(string \<Rightarrow> json \<Rightarrow> string) \<Rightarrow> string \<Rightarrow> json \<Rightarrow> string list" where
  "filtersIssues zodMessage path v =
     (case v of
        JUndef \<Rightarrow> []
      | _ \<Rightarrow> recordIssues zodMessage path isFilterValue v)"

text \<open>
  \<open>z.array(element)\<close>, with \<open>.max(bound)\<close> where the schema has it: the value must be an
  array; an array that is too long is one issue, and its entries are checked all the same.
\<close>

definition arrayIssues :: "(string \<Rightarrow> json \<Rightarrow> string) \<Rightarrow> string \<Rightarrow> nat option
    \<Rightarrow> (string \<Rightarrow> json \<Rightarrow> string list) \<Rightarrow> json \<Rightarrow> string list" where
  "arrayIssues zodMessage path bound element v =
     (case v of
        JArr xs \<Rightarrow>
          (case bound of
             None \<Rightarrow> []
           | Some b \<Rightarrow> if b < length xs then [zodIssue zodMessage ''too_big'' path v] else [])
          @ concat (map (\<lambda>(i, x). element (path @ ''.'' @ showNat i) x) (zip [0..<length xs] xs))
      | _ \<Rightarrow> [zodIssue zodMessage ''invalid_type'' path v])"

text \<open>\<open>PartsUsageItemSchema\<close>.\<close>

definition partsUsageItemIssues :: "(string \<Rightarrow> json \<Rightarrow> string) \<Rightarrow> string \<Rightarrow> json \<Rightarrow> string list" where
  "partsUsageItemIssues zodMessage path v =
     (case v of
        JObj kvs \<Rightarrow>
          positiveIntIssues zodMessage (path @ ''.bom_id'') False None (getField kvs ''bom_id'')
          @ numberIssues zodMessage (path @ ''.quantity'') False (getField kvs ''quantity'')
          @ positiveIntIssues zodMessage (path @ ''.lot_id'') True None (getField kvs ''lot_id'')
          @ stringIssues zodMessage (path @ ''.lot_number'') True (getField kvs ''lot_number'')
          @ positiveIntIssues zodMessage (path @ ''.label_id'') True None (getField kvs ''label_id'')
          @ stringIssues zodMessage (path @ ''.label_code'') True (getField kvs ''label_code'')
          @ numberIssues zodMessage (path @ ''.waste'') True (getField kvs ''waste'')
          @ stringIssues zodMessage (path @ ''.notes'') True (getField kvs ''notes'')
      | _ \<Rightarrow> [zodIssue zodMessage ''invalid_type'' path v])"

text \<open>
  The values a schema returns for a value it has admitted. A number that passed
  \<open>.int()\<close> is an integer. The object that \<open>z.record\<close> returns has the entries of its
  input but one named \<open>__proto__\<close>, which the library does not copy.
\<close>

definition stringOf :: "json \<Rightarrow> string" where
  "stringOf v = (case v of JStr s \<Rightarrow> s | _ \<Rightarrow> [])"

definition optStringOf :: "json \<Rightarrow> string option" where
  "optStringOf v = (case v of JStr s \<Rightarrow> Some s | _ \<Rightarrow> None)"

definition intOf :: "json \<Rightarrow> int" where
  "intOf v = (case v of JNum r \<Rightarrow> \<lfloor>r\<rfloor> | _ \<Rightarrow> 0)"

definition optIntOf :: "json \<Rightarrow> int option" where
  "optIntOf v = (case v of JNum r \<Rightarrow> Some \<lfloor>r\<rfloor> | _ \<Rightarrow> None)"

definition numberOf :: "json \<Rightarrow> rat" where
  "numberOf v = (case v of JNum r \<Rightarrow> r | _ \<Rightarrow> 0)"

definition optNumberOf :: "json \<Rightarrow> rat option" where
  "optNumberOf v = (case v of JNum r \<Rightarrow> Some r | _ \<Rightarrow> None)"

definition recordOf :: "json \<Rightarrow> (string \<times> json) list" where
  "recordOf v = (case v of JObj kvs \<Rightarrow> filter (\<lambda>(k, x). k \<noteq> ''__proto__'') kvs | _ \<Rightarrow> [])"

definition optRecordOf :: "json \<Rightarrow> (string \<times> json) list option" where
  "optRecordOf v = (case v of JUndef \<Rightarrow> None | _ \<Rightarrow> Some (recordOf v))"

definition arrayOf :: "(json \<Rightarrow> 'a) \<Rightarrow> json \<Rightarrow> 'a list" where
  "arrayOf element v = (case v of JArr xs \<Rightarrow> map element xs | _ \<Rightarrow> [])"

definition partsUsageItemOf :: "json \<Rightarrow> parts_usage_item" where
  "partsUsageItemOf v =
     \<lparr>bom_id = intOf (optProp v ''bom_id''),
      quantity = numberOf (optProp v ''quantity''),
      lot_id = optIntOf (optProp v ''lot_id''),
      lot_number = optStringOf (optProp v ''lot_number''),
      label_id = optIntOf (optProp v ''label_id''),
      label_code = optStringOf (optProp v ''label_code''),
      waste = optNumberOf (optProp v ''waste''),
      item_notes = optStringOf (optProp v ''notes'')\<rparr>"

text \<open>The type \<open>MCPRequest\<close>: a validated request, one form for each command.\<close>

datatype mcp_request =
    ListTablesCommand
  | ReadCommand string "filters option" "int option" "int option"
  | CreateCommand string record_data
  | UpdateCommand string int record_data
  | DeleteCommand string int
  | BatchCreateCommand string "record_data list"
  | GetBOMCommand "int option" "string option"
  | ProcessBPRCommand string string string "parts_usage_item list" "string option"
  | SearchPartsCommand "string list"

text \<open>
  The schema of each command: the issues of the request in the order of the keys of the
  schema, and the validated request when there is none. Keys of the request that the
  schema does not name are dropped.
\<close>

definition checked :: "string list \<Rightarrow> mcp_request \<Rightarrow> string list + mcp_request" where
  "checked issues request = (if issues = [] then Inr request else Inl issues)"

definition ReadCommandSchema :: "(string \<Rightarrow> json \<Rightarrow> string) \<Rightarrow> (string \<times> json) list
    \<Rightarrow> string list + mcp_request" where
  "ReadCommandSchema zodMessage request =
     checked
       (tableIssues zodMessage ''table'' (getField request ''table'')
        @ filtersIssues zodMessage ''filters'' (getField request ''filters'')
        @ positiveIntIssues zodMessage ''page'' True None (getField request ''page'')
        @ positiveIntIssues zodMessage ''size'' True (Some 200) (getField request ''size''))
       (ReadCommand (stringOf (getField request ''table''))
          (optRecordOf (getField request ''filters''))
          (optIntOf (getField request ''page'')) (optIntOf (getField request ''size'')))"

definition CreateCommandSchema :: "(string \<Rightarrow> json \<Rightarrow> string) \<Rightarrow> (string \<times> json) list
    \<Rightarrow> string list + mcp_request" where
  "CreateCommandSchema zodMessage request =
     checked
       (tableIssues zodMessage ''table'' (getField request ''table'')
        @ recordIssues zodMessage ''data'' isRecordValue (getField request ''data''))
       (CreateCommand (stringOf (getField request ''table'')) (recordOf (getField request ''data'')))"

definition UpdateCommandSchema :: "(string \<Rightarrow> json \<Rightarrow> string) \<Rightarrow> (string \<times> json) list
    \<Rightarrow> string list + mcp_request" where
  "UpdateCommandSchema zodMessage request =
     checked
       (tableIssues zodMessage ''table'' (getField request ''table'')
        @ positiveIntIssues zodMessage ''record_id'' False None (getField request ''record_id'')
        @ recordIssues zodMessage ''data'' isRecordValue (getField request ''data''))
       (UpdateCommand (stringOf (getField request ''table'')) (intOf (getField request ''record_id''))
          (recordOf (getField request ''data'')))"

definition DeleteCommandSchema :: "(string \<Rightarrow> json \<Rightarrow> string) \<Rightarrow> (string \<times> json) list
    \<Rightarrow> string list + mcp_request" where
  "DeleteCommandSchema zodMessage request =
     checked
       (tableIssues zodMessage ''table'' (getField request ''table'')
        @ positiveIntIssues zodMessage ''record_id'' False None (getField request ''record_id''))
       (DeleteCommand (stringOf (getField request ''table'')) (intOf (getField request ''record_id'')))"

definition BatchCreateCommandSchema :: "(string \<Rightarrow> json \<Rightarrow> string) \<Rightarrow> (string \<times> json) list
    \<Rightarrow> string list + mcp_request" where
  "BatchCreateCommandSchema zodMessage request =
     checked
       (tableIssues zodMessage ''table'' (getField request ''table'')
        @ arrayIssues zodMessage ''records'' (Some 50)
            (\<lambda>path. recordIssues zodMessage path isRecordValue) (getField request ''records''))
       (BatchCreateCommand (stringOf (getField request ''table''))
          (arrayOf recordOf (getField request ''records'')))"

definition GetBOMCommandSchema :: "(string \<Rightarrow> json \<Rightarrow> string) \<Rightarrow> (string \<times> json) list
    \<Rightarrow> string list + mcp_request" where
  "GetBOMCommandSchema zodMessage request =
     checked
       (positiveIntIssues zodMessage ''fg_id'' True None (getField request ''fg_id'')
        @ stringIssues zodMessage ''isku'' True (getField request ''isku''))
       (GetBOMCommand (optIntOf (getField request ''fg_id'')) (optStringOf (getField request ''isku'')))"

definition ProcessBPRCommandSchema :: "(string \<Rightarrow> json \<Rightarrow> string) \<Rightarrow> (string \<times> json) list
    \<Rightarrow> string list + mcp_request" where
  "ProcessBPRCommandSchema zodMessage request =
     checked
       (stringIssues zodMessage ''mo_number'' False (getField request ''mo_number'')
        @ stringIssues zodMessage ''completion_date'' False (getField request ''completion_date'')
        @ stringIssues zodMessage ''gross_produced'' False (getField request ''gross_produced'')
        @ arrayIssues zodMessage ''parts_usage'' None (partsUsageItemIssues zodMessage)
            (getField request ''parts_usage'')
        @ stringIssues zodMessage ''entered_by'' True (getField request ''entered_by''))
       (ProcessBPRCommand (stringOf (getField request ''mo_number''))
          (stringOf (getField request ''completion_date''))
          (stringOf (getField request ''gross_produced''))
          (arrayOf partsUsageItemOf (getField request ''parts_usage''))
          (optStringOf (getField request ''entered_by'')))"

definition SearchPartsCommandSchema :: "(string \<Rightarrow> json \<Rightarrow> string) \<Rightarrow> (string \<times> json) list
    \<Rightarrow> string list + mcp_request" where
  "SearchPartsCommandSchema zodMessage request =
     checked
       (arrayIssues zodMessage ''search_terms'' None
          (\<lambda>path. stringIssues zodMessage path False) (getField request ''search_terms''))
       (SearchPartsCommand (arrayOf stringOf (getField request ''search_terms'')))"

text \<open>
  \<open>MCPRequestSchema\<close>, the union discriminated by \<open>command\<close>: the schema of the
  command the request names, and one issue when it names none of the nine.
\<close>

definition MCPRequestSchema :: "(string \<Rightarrow> json \<Rightarrow> string) \<Rightarrow> (string \<times> json) list
    \<Rightarrow> string list + mcp_request" where
  "MCPRequestSchema zodMessage request =
     (let command = getField request ''command''
      in if command = JStr ''list_tables'' then Inr ListTablesCommand
         else if command = JStr ''read'' then ReadCommandSchema zodMessage request
         else if command = JStr ''create'' then CreateCommandSchema zodMessage request
         else if command = JStr ''update'' then UpdateCommandSchema zodMessage request
         else if command = JStr ''delete'' then DeleteCommandSchema zodMessage request
         else if command = JStr ''batch_create'' then BatchCreateCommandSchema zodMessage request
         else if command = JStr ''get_bom'' then GetBOMCommandSchema zodMessage request
         else if command = JStr ''process_bpr'' then ProcessBPRCommandSchema zodMessage request
         else if command = JStr ''search_parts'' then SearchPartsCommandSchema zodMessage request
         else Inl [zodIssue zodMessage ''invalid_union_discriminator'' ''command'' command])"

text \<open>\<open>validateRequest\<close>: the issues become the message of a \<open>ValidationError\<close>.\<close>

definition validateRequest :: "(string \<Rightarrow> json \<Rightarrow> string) \<Rightarrow> (string \<times> json) list
    \<Rightarrow> exn + mcp_request" where
  "validateRequest zodMessage request =
     (case MCPRequestSchema zodMessage request of
        Inl issues \<Rightarrow> Inl (ValidationError (join ''; '' issues))
      | Inr validatedRequest \<Rightarrow> Inr validatedRequest)"

text \<open>
  The responses of the handlers differ in the type of their data; the response of a tool
  call has the union of these types.
\<close>

datatype ('q, 'b) tool_data =
    TablesData "table_info list"
  | ListData list_response
  | RecordData baserow_record
  | DeletedData "bool \<times> int"
  | BatchData 'b
  | BomData "'q get_bom_response"
  | BprData process_bpr_response
  | PartsData search_parts_response

definition withData :: "('a \<Rightarrow> 'd) \<Rightarrow> (exn + 'a mcp_response) \<times> 'l \<Rightarrow> (exn + 'd mcp_response) \<times> 'l" where
  "withData tag r =
     (case r of
        (Inl err, lg) \<Rightarrow> (Inl err, lg)
      | (Inr response, lg) \<Rightarrow> (Inr (map_mcp_response tag response), lg))"

text \<open>
  \<open>routeRequest\<close>. The handler of \<open>batch_create\<close> has the creations of a batch in flight
  together, so that the answers of the store to them are not a function of the requests
  sent before, which is how the store is described here; that handler is the parameter
  \<open>handleBatchCreate\<close>. The \<open>default\<close> branch of the \<open>switch\<close> is not reached by a
  validated request.
\<close>

fun routeRequest :: "(baserow_record list \<Rightarrow> string) \<Rightarrow> (json \<Rightarrow> 'q)
    \<Rightarrow> (string \<Rightarrow> record_data list \<Rightarrow> int call list \<Rightarrow> (exn + 'b mcp_response) \<times> int call list)
    \<Rightarrow> int remote \<Rightarrow> allow_list_manager \<Rightarrow> mcp_request \<Rightarrow> int call list
    \<Rightarrow> (exn + ('q, 'b) tool_data mcp_response) \<times> int call list" where
  "routeRequest stringify parseFloatString handleBatchCreate R m ListTablesCommand lg =
     withData TablesData (handleListTables m, lg)"
| "routeRequest stringify parseFloatString handleBatchCreate R m (ReadCommand table fs page sz) lg =
     withData ListData (handleRead stringify R m table fs page sz lg)"
| "routeRequest stringify parseFloatString handleBatchCreate R m (CreateCommand table data) lg =
     withData RecordData (handleCreate R m table data lg)"
| "routeRequest stringify parseFloatString handleBatchCreate R m (UpdateCommand table recordId data) lg =
     withData RecordData (handleUpdate R m table recordId data lg)"
| "routeRequest stringify parseFloatString handleBatchCreate R m (DeleteCommand table recordId) lg =
     withData DeletedData (handleDelete R m table recordId lg)"
| "routeRequest stringify parseFloatString handleBatchCreate R m (BatchCreateCommand table records) lg =
     withData BatchData (handleBatchCreate table records lg)"
| "routeRequest stringify parseFloatString handleBatchCreate R m (GetBOMCommand fgId isku) lg =
     withData BomData (handleGetBOM parseFloatString R m fgId isku lg)"
| "routeRequest stringify parseFloatString handleBatchCreate R m
       (ProcessBPRCommand moNumber completionDate grossProduced partsUsage enteredBy) lg =
     withData BprData
       (handleProcessBPR R m moNumber completionDate grossProduced partsUsage enteredBy lg)"
| "routeRequest stringify parseFloatString handleBatchCreate R m (SearchPartsCommand searchTerms) lg =
     withData PartsData (handleSearchParts R m searchTerms lg)"

text \<open>
  \<open>handleToolCall\<close>: the request is built, validated and routed, and every exception
  becomes an error response.
\<close>

definition handleToolCall :: "(baserow_record list \<Rightarrow> string) \<Rightarrow> (string \<Rightarrow> json \<Rightarrow> string) \<Rightarrow> (json \<Rightarrow> 'q)
    \<Rightarrow> (string \<Rightarrow> record_data list \<Rightarrow> int call list \<Rightarrow> (exn + 'b mcp_response) \<times> int call list)
    \<Rightarrow> int remote \<Rightarrow> allow_list_manager \<Rightarrow> string \<Rightarrow> json \<Rightarrow> int call list
    \<Rightarrow> ('q, 'b) tool_data mcp_response \<times> int call list" where
  "handleToolCall stringify zodMessage parseFloatString handleBatchCreate R m toolName args lg =
     catchError
       (case buildRequest toolName args of
          Inl err \<Rightarrow> (Inl err, lg)
        | Inr request \<Rightarrow>
            (case validateRequest zodMessage request of
               Inl err \<Rightarrow> (Inl err, lg)
             | Inr validatedRequest \<Rightarrow>
                 routeRequest stringify parseFloatString handleBatchCreate R m validatedRequest lg))"

section \<open>The Cloudflare Worker server (class \<open>MCPServer\<close>)\<close>

text \<open>
  The HTTP servers carry their own copy of the workflow. The table map of this one is an
  object from table names to identifier strings taken from the environment; an unset
  variable leaves \<open>undefined\<close> (\<open>None\<close>).
\<close>

record worker_env =
  TABLE_ID_MO :: "string option"
  TABLE_ID_FG :: "string option"
  TABLE_ID_PARTS_USAGE :: "string option"
  TABLE_ID_FG_PARTS_MAPPING :: "string option"
  TABLE_ID_RM_LOTS :: "string option"
  TABLE_ID_LABEL_INVENTORY :: "string option"
  TABLE_ID_PARTS :: "string option"

definition MCPServer_tableMap :: "worker_env \<Rightarrow> (string \<times> string option) list" where
  "MCPServer_tableMap e =
     [(''manufacturing_orders'', TABLE_ID_MO e),
      (''finished_goods'', TABLE_ID_FG e),
      (''mo_parts_usage'', TABLE_ID_PARTS_USAGE e),
      (''fg_parts_mapping'', TABLE_ID_FG_PARTS_MAPPING e),
      (''raw_material_lots'', TABLE_ID_RM_LOTS e),
      (''label_inventory'', TABLE_ID_LABEL_INVENTORY e),
      (''parts'', TABLE_ID_PARTS e)]"

definition MCPServer_getTableId :: "(string \<times> string option) list \<Rightarrow> string \<Rightarrow> exn + string" where
  "MCPServer_getTableId tm tableName =
     (let tableId = (case map_of tm tableName of None \<Rightarrow> None | Some v \<Rightarrow> v)
      in if \<not> truthyStr tableId then
           Inl (Error (''Table '' @ dquote @ tableName @ dquote
                  @ '' has no ID configured. Table IDs: ''
                  @ join '', ''
                      (map (\<lambda>(k, v). k @ ''='' @ (if truthyStr v then the v else ''UNDEFINED'')) tm)))
         else Inr (the tableId))"

text \<open>A list request of this server: the table identifier is resolved first.\<close>

definition MCPServer_list :: "string remote \<Rightarrow> (string \<times> string option) list \<Rightarrow> string
    \<Rightarrow> filters option \<Rightarrow> int \<Rightarrow> int \<Rightarrow> string call list
    \<Rightarrow> (exn + list_response) \<times> string call list" where
  "MCPServer_list R tm tableName fs page sz lg =
     (case MCPServer_getTableId tm tableName of
        Inl err \<Rightarrow> (Inl err, lg)
      | Inr tableId \<Rightarrow> client_listRecords R tableId fs (Some page) (Some sz) lg)"

record worker_bpr_data =
  wb_mo_id :: int
  wb_mo_number :: string
  wb_parts_usage_created :: nat
  wb_parts_usage_ids :: "int list"
  wb_mo_updated :: bool
  wb_summary :: string

text \<open>The label loop of this server: one \<open>find\<close>, with a one-way containment test.\<close>

definition MCPServer_labelMatches :: "string \<Rightarrow> string \<Rightarrow> bool" where
  "MCPServer_labelMatches labelCode code =
     (toLowerCase code = toLowerCase labelCode
      \<or> strIncludes (toLowerCase labelCode) (toLowerCase code))"

fun MCPServer_labelLoop :: "string list \<Rightarrow> baserow_record list \<Rightarrow> (string \<times> int) list
    \<Rightarrow> exn + (string \<times> int) list" where
  "MCPServer_labelLoop labelCodesToLookup [] labelLookup = Inr labelLookup"
| "MCPServer_labelLoop labelCodesToLookup (label # rest) labelLookup =
     (let partBomId = getField (rec_fields label) ''Part BOM ID''
      in if nonEmptyArray partBomId then
           (let labelCode = optProp (index0 partBomId) ''value''
            in if truthy labelCode then
                 (case labelCode of
                    JStr lc \<Rightarrow>
                      (case find (MCPServer_labelMatches lc) labelCodesToLookup of
                         Some matchedCode \<Rightarrow>
                           if matchedCode \<noteq> [] then
                             MCPServer_labelLoop labelCodesToLookup rest
                               (mapSet matchedCode (rec_id label) labelLookup)
                           else MCPServer_labelLoop labelCodesToLookup rest labelLookup
                       | None \<Rightarrow> MCPServer_labelLoop labelCodesToLookup rest labelLookup)
                  | _ \<Rightarrow>
                      if labelCodesToLookup = [] then
                        MCPServer_labelLoop labelCodesToLookup rest labelLookup
                      else Inl (TypeError ''labelCode.toLowerCase is not a function''))
               else MCPServer_labelLoop labelCodesToLookup rest labelLookup)
         else MCPServer_labelLoop labelCodesToLookup rest labelLookup)"

text \<open>
  The creation loop of this server. An item whose \<open>bom_id\<close> is not in \<open>bomLookup\<close> is
  skipped (\<open>if (!bomInfo) continue\<close>).
\<close>

fun MCPServer_createLoop :: "string remote \<Rightarrow> (string \<times> string option) list \<Rightarrow> int \<Rightarrow> string
    \<Rightarrow> string option \<Rightarrow> (int \<times> bom_info) list \<Rightarrow> (string \<times> int) list \<Rightarrow> (string \<times> int) list
    \<Rightarrow> parts_usage_item list \<Rightarrow> baserow_record list \<Rightarrow> string call list
    \<Rightarrow> (exn + baserow_record list) \<times> string call list" where
  "MCPServer_createLoop R tm moId moNumber enteredBy bomLookup lotLookup labelLookup []
       usageRecords lg = (Inr usageRecords, lg)"
| "MCPServer_createLoop R tm moId moNumber enteredBy bomLookup lotLookup labelLookup (part # rest)
       usageRecords lg =
     (case mapGet bomLookup (bom_id part) of
        None \<Rightarrow>
          MCPServer_createLoop R tm moId moNumber enteredBy bomLookup lotLookup labelLookup rest
            usageRecords lg
      | Some bomInfo \<Rightarrow>
          (case MCPServer_getTableId tm ''mo_parts_usage'' of
             Inl err \<Rightarrow> (Inl err, lg)
           | Inr tableId \<Rightarrow>
               (case client_createRecord R tableId
                       (usageData moId moNumber enteredBy bomInfo lotLookup labelLookup part) lg of
                  (Inl err, lg') \<Rightarrow> (Inl err, lg')
                | (Inr record, lg') \<Rightarrow>
                    MCPServer_createLoop R tm moId moNumber enteredBy bomLookup lotLookup
                      labelLookup rest (usageRecords @ [record]) lg')))"

definition MCPServer_lookupLots :: "string remote \<Rightarrow> (string \<times> string option) list \<Rightarrow> string list
    \<Rightarrow> string call list \<Rightarrow> (exn + (string \<times> int) list) \<times> string call list" where
  "MCPServer_lookupLots R tm lotNumbersToLookup lg =
     (if lotNumbersToLookup \<noteq> [] then
        (case MCPServer_list R tm ''raw_material_lots'' None 1 200 lg of
           (Inl err, lg') \<Rightarrow> (Inl err, lg')
         | (Inr lotsResponse, lg') \<Rightarrow>
             (Inr (lotLookupLoop lotNumbersToLookup (lr_results lotsResponse) []), lg'))
      else (Inr [], lg))"

definition MCPServer_lookupLabels :: "string remote \<Rightarrow> (string \<times> string option) list \<Rightarrow> string list
    \<Rightarrow> string call list \<Rightarrow> (exn + (string \<times> int) list) \<times> string call list" where
  "MCPServer_lookupLabels R tm labelCodesToLookup lg =
     (if labelCodesToLookup \<noteq> [] then
        (case MCPServer_list R tm ''label_inventory'' None 1 200 lg of
           (Inl err, lg') \<Rightarrow> (Inl err, lg')
         | (Inr labelsResponse, lg') \<Rightarrow>
             (MCPServer_labelLoop labelCodesToLookup (lr_results labelsResponse) [], lg'))
      else (Inr [], lg))"

definition MCPServer_createAndClose :: "string remote \<Rightarrow> (string \<times> string option) list \<Rightarrow> int
    \<Rightarrow> string \<Rightarrow> string \<Rightarrow> string \<Rightarrow> string option \<Rightarrow> (int \<times> bom_info) list
    \<Rightarrow> (string \<times> int) list \<Rightarrow> (string \<times> int) list \<Rightarrow> parts_usage_item list \<Rightarrow> string call list
    \<Rightarrow> (exn + worker_bpr_data mcp_response) \<times> string call list" where
  "MCPServer_createAndClose R tm moId moNumber completionDate grossProduced enteredBy bomLookup
       lotLookup labelLookup partsUsage lg =
     (case MCPServer_createLoop R tm moId moNumber enteredBy bomLookup lotLookup labelLookup
             partsUsage [] lg of
        (Inl err, lg') \<Rightarrow> (Inl err, lg')
      | (Inr usageRecords, lg') \<Rightarrow>
          (case MCPServer_getTableId tm ''manufacturing_orders'' of
             Inl err \<Rightarrow> (Inl err, lg')
           | Inr tableId \<Rightarrow>
               (case client_updateRecord R tableId moId
                       (updateData completionDate grossProduced) lg' of
                  (Inl err, lg'') \<Rightarrow> (Inl err, lg'')
                | (Inr updated, lg'') \<Rightarrow>
                    (Inr (SuccessResponse
                            \<lparr>wb_mo_id = moId, wb_mo_number = moNumber,
                             wb_parts_usage_created = length usageRecords,
                             wb_parts_usage_ids = map rec_id usageRecords,
                             wb_mo_updated = True,
                             wb_summary =
                               ''BPR processed: MO '' @ moNumber @ '' closed with ''
                                 @ showNat (length usageRecords) @ '' parts usage records''\<rparr>
                            None), lg''))))"

definition MCPServer_processBPR :: "string remote \<Rightarrow> (string \<times> string option) list \<Rightarrow> string
    \<Rightarrow> string \<Rightarrow> string \<Rightarrow> parts_usage_item list \<Rightarrow> string option \<Rightarrow> string call list
    \<Rightarrow> (exn + worker_bpr_data mcp_response) \<times> string call list" where
  "MCPServer_processBPR R tm moNumber completionDate grossProduced partsUsage enteredBy lg =
     (case MCPServer_list R tm ''manufacturing_orders'' (Some [(''MO Number'', JStr moNumber)])
             1 1 lg of
        (Inl err, lg1) \<Rightarrow> (Inl err, lg1)
      | (Inr moResponse, lg1) \<Rightarrow>
          (case lr_results moResponse of
             [] \<Rightarrow>
               (Inr (ErrorResponse ''MO_NOT_FOUND'' (''MO '' @ moNumber @ '' not found'') None), lg1)
           | mo # others \<Rightarrow>
               (let moId = rec_id mo; bomIds = map bom_id partsUsage
                in case MCPServer_list R tm ''fg_parts_mapping'' None 1 200 lg1 of
                     (Inl err, lg2) \<Rightarrow> (Inl err, lg2)
                   | (Inr mappingsResponse, lg2) \<Rightarrow>
                       (let bomLookup = bomLookupLoop bomIds (lr_results mappingsResponse) []
                        in case MCPServer_lookupLots R tm (lotNumbersOf partsUsage) lg2 of
                             (Inl err, lg3) \<Rightarrow> (Inl err, lg3)
                           | (Inr lotLookup, lg3) \<Rightarrow>
                               (case MCPServer_lookupLabels R tm (labelCodesOf partsUsage) lg3 of
                                  (Inl err, lg4) \<Rightarrow> (Inl err, lg4)
                                | (Inr labelLookup, lg4) \<Rightarrow>
                                    MCPServer_createAndClose R tm moId moNumber completionDate
                                      grossProduced enteredBy bomLookup lotLookup labelLookup
                                      partsUsage lg4)))))"

section \<open>Notions used in the statements\<close>

text \<open>Predicates and projections in which the theorems below are stated; the program
  does not contain them.\<close>

text \<open>
  The words of the specification, "identifier present but not a positive integer", read on
  the string itself: a string is a positive integer when it is a non-empty run of decimal
  digits whose value is greater than zero.
\<close>

definition isPositiveInteger :: "string \<Rightarrow> bool" where
  "isPositiveInteger s = (s \<noteq> [] \<and> list_all isDigit s \<and> 0 < digitsValue s)"

text \<open>An identifier the loop accepts: \<open>parseInt\<close> reads a number greater than zero.\<close>

definition acceptedId :: "string \<Rightarrow> bool" where
  "acceptedId s = (case parseInt s of None \<Rightarrow> False | Some n \<Rightarrow> 0 < n)"

definition presentId :: "env \<Rightarrow> table_config \<Rightarrow> bool" where
  "presentId e c = (case e (envKey c) of None \<Rightarrow> False | Some s \<Rightarrow> s \<noteq> [])"

text \<open>The value \<open>simplifyRecord\<close> stores for an entry it does not skip.\<close>

definition simplifiedValue :: "string \<Rightarrow> json \<Rightarrow> json" where
  "simplifiedValue key value =
     (case value of
        JArr xs \<Rightarrow> if key \<in> set FIELDS_TO_SIMPLIFY then simplifyArray xs else value
      | _ \<Rightarrow> value)"

text \<open>The data of a response replaced by a part of it; an error response is kept.\<close>

fun mapData :: "('a \<Rightarrow> 'b) \<Rightarrow> 'a mcp_response \<Rightarrow> 'b mcp_response" where
  "mapData f (SuccessResponse d m) = SuccessResponse (f d) m"
| "mapData f (ErrorResponse c msg details) = ErrorResponse c msg details"

text \<open>
  The store holds fixed data when its answer to a list request does not depend on the
  requests issued before.
\<close>

definition fixedData :: "'tid remote \<Rightarrow> bool" where
  "fixedData R = (\<forall>h h' t f p s. r_list R h t f p s = r_list R h' t f p s)"

text \<open>The test of \<open>handleGetBOM\<close> that retains a mapping, and the item it pushes.\<close>

definition retainedMapping :: "int \<Rightarrow> baserow_record \<Rightarrow> bool" where
  "retainedMapping fg mapping =
     (nonEmptyArray (getField (rec_fields mapping) ''Finished Good'')
      \<and> optProp (index0 (getField (rec_fields mapping) ''Finished Good'')) ''id'' = JNum (of_int fg)
      \<and> nonEmptyArray (getField (rec_fields mapping) ''Part''))"

definition bomItemOf :: "(json \<Rightarrow> 'q) \<Rightarrow> baserow_record \<Rightarrow> 'q bom_item" where
  "bomItemOf parseFloatString mapping =
     \<lparr>mapping_id = rec_id mapping,
      part_id = js_or (optProp (index0 (getField (rec_fields mapping) ''Part'')) ''id'') (JNum 0),
      part_name =
        js_or (optProp (index0 (getField (rec_fields mapping) ''Part'')) ''value'') (JStr ''Unknown''),
      quantity_per_unit =
        parseFloatString (js_or (getField (rec_fields mapping) ''Quantity'') (JStr ''0'')),
      part_role =
        js_or (optProp (getField (rec_fields mapping) ''Part Role'') ''value'') (JStr ''Unknown'')\<rparr>"

text \<open>The kinds of outbound requests.\<close>

fun isListCall :: "'tid call \<Rightarrow> bool" where
  "isListCall (ListRecords t f p s) = True"
| "isListCall c = False"

fun isCreateCall :: "'tid call \<Rightarrow> bool" where
  "isCreateCall (CreateRecord t d) = True"
| "isCreateCall c = False"

fun isUpdateCall :: "'tid call \<Rightarrow> bool" where
  "isUpdateCall (UpdateRecord t i d) = True"
| "isUpdateCall c = False"

text \<open>
  A \<open>bom_id\<close> resolves against the fetched mappings when some mapping has that identifier
  and carries both a Part link and a Finished Good link.
\<close>

definition resolvesBom :: "baserow_record list \<Rightarrow> int \<Rightarrow> bool" where
  "resolvesBom mappings i =
     (\<exists>mapping \<in> set mappings. rec_id mapping = i
        \<and> nonEmptyArray (getField (rec_fields mapping) ''Part'')
        \<and> nonEmptyArray (getField (rec_fields mapping) ''Finished Good''))"

text \<open>The identifier under which the table of usage records is configured.\<close>

definition usageTableId :: "allow_list_manager \<Rightarrow> int" where
  "usageTableId m = (case validateAndGetTableId m ''mo_parts_usage'' of Inr t \<Rightarrow> t | Inl e \<Rightarrow> 0)"

text \<open>The data of the usage records the creation loop sends, in the order of the items.\<close>

definition usageDataList :: "int \<Rightarrow> string \<Rightarrow> string option \<Rightarrow> (int \<times> bom_info) list
    \<Rightarrow> (string \<times> int) list \<Rightarrow> (string \<times> int) list \<Rightarrow> parts_usage_item list \<Rightarrow> record_data list" where
  "usageDataList moId moNumber enteredBy bomLookup lotLookup labelLookup partsUsage =
     map (\<lambda>part. usageData moId moNumber enteredBy (the (mapGet bomLookup (bom_id part)))
                   lotLookup labelLookup part) partsUsage"

text \<open>The words of the claim, "keep only {id, value} per entry", applied to an entry.\<close>

definition keepIdValue :: "json \<Rightarrow> json" where
  "keepIdValue item = JObj [(''id'', optProp item ''id''), (''value'', optProp item ''value'')]"

section \<open>Example configurations and stores\<close>


definition example_manager :: allow_list_manager where
  "example_manager =
     \<lparr>tableMap =
        [(''parts'', \<lparr>ti_name = ''parts'', ti_id = 744797,
                      ti_description = ''Parts/Components/Raw Materials master table''\<rparr>)],
      initialized = True\<rparr>"



text \<open>A stand-in for the text of zod's messages.\<close>

definition example_zodMessage :: "string \<Rightarrow> json \<Rightarrow> string" where
  "example_zodMessage kind v = kind"

text \<open>A stand-in for the handler of \<open>batch_create\<close>, which no example calls.\<close>

definition example_handleBatchCreate :: "string \<Rightarrow> record_data list \<Rightarrow> int call list
    \<Rightarrow> (exn + unit mcp_response) \<times> int call list" where
  "example_handleBatchCreate table records lg = (Inl (Error ''batch_create''), lg)"

text \<open>An environment whose only identifier has a numeric prefix and a tail of letters.\<close>

definition malformed_env :: env where
  "malformed_env = [''TABLE_ID_PARTS'' \<mapsto> ''12abc'']"

definition malformed_manager :: allow_list_manager where
  "malformed_manager =
     \<lparr>tableMap =
        [(''parts'', \<lparr>ti_name = ''parts'', ti_id = 12,
                      ti_description = ''Parts/Components/Raw Materials master table''\<rparr>)],
      initialized = True\<rparr>"

text \<open>A record with link fields inside and outside the known-large list.\<close>

definition example_record :: baserow_record where
  "example_record =
     \<lparr>rec_id = 7, rec_order = ''7.00'',
      rec_fields =
        [(''Name'', JStr ''Stevia''),
         (''Labels'', JArr [JObj [(''id'', JNum 1), (''value'', JStr ''L1''), (''order'', JNum 3)]]),
         (''Tags'', JArr [JObj [(''id'', JNum 1), (''value'', JStr ''T1''), (''order'', JNum 3)]]),
         (''Mo Plan'', JStr ''none''),
         (''MO Parts Usage'',
            JArr [JObj [(''id'', JNum 11), (''value'', JStr ''a'')],
                  JObj [(''id'', JNum 12), (''value'', JStr ''b'')],
                  JObj [(''id'', JNum 13), (''value'', JStr ''c'')],
                  JObj [(''id'', JNum 14), (''value'', JStr ''d'')]]),
         (''Kitting Orders'', JArr [])]\<rparr>"

text \<open>A record of a table that has a text field named \<open>__proto__\<close>.\<close>

definition proto_record :: baserow_record where
  "proto_record =
     \<lparr>rec_id = 7, rec_order = ''7.00'',
      rec_fields =
        [(''Name'', JStr ''Stevia''), (''__proto__'', JStr ''organic''), (''Zed'', JNum 1)]\<rparr>"

text \<open>
  A record whose known-large fields hold entries that are no link references: a lookup
  entry with \<open>ids\<close> in place of \<open>id\<close>, and plain numbers.
\<close>

definition lookup_record :: baserow_record where
  "lookup_record =
     \<lparr>rec_id = 8, rec_order = ''8.00'',
      rec_fields =
        [(''FBA Inventory Qty'',
            JArr [JObj [(''ids'', JObj [(''database_table_747400'', JNum 2184)]),
                        (''value'', JStr ''120'')]]),
         (''WH Inventory Qty'', JArr [JNum 1, JNum 2, JNum 3, JNum 4])]\<rparr>"

text \<open>A serializer that needs 5000 characters for each record, and a page of twelve.\<close>

definition example_stringify :: "baserow_record list \<Rightarrow> string" where
  "example_stringify rs = replicate (5000 * length rs) CHR ''x''"

definition example_page :: list_response where
  "example_page =
     \<lparr>lr_count = 40, lr_next = Some ''https://api.baserow.io/next'', lr_previous = None,
      lr_results = replicate 12 example_record, lr_note = None\<rparr>"

text \<open>A serializer that stays within the budget, and a page of thirty.\<close>

definition small_stringify :: "baserow_record list \<Rightarrow> string" where
  "small_stringify rs = replicate (100 * length rs) CHR ''x''"

definition long_page :: list_response where
  "long_page =
     \<lparr>lr_count = 40, lr_next = None, lr_previous = None,
      lr_results = replicate 30 example_record, lr_note = None\<rparr>"

text \<open>A store that answers every list request with the page of thirty records.\<close>

definition long_remote :: "int remote" where
  "long_remote =
     \<lparr>r_list = (\<lambda>h t f p s. Inr long_page),
      r_create = (\<lambda>h t d. Inr \<lparr>rec_id = 1, rec_order = ''1.0'', rec_fields = d\<rparr>),
      r_update = (\<lambda>h t i d. Inr \<lparr>rec_id = i, rec_order = ''1.0'', rec_fields = d\<rparr>),
      r_delete = (\<lambda>h t i. Inr ())\<rparr>"

text \<open>
  A store with two Finished Goods and three BOM mappings; the third mapping has no Part.
  The table identifiers are those of \<open>bom_manager\<close>.
\<close>

definition bom_manager :: allow_list_manager where
  "bom_manager =
     \<lparr>tableMap =
        [(''finished_goods'', \<lparr>ti_name = ''finished_goods'', ti_id = 747400,
                               ti_description = ''Finished product inventory tracking''\<rparr>),
         (''fg_parts_mapping'', \<lparr>ti_name = ''fg_parts_mapping'', ti_id = 748088,
                                 ti_description = ''Finished Goods to Parts BOM mapping''\<rparr>)],
      initialized = True\<rparr>"

definition bom_mappings :: "baserow_record list" where
  "bom_mappings =
     [\<lparr>rec_id = 101, rec_order = ''1.0'',
       rec_fields =
         [(''Finished Good'', JArr [JObj [(''id'', JNum 2184), (''value'', JStr ''TN-Stevia-8oz'')]]),
          (''Part'', JArr [JObj [(''id'', JNum 31), (''value'', JStr ''RM-PWD-Stevia'')]]),
          (''Part Role'', JObj [(''id'', JNum 1), (''value'', JStr ''Raw Material'')]),
          (''Quantity'', JStr ''2.5'')]\<rparr>,
      \<lparr>rec_id = 102, rec_order = ''2.0'',
       rec_fields =
         [(''Finished Good'', JArr [JObj [(''id'', JNum 9999), (''value'', JStr ''Other'')]]),
          (''Part'', JArr [JObj [(''id'', JNum 32), (''value'', JStr ''LABL-Other'')]]),
          (''Quantity'', JStr ''1'')]\<rparr>,
      \<lparr>rec_id = 103, rec_order = ''3.0'',
       rec_fields =
         [(''Finished Good'', JArr [JObj [(''id'', JNum 2184), (''value'', JStr ''TN-Stevia-8oz'')]]),
          (''Part'', JArr []),
          (''Quantity'', JStr ''1'')]\<rparr>]"

definition bom_remote :: "int remote" where
  "bom_remote =
     \<lparr>r_list = (\<lambda>h t f p s.
         if t = 747400 then
           Inr \<lparr>lr_count = 1, lr_next = None, lr_previous = None,
                lr_results =
                  (if f = Some [(''iSKU'', JStr ''TN-Stevia-8oz'')]
                   then [\<lparr>rec_id = 2184, rec_order = ''1.0'',
                          rec_fields = [(''iSKU'', JStr ''TN-Stevia-8oz'')]\<rparr>]
                   else []),
                lr_note = None\<rparr>
         else
           Inr \<lparr>lr_count = 3, lr_next = None, lr_previous = None, lr_results = bom_mappings,
                lr_note = None\<rparr>),
      r_create = (\<lambda>h t d. Inl (BaserowConnectionError ''unused'')),
      r_update = (\<lambda>h t i d. Inl (BaserowConnectionError ''unused'')),
      r_delete = (\<lambda>h t i. Inl (BaserowConnectionError ''unused''))\<rparr>"

text \<open>The runtime's number parser is not modelled; the example keeps the value it is given.\<close>

definition example_parseFloat :: "json \<Rightarrow> json" where
  "example_parseFloat v = v"

text \<open>
  A parts table of one page. The first record is indexed under \<open>stevia powder\<close>, the
  second under \<open>stevia\<close>, the third has no name field and is not indexed.
\<close>

definition parts_remote :: "int remote" where
  "parts_remote =
     \<lparr>r_list = (\<lambda>h t f p s.
         Inr \<lparr>lr_count = 3, lr_next = None, lr_previous = None,
              lr_results =
                [\<lparr>rec_id = 31, rec_order = ''1.0'',
                  rec_fields = [(''BOM ID'', JStr ''Stevia Powder'')]\<rparr>,
                 \<lparr>rec_id = 32, rec_order = ''2.0'',
                  rec_fields = [(''BOM ID'', JNull), (''Name'', JStr ''STEVIA'')]\<rparr>,
                 \<lparr>rec_id = 33, rec_order = ''3.0'', rec_fields = [(''Notes'', JStr ''n/a'')]\<rparr>],
              lr_note = None\<rparr>),
      r_create = (\<lambda>h t d. Inl (BaserowConnectionError ''unused'')),
      r_update = (\<lambda>h t i d. Inl (BaserowConnectionError ''unused'')),
      r_delete = (\<lambda>h t i. Inl (BaserowConnectionError ''unused''))\<rparr>"

definition parts_index :: "(string \<times> part_info) list" where
  "parts_index =
     [(''stevia powder'', \<lparr>pi_part_id = 31, pi_part_name = ''Stevia Powder''\<rparr>),
      (''stevia'', \<lparr>pi_part_id = 32, pi_part_name = ''STEVIA''\<rparr>)]"

text \<open>
  A store for \<open>process_bpr\<close>: one Manufacturing Order, four BOM mappings (the third has
  no Part), one lot and one label. A created record gets an identifier that depends on the
  number of requests issued before.
\<close>

definition bpr_manager :: allow_list_manager where
  "bpr_manager =
     \<lparr>tableMap =
        [(''manufacturing_orders'',
            \<lparr>ti_name = ''manufacturing_orders'', ti_id = 749415,
             ti_description = ''Manufacturing Orders (MO) for tracking production lifecycle''\<rparr>),
         (''mo_parts_usage'',
            \<lparr>ti_name = ''mo_parts_usage'', ti_id = 758739,
             ti_description = ''Parts consumption records for manufacturing orders''\<rparr>),
         (''raw_material_lots'',
            \<lparr>ti_name = ''raw_material_lots'', ti_id = 761349,
             ti_description = ''Raw material lot tracking and traceability''\<rparr>),
         (''fg_parts_mapping'',
            \<lparr>ti_name = ''fg_parts_mapping'', ti_id = 748088,
             ti_description = ''Finished Goods to Parts BOM mapping''\<rparr>),
         (''label_inventory'',
            \<lparr>ti_name = ''label_inventory'', ti_id = 759996,
             ti_description = ''Label inventory tracking by label code''\<rparr>)],
      initialized = True\<rparr>"

definition bpr_mappings :: "baserow_record list" where
  "bpr_mappings =
     bom_mappings @
     [\<lparr>rec_id = 104, rec_order = ''4.0'',
       rec_fields =
         [(''Finished Good'', JArr [JObj [(''id'', JNum 2184), (''value'', JStr ''TN-Stevia-8oz'')]]),
          (''Part'', JArr [JObj [(''id'', JNum 33), (''value'', JStr ''BTL-8oz'')]]),
          (''Quantity'', JStr ''1'')]\<rparr>]"

definition bpr_page :: "baserow_record list \<Rightarrow> list_response" where
  "bpr_page rs =
     \<lparr>lr_count = int (length rs), lr_next = None, lr_previous = None, lr_results = rs,
      lr_note = None\<rparr>"

definition bpr_list :: "string \<Rightarrow> filters option \<Rightarrow> list_response" where
  "bpr_list table f =
     (if table = ''manufacturing_orders'' then
        bpr_page (if f = Some [(''MO Number'', JStr ''MO-121525-11'')]
                  then [\<lparr>rec_id = 500, rec_order = ''1.0'',
                         rec_fields = [(''MO Number'', JStr ''MO-121525-11'')]\<rparr>]
                  else [])
      else if table = ''fg_parts_mapping'' then bpr_page bpr_mappings
      else if table = ''raw_material_lots'' then
        bpr_page [\<lparr>rec_id = 7001, rec_order = ''1.0'',
                   rec_fields = [(''Internal Lot Number'', JStr ''LOT-A'')]\<rparr>]
      else
        bpr_page [\<lparr>rec_id = 8001, rec_order = ''1.0'',
                   rec_fields =
                     [(''Part BOM ID'', JArr [JObj [(''id'', JNum 32),
                                                   (''value'', JStr ''LABL-Stevia-8oz'')]])]\<rparr>])"

definition bpr_remote :: "int remote" where
  "bpr_remote =
     \<lparr>r_list = (\<lambda>h t f p s.
         (\<lambda>table f. Inr (bpr_list table f))
           (if t = 749415 then ''manufacturing_orders''
            else if t = 748088 then ''fg_parts_mapping''
            else if t = 761349 then ''raw_material_lots'' else ''label_inventory'') f),
      r_create = (\<lambda>h t d. Inr \<lparr>rec_id = 9000 + int (length h), rec_order = ''1.0'', rec_fields = d\<rparr>),
      r_update = (\<lambda>h t i d. Inr \<lparr>rec_id = i, rec_order = ''1.0'', rec_fields = d\<rparr>),
      r_delete = (\<lambda>h t i. Inr ())\<rparr>"

definition bpr_items :: "parts_usage_item list" where
  "bpr_items =
     [\<lparr>bom_id = 101, quantity = 5 / 2, lot_id = None, lot_number = Some ''LOT-A'',
       label_id = None, label_code = None, waste = None, item_notes = None\<rparr>,
      \<lparr>bom_id = 102, quantity = 3, lot_id = None, lot_number = None,
       label_id = None, label_code = Some ''labl-stevia'', waste = None,
       item_notes = Some ''checked''\<rparr>,
      \<lparr>bom_id = 104, quantity = 1, lot_id = Some 7002, lot_number = None,
       label_id = None, label_code = None, waste = Some (1 / 2), item_notes = None\<rparr>]"

definition bpr_response :: process_bpr_response where
  "bpr_response =
     \<lparr>pb_success = True, pb_mo_id = 500, pb_mo_number = ''MO-121525-11'',
      pb_parts_usage_created = 3, pb_parts_usage_ids = [9004, 9005, 9006], pb_mo_updated = True,
      pb_summary =
        ''BPR processed: MO MO-121525-11 closed with 3 parts usage records. Gross produced: 1000''\<rparr>"

definition bpr_log :: "int call list" where
  "bpr_log =
     [ListRecords 749415 (Some [(''MO Number'', JStr ''MO-121525-11'')]) (Some 1) (Some 1),
      ListRecords 748088 (Some []) (Some 1) (Some 200),
      ListRecords 761349 (Some []) (Some 1) (Some 200),
      ListRecords 759996 (Some []) (Some 1) (Some 200),
      CreateRecord 758739
        [(''Manufacturing Order'', JArr [JNum 500]),
         (''Parts'', JArr [JNum 31]), (''Finished Goods'', JArr [JNum 2184]),
         (''Actual Quantity Used'', JNum (5 / 2)),
         (''Notes'', JStr ''From BPR scan - MO-121525-11''),
         (''Entered By'', JStr ''Alexa via Claude''),
         (''RM Lot Inventory Used'', JArr [JNum 7001])],
      CreateRecord 758739
        [(''Manufacturing Order'', JArr [JNum 500]),
         (''Parts'', JArr [JNum 32]), (''Finished Goods'', JArr [JNum 9999]),
         (''Actual Quantity Used'', JNum 3), (''Notes'', JStr ''checked''),
         (''Entered By'', JStr ''Alexa via Claude''),
         (''Label Inventory Used'', JArr [JNum 8001])],
      CreateRecord 758739
        [(''Manufacturing Order'', JArr [JNum 500]),
         (''Parts'', JArr [JNum 33]), (''Finished Goods'', JArr [JNum 2184]),
         (''Actual Quantity Used'', JNum 1),
         (''Notes'', JStr ''From BPR scan - MO-121525-11''),
         (''Entered By'', JStr ''Alexa via Claude''),
         (''RM Lot Inventory Used'', JArr [JNum 7002]),
         (''Waste/Spillage'', JNum (1 / 2))],
      UpdateRecord 749415 500
        [(''MO Status'', JNum 4554566), (''Deduction Method'', JNum 4669016),
         (''MFG Date Completed'', JStr ''2025-12-15''),
         (''Gross Produced'', JStr ''1000''),
         (''Actual Usage Complete'', JBool True),
         (''MO Inventory Processed'', JBool True)]]"

text \<open>
  The Worker server in front of the same store, and a request whose second item names a
  \<open>bom_id\<close> that no mapping has.
\<close>

definition worker_tables :: "(string \<times> string option) list" where
  "worker_tables =
     MCPServer_tableMap
       \<lparr>TABLE_ID_MO = Some ''749415'', TABLE_ID_FG = Some ''747400'',
        TABLE_ID_PARTS_USAGE = Some ''758739'', TABLE_ID_FG_PARTS_MAPPING = Some ''748088'',
        TABLE_ID_RM_LOTS = Some ''761349'', TABLE_ID_LABEL_INVENTORY = Some ''759996'',
        TABLE_ID_PARTS = Some ''744797''\<rparr>"

definition worker_remote :: "string remote" where
  "worker_remote =
     \<lparr>r_list = (\<lambda>h t f p s.
         Inr (bpr_list
                (if t = ''749415'' then ''manufacturing_orders''
                 else if t = ''748088'' then ''fg_parts_mapping''
                 else if t = ''761349'' then ''raw_material_lots'' else ''label_inventory'') f)),
      r_create = (\<lambda>h t d. Inr \<lparr>rec_id = 9000 + int (length h), rec_order = ''1.0'', rec_fields = d\<rparr>),
      r_update = (\<lambda>h t i d. Inr \<lparr>rec_id = i, rec_order = ''1.0'', rec_fields = d\<rparr>),
      r_delete = (\<lambda>h t i. Inr ())\<rparr>"

definition unresolved_items :: "parts_usage_item list" where
  "unresolved_items =
     [\<lparr>bom_id = 101, quantity = 5 / 2, lot_id = None, lot_number = None,
       label_id = None, label_code = None, waste = None, item_notes = None\<rparr>,
      \<lparr>bom_id = 999, quantity = 1, lot_id = None, lot_number = None,
       label_id = None, label_code = None, waste = None, item_notes = None\<rparr>]"

section \<open>Verification\<close>

subsection \<open>The allow-list gate\<close>















text \<open>
  The command of the request decides the route, not the name of the tool: the tool
  \<open>read\<close>, called with arguments that carry the command \<open>search_parts\<close>, searches the
  parts, whatever table the arguments name; a name that is no key of \<open>commandMap\<close> is an
  unknown tool, unless \<open>Object.prototype\<close> has a member of that name.
\<close>

lemma tool_call_follows_command_of_request:
  "handleToolCall example_stringify example_zodMessage example_parseFloat
     example_handleBatchCreate parts_remote example_manager
     ''read'' (JObj [(''command'', JStr ''search_parts''), (''table'', JStr ''secret_data''),
                     (''search_terms'', JArr [JStr ''Stevia''])]) []
   = (SuccessResponse
        (PartsData
           \<lparr>sp_results =
              [\<lparr>sr_part_id = 32, sr_part_name = ''STEVIA'', sr_search_term = ''Stevia'',
                sr_found = True\<rparr>],
            sp_found_count = 1, sp_not_found = []\<rparr>)
        None,
      [ListRecords 744797 (Some []) (Some 1) (Some 200)])"
  "handleToolCall example_stringify example_zodMessage example_parseFloat
     example_handleBatchCreate parts_remote example_manager
     ''nope'' (JObj [(''table'', JStr ''secret_data'')]) []
   = (ErrorResponse ''INTERNAL_ERROR'' ''Unknown tool: nope'' None, [])"
  "handleToolCall example_stringify example_zodMessage example_parseFloat
     example_handleBatchCreate parts_remote example_manager
     ''constructor'' (JObj [(''table'', JStr ''secret_data'')]) []
   = (ErrorResponse ''VALIDATION_ERROR'' ''command: invalid_union_discriminator'' None, [])"
  by code_simp+

subsection \<open>Initialization of the allow list\<close>

lemma initLoop_ok_iff:
  "fst (initLoop e cfgs tm missing) = None
   \<longleftrightarrow> (\<forall>c \<in> set cfgs. presentId e c \<longrightarrow> acceptedId (the (e (envKey c))))"
  by (induction cfgs arbitrary: tm missing)
     (auto simp: presentId_def acceptedId_def split: option.splits)

lemma mapSet_keys: "fst ` set (mapSet k v m) = insert k (fst ` set m)"
proof (induction m)
  case Nil
  then show ?case by simp
next
  case (Cons p m)
  then show ?case by (cases p) (auto simp: insert_commute)
qed

lemma initLoop_keys:
  "fst (initLoop e cfgs tm missing) = None \<Longrightarrow>
   fst ` set (fst (snd (initLoop e cfgs tm missing)))
     = fst ` set tm \<union> {cfg_name c | c. c \<in> set cfgs \<and> presentId e c}"
proof (induction cfgs arbitrary: tm missing)
  case Nil
  then show ?case by simp
next
  case (Cons c cfgs)
  show ?case
  proof (cases "presentId e c")
    case False
    then have "initLoop e (c # cfgs) tm missing
        = initLoop e cfgs tm (missing @ [cfg_name c @ '' ('' @ envKey c @ '')''])"
      by (auto simp: presentId_def split: option.splits)
    with Cons False show ?thesis by auto
  next
    case True
    from Cons.prems True obtain s n where s: "e (envKey c) = Some s" "s \<noteq> []"
        "parseInt s = Some n" "0 < n"
      by (auto simp: presentId_def split: option.splits if_splits)
    then have eq: "initLoop e (c # cfgs) tm missing
        = initLoop e cfgs (mapSet (cfg_name c)
             \<lparr>ti_name = cfg_name c, ti_id = n, ti_description = cfg_description c\<rparr> tm) missing"
      by simp
    with Cons True show ?thesis by (auto simp: mapSet_keys)
  qed
qed


text \<open>
  What the code does: initialization throws exactly when some identifier that is present
  is not accepted by the \<open>parseInt\<close> test, or no identifier at all is present.
\<close>

lemma initialize_fails_iff:
  "(\<exists>err. fst (initialize e newAllowListManager) = Inl err)
   \<longleftrightarrow> (\<exists>c \<in> set TABLE_CONFIGS. presentId e c \<and> \<not> acceptedId (the (e (envKey c))))
       \<or> (\<forall>c \<in> set TABLE_CONFIGS. \<not> presentId e c)"
proof -
  obtain err tm missing where r: "initLoop e TABLE_CONFIGS [] [] = (err, tm, missing)"
    by (cases "initLoop e TABLE_CONFIGS [] []") auto
  show ?thesis
  proof (cases err)
    case (Some x)
    with r have "fst (initLoop e TABLE_CONFIGS [] []) \<noteq> None" by simp
    then have "\<exists>c \<in> set TABLE_CONFIGS. presentId e c \<and> \<not> acceptedId (the (e (envKey c)))"
      by (simp add: initLoop_ok_iff)
    moreover have "\<exists>err. fst (initialize e newAllowListManager) = Inl err"
      using r Some by (simp add: initialize_def newAllowListManager_def)
    ultimately show ?thesis by blast
  next
    case None
    with r have ok: "fst (initLoop e TABLE_CONFIGS [] []) = None" by simp
    then have all: "\<forall>c \<in> set TABLE_CONFIGS. presentId e c \<longrightarrow> acceptedId (the (e (envKey c)))"
      by (simp add: initLoop_ok_iff)
    have keys: "fst ` set tm = {cfg_name c | c. c \<in> set TABLE_CONFIGS \<and> presentId e c}"
      using initLoop_keys[OF ok] r by simp
    have "(\<exists>err. fst (initialize e newAllowListManager) = Inl err) \<longleftrightarrow> tm = []"
      using r None by (simp add: initialize_def newAllowListManager_def Let_def)
    also have "\<dots> \<longleftrightarrow> fst ` set tm = {}" by simp
    also have "\<dots> \<longleftrightarrow> (\<forall>c \<in> set TABLE_CONFIGS. \<not> presentId e c)"
      unfolding keys by blast
    finally show ?thesis using all by blast
  qed
qed

text \<open>On success exactly the tables with a present identifier are reachable.\<close>

lemma initialize_ok_reachable:
  assumes "initialize e newAllowListManager = (Inr (), am, warns)"
  shows "isTableAllowed am t
         = Inr (\<exists>c \<in> set TABLE_CONFIGS. cfg_name c = t \<and> presentId e c)"
proof -
  obtain err tm missing where r: "initLoop e TABLE_CONFIGS [] [] = (err, tm, missing)"
    by (cases "initLoop e TABLE_CONFIGS [] []") auto
  from assms r have err: "err = None" and am: "am = \<lparr>tableMap = tm, initialized = True\<rparr>"
    by (auto simp: initialize_def newAllowListManager_def Let_def split: option.splits if_splits)
  have keys: "fst ` set tm = {cfg_name c | c. c \<in> set TABLE_CONFIGS \<and> presentId e c}"
    using initLoop_keys[of e TABLE_CONFIGS "[]" "[]"] r err by simp
  have has: "mapHas tm t \<longleftrightarrow> t \<in> fst ` set tm"
    by (simp add: mapHas_def map_of_eq_None_iff)
  have names: "cfg_name ` set TABLE_CONFIGS = set ALLOWED_TABLE_NAMES"
    by (simp add: TABLE_CONFIGS_def ALLOWED_TABLE_NAMES_def)
  have "t \<in> fst ` set tm \<Longrightarrow> t \<in> set ALLOWED_TABLE_NAMES"
    unfolding keys using names by blast
  then show ?thesis
    unfolding isTableAllowed_def am using has keys by (auto simp: Let_def)
qed

text \<open>
  Claim C8 says that initialization fails if and only if some configured identifier is
  present but not a positive integer, or no table resolved. At the environment that sets
  only \<open>TABLE_ID_PARTS\<close>, to \<open>12abc\<close>, the identifier is present and is not a
  positive integer, yet \<open>initialize\<close> returns normally and the table \<open>parts\<close> is
  reachable under the identifier 12: \<open>parseInt\<close> reads the leading digits and ignores
  the rest, although the error message of the same test says "must be a positive integer".
\<close>

theorem initialize_accepts_malformed_identifier:
  "malformed_env ''TABLE_ID_PARTS'' = Some ''12abc''
   \<and> \<not> isPositiveInteger ''12abc''
   \<and> fst (initialize malformed_env newAllowListManager) = Inr ()
   \<and> fst (snd (initialize malformed_env newAllowListManager)) = malformed_manager
   \<and> getTableId malformed_manager ''parts'' = Inr 12"
  by (simp add: initialize_def newAllowListManager_def TABLE_CONFIGS_def malformed_env_def
      malformed_manager_def isPositiveInteger_def getTableId_def isTableAllowed_def
      ALLOWED_TABLE_NAMES_def mapHas_def mapGet_def
      parseInt_def isWhiteSpace_def isDigit_def digitsValue_def Let_def)

subsection \<open>The response shaper\<close>

lemma mapSet_fresh: "k \<notin> fst ` set m \<Longrightarrow> mapSet k v m = m @ [(k, v)]"
  by (induction m) auto

lemma proto_not_known_large: "''__proto__'' \<notin> set FIELDS_TO_SIMPLIFY"
  by (simp add: FIELDS_TO_SIMPLIFY_def)

lemma simplifyLoop_step:
  "simplifyLoop ((key, value) # rest) acc =
     (if key = ''id'' \<or> key = ''order'' then simplifyLoop rest acc
      else simplifyLoop rest (assignProperty key (simplifiedValue key value) acc))"
  by (cases "value") (simp_all add: simplifiedValue_def)

lemma simplifyLoop_eq:
  "distinct (map fst entries) \<Longrightarrow> fst ` set entries \<inter> fst ` set acc = {} \<Longrightarrow>
   simplifyLoop entries acc
     = acc @ map (\<lambda>(k, v). (k, simplifiedValue k v))
               (filter (\<lambda>(k, v). k \<noteq> ''id'' \<and> k \<noteq> ''order'' \<and> k \<noteq> ''__proto__'') entries)"
proof (induction entries arbitrary: acc)
  case Nil
  then show ?case by simp
next
  case (Cons p entries)
  obtain k v where p: "p = (k, v)" by (cases p)
  show ?case
  proof (cases "k = ''id'' \<or> k = ''order'' \<or> k = ''__proto__''")
    case True
    have "simplifyLoop (p # entries) acc = simplifyLoop entries acc"
      unfolding p simplifyLoop_step using True by (auto simp: assignProperty_def)
    also have "\<dots> = acc @ map (\<lambda>(k, v). (k, simplifiedValue k v))
               (filter (\<lambda>(k, v). k \<noteq> ''id'' \<and> k \<noteq> ''order'' \<and> k \<noteq> ''__proto__'') entries)"
      using Cons.prems by (intro Cons.IH) auto
    finally show ?thesis using True p by auto
  next
    case False
    have fresh: "k \<notin> fst ` set acc" using Cons.prems(2) p by auto
    have step: "simplifyLoop (p # entries) acc
        = simplifyLoop entries (acc @ [(k, simplifiedValue k v)])"
      unfolding p simplifyLoop_step using False
      by (simp add: assignProperty_def mapSet_fresh[OF fresh])
    have d: "distinct (map fst entries)" using Cons.prems(1) by simp
    have i: "fst ` set entries \<inter> fst ` set (acc @ [(k, simplifiedValue k v)]) = {}"
      using Cons.prems p by auto
    show ?thesis
      unfolding step Cons.IH[OF d i] using False p by simp
  qed
qed

lemma simplifyRecord_fields:
  "distinct (map fst (rec_fields r)) \<Longrightarrow>
   rec_fields (simplifyRecord r)
     = map (\<lambda>(k, v). (k, simplifiedValue k v))
         (filter (\<lambda>(k, v). k \<noteq> ''id'' \<and> k \<noteq> ''order'' \<and> k \<noteq> ''__proto__'') (rec_fields r))"
  by (simp add: simplifyRecord_def simplifyLoop_eq)

lemma map_of_mapped:
  "distinct (map fst kvs) \<Longrightarrow> (k, v) \<in> set kvs \<Longrightarrow> P k \<Longrightarrow>
   map_of (map (\<lambda>(k, v). (k, f k v)) (filter (\<lambda>(k, v). P k) kvs)) k = Some (f k v)"
proof (induction kvs)
  case Nil
  then show ?case by simp
next
  case (Cons p kvs)
  then show ?case by (cases p) (auto simp: rev_image_eqI)
qed

lemma keys_of_mapped:
  "map fst (map (\<lambda>(k, v). (k, f k v)) (filter (\<lambda>(k, v). P k) kvs)) = filter P (map fst kvs)"
  by (induction kvs) auto

lemma simplifyRecord_getField:
  assumes "distinct (map fst (rec_fields r))" and "(k, v) \<in> set (rec_fields r)"
    and "k \<noteq> ''id''" and "k \<noteq> ''order''" and "k \<noteq> ''__proto__''"
  shows "getField (rec_fields (simplifyRecord r)) k = simplifiedValue k v"
  using map_of_mapped[OF assms(1,2),
      of "\<lambda>k. k \<noteq> ''id'' \<and> k \<noteq> ''order'' \<and> k \<noteq> ''__proto__''" simplifiedValue] assms(3,4,5)
  by (simp add: simplifyRecord_fields[OF assms(1)] getField_def)

text \<open>
  What \<open>simplifyRecord\<close> does keep. For every record (an object: its keys are
  distinct) it keeps \<open>id\<close> and \<open>order\<close>, keeps the other keys in their order, and
  gives every field whose name is not in the known-large list, or whose value is not an
  array, exactly its original value, with one exception: a field named \<open>__proto__\<close> is
  not in the result.
\<close>

lemma simplifyRecord_frame_other_keys:
  assumes "distinct (map fst (rec_fields r))"
  shows "rec_id (simplifyRecord r) = rec_id r
       \<and> rec_order (simplifyRecord r) = rec_order r
       \<and> map fst (rec_fields (simplifyRecord r))
           = filter (\<lambda>k. k \<noteq> ''id'' \<and> k \<noteq> ''order'' \<and> k \<noteq> ''__proto__'')
               (map fst (rec_fields r))
       \<and> (\<forall>(k, v) \<in> set (rec_fields r).
            k \<noteq> ''id'' \<longrightarrow> k \<noteq> ''order'' \<longrightarrow> k \<noteq> ''__proto__'' \<longrightarrow>
            k \<notin> set FIELDS_TO_SIMPLIFY \<or> \<not> isArray v \<longrightarrow>
            getField (rec_fields (simplifyRecord r)) k = v)
       \<and> (\<forall>(k, v) \<in> set (rec_fields r).
            k \<noteq> ''id'' \<longrightarrow> k \<noteq> ''order'' \<longrightarrow> k \<noteq> ''__proto__'' \<longrightarrow>
            getField (rec_fields (simplifyRecord r)) k \<noteq> v \<longrightarrow>
            k \<in> set FIELDS_TO_SIMPLIFY \<and> isArray v)
       \<and> ''__proto__'' \<notin> set (map fst (rec_fields (simplifyRecord r)))"
proof -
  have keep: "simplifiedValue k v = v" if "k \<notin> set FIELDS_TO_SIMPLIFY \<or> \<not> isArray v" for k v
    using that by (cases v) (auto simp: simplifiedValue_def)
  have a: "rec_id (simplifyRecord r) = rec_id r" "rec_order (simplifyRecord r) = rec_order r"
    by (simp_all add: simplifyRecord_def)
  have b: "map fst (rec_fields (simplifyRecord r))
           = filter (\<lambda>k. k \<noteq> ''id'' \<and> k \<noteq> ''order'' \<and> k \<noteq> ''__proto__'')
               (map fst (rec_fields r))"
    unfolding simplifyRecord_fields[OF assms] by (rule keys_of_mapped)
  have c: "getField (rec_fields (simplifyRecord r)) k = v"
    if "(k, v) \<in> set (rec_fields r)" "k \<noteq> ''id''" "k \<noteq> ''order''" "k \<noteq> ''__proto__''"
       "k \<notin> set FIELDS_TO_SIMPLIFY \<or> \<not> isArray v" for k v
    using simplifyRecord_getField[OF assms that(1,2,3,4)] keep[OF that(5)] by simp
  have d: "''__proto__'' \<notin> set (map fst (rec_fields (simplifyRecord r)))"
    unfolding b by simp
  from a b c d show ?thesis by blast
qed

lemma simplifyRecord_frame_example:
  "rec_id (simplifyRecord example_record) = 7
   \<and> rec_order (simplifyRecord example_record) = ''7.00''
   \<and> getField (rec_fields (simplifyRecord example_record)) ''Name'' = JStr ''Stevia''
   \<and> getField (rec_fields (simplifyRecord example_record)) ''Tags''
       = JArr [JObj [(''id'', JNum 1), (''value'', JStr ''T1''), (''order'', JNum 3)]]
   \<and> getField (rec_fields (simplifyRecord example_record)) ''Mo Plan'' = JStr ''none''
   \<and> getField (rec_fields (simplifyRecord example_record)) ''Labels''
       = JArr [JObj [(''id'', JNum 1), (''value'', JStr ''L1'')]]"
proof -
  have d: "distinct (map fst (rec_fields example_record))"
    by (simp add: example_record_def)
  have l: "getField (rec_fields (simplifyRecord example_record)) ''Labels''
       = JArr [JObj [(''id'', JNum 1), (''value'', JStr ''L1'')]]"
    by (simp add: example_record_def simplifyRecord_def FIELDS_TO_SIMPLIFY_def getField_def
        simplifyItem_def assignProperty_def)
  show ?thesis
    using simplifyRecord_frame_other_keys [OF d] l
    by (simp add: example_record_def FIELDS_TO_SIMPLIFY_def d)
qed

text \<open>
  Claim C10 says that \<open>simplifyRecord\<close> maps every field whose name is not in the
  known-large list, or whose value is not an array, to exactly its original value. The
  loop does copy each such field, by \<open>simplified[key] = value\<close>, and for every other
  key the field is kept (lemma \<open>simplifyRecord_frame_other_keys\<close>). For a field named
  \<open>__proto__\<close> that assignment creates no property: at the record
  \<open>{id: 7, order: "7.00", Name: "Stevia", __proto__: "organic", Zed: 1}\<close>, whose field
  \<open>__proto__\<close> is neither in the list nor an array, the result is
  \<open>{id: 7, order: "7.00", Name: "Stevia", Zed: 1}\<close>, and it is what \<open>simplifyResponse\<close>
  returns for a page holding that record.
\<close>

theorem simplifyRecord_drops_proto_field:
  "distinct (map fst (rec_fields proto_record))
   \<and> (''__proto__'', JStr ''organic'') \<in> set (rec_fields proto_record)
   \<and> ''__proto__'' \<notin> set FIELDS_TO_SIMPLIFY
   \<and> \<not> isArray (JStr ''organic'')
   \<and> simplifyRecord proto_record
       = \<lparr>rec_id = 7, rec_order = ''7.00'',
          rec_fields = [(''Name'', JStr ''Stevia''), (''Zed'', JNum 1)]\<rparr>
   \<and> ''__proto__'' \<notin> set (map fst (rec_fields (simplifyRecord proto_record)))
   \<and> lr_results (simplifyResponse example_stringify
         \<lparr>lr_count = 1, lr_next = None, lr_previous = None, lr_results = [proto_record],
          lr_note = None\<rparr>)
       = [\<lparr>rec_id = 7, rec_order = ''7.00'',
           rec_fields = [(''Name'', JStr ''Stevia''), (''Zed'', JNum 1)]\<rparr>]"
proof -
  have d: "distinct (map fst (rec_fields proto_record))"
    by (simp add: proto_record_def)
  have g: "(''__proto__'', JStr ''organic'') \<in> set (rec_fields proto_record)"
    by (simp add: proto_record_def)
  have m: "''Name'' \<notin> set FIELDS_TO_SIMPLIFY" "''Zed'' \<notin> set FIELDS_TO_SIMPLIFY"
    by (simp_all add: FIELDS_TO_SIMPLIFY_def)
  have s: "simplifyRecord proto_record
       = \<lparr>rec_id = 7, rec_order = ''7.00'',
          rec_fields = [(''Name'', JStr ''Stevia''), (''Zed'', JNum 1)]\<rparr>"
    by (simp add: simplifyRecord_def proto_record_def m proto_not_known_large assignProperty_def)
  have u: "''__proto__'' \<notin> set (map fst (rec_fields (simplifyRecord proto_record)))"
    by (simp add: s)
  have r: "lr_results (simplifyResponse example_stringify
         \<lparr>lr_count = 1, lr_next = None, lr_previous = None, lr_results = [proto_record],
          lr_note = None\<rparr>)
       = [\<lparr>rec_id = 7, rec_order = ''7.00'',
           rec_fields = [(''Name'', JStr ''Stevia''), (''Zed'', JNum 1)]\<rparr>]"
    by (simp add: simplifyResponse_def example_stringify_def MAX_RECORDS_PER_PAGE_def
        MAX_RESPONSE_CHARS_def Let_def s)
  have a: "\<not> isArray (JStr ''organic'')" by simp
  from d g proto_not_known_large a s u r show ?thesis by blast
qed

lemma showNat_25: "showNat 25 = ''25''"
  by code_simp

lemma simplifyArray_small:
  "xs \<noteq> [] \<Longrightarrow> length xs \<le> 3 \<Longrightarrow> simplifyArray xs = JArr (map simplifyItem xs)"
  by (cases xs) auto

lemma simplifyArray_large:
  "3 \<le> length rest \<Longrightarrow>
   simplifyArray (x # rest)
     = JObj [(''_count'', JNum (of_nat (length (x # rest)))),
             (''_first'', if isObjectWithId x then JObj [(''id'', optProp x ''id'')] else x),
             (''_note'', JStr (showNat (length (x # rest)) @ '' items (simplified)''))]"
  by simp

lemma simplifyItem_link:
  "map_of kvs ''id'' \<noteq> None \<Longrightarrow>
   simplifyItem (JObj kvs) = JObj [(''id'', getField kvs ''id''), (''value'', getField kvs ''value'')]"
  by (simp add: simplifyItem_def)

text \<open>
  Claim C7 as stated says that an array of at most three entries keeps only
  \<open>{id, value}\<close> per entry and that a larger array collapses to
  \<open>{_count, _first: {id}, _note}\<close>. At a record whose field \<open>FBA Inventory Qty\<close>
  holds one lookup entry \<open>{ids, value}\<close>, the entry comes out whole, with its \<open>ids\<close>
  and without an \<open>id\<close>; and the four numbers of \<open>WH Inventory Qty\<close> collapse with
  \<open>_first\<close> the first number, not an object: the code returns an entry that is not an
  object with an \<open>id\<close> unchanged.
\<close>

theorem simplifyRecord_keeps_entries_without_id:
  "''FBA Inventory Qty'' \<in> set FIELDS_TO_SIMPLIFY
   \<and> getField (rec_fields lookup_record) ''FBA Inventory Qty''
       = JArr [JObj [(''ids'', JObj [(''database_table_747400'', JNum 2184)]),
                     (''value'', JStr ''120'')]]
   \<and> lr_results (simplifyResponse example_stringify
         \<lparr>lr_count = 1, lr_next = None, lr_previous = None, lr_results = [lookup_record],
          lr_note = None\<rparr>) = [simplifyRecord lookup_record]
   \<and> getField (rec_fields (simplifyRecord lookup_record)) ''FBA Inventory Qty''
       = JArr [JObj [(''ids'', JObj [(''database_table_747400'', JNum 2184)]),
                     (''value'', JStr ''120'')]]
   \<and> getField (rec_fields (simplifyRecord lookup_record)) ''FBA Inventory Qty''
       \<noteq> JArr (map keepIdValue
                  [JObj [(''ids'', JObj [(''database_table_747400'', JNum 2184)]),
                         (''value'', JStr ''120'')]])
   \<and> ''WH Inventory Qty'' \<in> set FIELDS_TO_SIMPLIFY
   \<and> getField (rec_fields (simplifyRecord lookup_record)) ''WH Inventory Qty''
       = JObj [(''_count'', JNum 4), (''_first'', JNum 1),
               (''_note'', JStr ''4 items (simplified)'')]"
proof -
  have "showNat 4 = ''4''" by code_simp
  then have n: "showNat (Suc (Suc (Suc (Suc 0)))) = ''4''"
    by (simp add: eval_nat_numeral)
  have m: "''FBA Inventory Qty'' \<in> set FIELDS_TO_SIMPLIFY"
    "''WH Inventory Qty'' \<in> set FIELDS_TO_SIMPLIFY"
    by (simp_all add: FIELDS_TO_SIMPLIFY_def)
  have g: "getField (rec_fields lookup_record) ''FBA Inventory Qty''
       = JArr [JObj [(''ids'', JObj [(''database_table_747400'', JNum 2184)]),
                     (''value'', JStr ''120'')]]"
    by (simp add: lookup_record_def getField_def)
  have r: "lr_results (simplifyResponse example_stringify
         \<lparr>lr_count = 1, lr_next = None, lr_previous = None, lr_results = [lookup_record],
          lr_note = None\<rparr>) = [simplifyRecord lookup_record]"
    by (simp add: simplifyResponse_def example_stringify_def MAX_RECORDS_PER_PAGE_def
        MAX_RESPONSE_CHARS_def Let_def)
  have f: "rec_fields (simplifyRecord lookup_record)
       = [(''FBA Inventory Qty'',
            JArr [JObj [(''ids'', JObj [(''database_table_747400'', JNum 2184)]),
                        (''value'', JStr ''120'')]]),
          (''WH Inventory Qty'',
            JObj [(''_count'', JNum 4), (''_first'', JNum 1),
                  (''_note'', JStr ''4 items (simplified)'')])]"
    by (simp add: simplifyRecord_def lookup_record_def m simplifyItem_def n assignProperty_def)
  have s: "getField (rec_fields (simplifyRecord lookup_record)) ''FBA Inventory Qty''
       = JArr [JObj [(''ids'', JObj [(''database_table_747400'', JNum 2184)]),
                     (''value'', JStr ''120'')]]"
    "getField (rec_fields (simplifyRecord lookup_record)) ''WH Inventory Qty''
       = JObj [(''_count'', JNum 4), (''_first'', JNum 1),
               (''_note'', JStr ''4 items (simplified)'')]"
    by (simp_all add: f getField_def)
  have d: "getField (rec_fields (simplifyRecord lookup_record)) ''FBA Inventory Qty''
       \<noteq> JArr (map keepIdValue
                  [JObj [(''ids'', JObj [(''database_table_747400'', JNum 2184)]),
                         (''value'', JStr ''120'')]])"
    by (simp add: s keepIdValue_def)
  from m g r s d show ?thesis by blast
qed

text \<open>
  Claim C7, amended. For every list response passed through \<open>simplifyResponse\<close> (its
  records being objects, with distinct keys):
  \<^item> a field whose name is in the known-large list and whose value is an array becomes
    \<open>simplifyArray\<close> of it: the empty array stays empty; in an array of at most three
    entries, each entry that is an object with an \<open>id\<close> keeps only \<open>{id, value}\<close>
    and every other entry is kept as it is; a larger array collapses to
    \<open>{_count, _first, _note}\<close>, where \<open>_first\<close> is \<open>{id}\<close> of the first entry
    when that is an object with an \<open>id\<close>, and the first entry itself otherwise;
  \<^item> if the serialized simplified records exceed 50000 characters and more than ten
    records remain, exactly the first ten are returned, with the explanatory note;
  \<^item> otherwise the simplified records are returned, with the lighter note when the
    truncation to 25 dropped a record, and with the note untouched when it dropped none;
  \<^item> at most 25 records are returned and the counts and page links are unchanged.
  The shaper does not raise: the one operation in it that can throw on such values,
  \<open>'id' in item\<close>, is reached only behind its guard, where it returns.
\<close>

theorem simplifyResponse_shape:
  assumes "\<forall>r \<in> set (lr_results response). distinct (map fst (rec_fields r))"
  shows
    "(\<forall>r \<in> set (lr_results response). \<forall>(k, v) \<in> set (rec_fields r).
        k \<noteq> ''id'' \<longrightarrow> k \<noteq> ''order'' \<longrightarrow> k \<in> set FIELDS_TO_SIMPLIFY \<longrightarrow>
        (\<forall>xs. v = JArr xs \<longrightarrow> getField (rec_fields (simplifyRecord r)) k = simplifyArray xs))
     \<and> simplifyArray [] = JArr []
     \<and> (\<forall>xs. xs \<noteq> [] \<longrightarrow> length xs \<le> 3 \<longrightarrow> simplifyArray xs = JArr (map simplifyItem xs))
     \<and> (\<forall>kvs. map_of kvs ''id'' \<noteq> None \<longrightarrow>
           simplifyItem (JObj kvs)
             = JObj [(''id'', getField kvs ''id''), (''value'', getField kvs ''value'')])
     \<and> (\<forall>item. \<not> isObjectWithId item \<longrightarrow> simplifyItem item = item)
     \<and> (\<forall>item. isObjectWithIdChecked item = Inr (isObjectWithId item))
     \<and> (\<forall>x rest. 3 \<le> length rest \<longrightarrow>
           simplifyArray (x # rest)
             = JObj [(''_count'', JNum (of_nat (length (x # rest)))),
                     (''_first'', if isObjectWithId x then JObj [(''id'', optProp x ''id'')] else x),
                     (''_note'', JStr (showNat (length (x # rest)) @ '' items (simplified)''))])
     \<and> (length (stringify (map simplifyRecord (take 25 (lr_results response)))) > 50000
          \<and> length (take 25 (lr_results response)) > 10 \<longrightarrow>
           lr_results (simplifyResponse stringify response)
             = take 10 (map simplifyRecord (lr_results response))
           \<and> length (lr_results (simplifyResponse stringify response)) = 10
           \<and> lr_note (simplifyResponse stringify response)
               = Some (''Response truncated: showing 10 of '' @ showInt (lr_count response)
                       @ '' records. Use filters for specific data.''))
     \<and> (\<not> (length (stringify (map simplifyRecord (take 25 (lr_results response)))) > 50000
             \<and> length (take 25 (lr_results response)) > 10) \<longrightarrow>
           lr_results (simplifyResponse stringify response)
             = map simplifyRecord (take 25 (lr_results response))
           \<and> (25 < length (lr_results response) \<longrightarrow>
                lr_note (simplifyResponse stringify response)
                  = Some (''Response limited: showing 25 of '' @ showInt (lr_count response)
                          @ '' records. Use pagination or filters.''))
           \<and> (length (lr_results response) \<le> 25 \<longrightarrow>
                lr_note (simplifyResponse stringify response) = lr_note response))
     \<and> length (lr_results (simplifyResponse stringify response)) \<le> 25
     \<and> lr_count (simplifyResponse stringify response) = lr_count response
     \<and> lr_next (simplifyResponse stringify response) = lr_next response
     \<and> lr_previous (simplifyResponse stringify response) = lr_previous response"
proof -
  have fields: "getField (rec_fields (simplifyRecord r)) k = simplifyArray xs"
    if "r \<in> set (lr_results response)" "(k, JArr xs) \<in> set (rec_fields r)"
       "k \<noteq> ''id''" "k \<noteq> ''order''" "k \<in> set FIELDS_TO_SIMPLIFY" for r k xs
  proof -
    have d: "distinct (map fst (rec_fields r))" using assms that(1) by blast
    show ?thesis
      using simplifyRecord_getField[OF d that(2,3,4)] that(5) proto_not_known_large
      by (auto simp: simplifiedValue_def)
  qed
  have over: "lr_results (simplifyResponse stringify response)
             = take 10 (map simplifyRecord (lr_results response))
           \<and> length (lr_results (simplifyResponse stringify response)) = 10
           \<and> lr_note (simplifyResponse stringify response)
               = Some (''Response truncated: showing 10 of '' @ showInt (lr_count response)
                       @ '' records. Use filters for specific data.'')"
    if "length (stringify (map simplifyRecord (take 25 (lr_results response)))) > 50000
          \<and> length (take 25 (lr_results response)) > 10"
    using that
    by (auto simp: simplifyResponse_def MAX_RECORDS_PER_PAGE_def MAX_RESPONSE_CHARS_def Let_def
        take_map min_def split: if_splits)
  have under: "lr_results (simplifyResponse stringify response)
             = map simplifyRecord (take 25 (lr_results response))
           \<and> (25 < length (lr_results response) \<longrightarrow>
                lr_note (simplifyResponse stringify response)
                  = Some (''Response limited: showing 25 of '' @ showInt (lr_count response)
                          @ '' records. Use pagination or filters.''))
           \<and> (length (lr_results response) \<le> 25 \<longrightarrow>
                lr_note (simplifyResponse stringify response) = lr_note response)"
    if "\<not> (length (stringify (map simplifyRecord (take 25 (lr_results response)))) > 50000
             \<and> length (take 25 (lr_results response)) > 10)"
    using that
    by (auto simp: simplifyResponse_def MAX_RECORDS_PER_PAGE_def MAX_RESPONSE_CHARS_def Let_def
        min_def showNat_25)
  have len: "length (lr_results (simplifyResponse stringify response)) \<le> 25"
    by (auto simp: simplifyResponse_def MAX_RECORDS_PER_PAGE_def Let_def)
  have frame: "lr_count (simplifyResponse stringify response) = lr_count response"
    "lr_next (simplifyResponse stringify response) = lr_next response"
    "lr_previous (simplifyResponse stringify response) = lr_previous response"
    by (simp_all add: simplifyResponse_def Let_def)
  have f': "\<forall>r \<in> set (lr_results response). \<forall>(k, v) \<in> set (rec_fields r).
        k \<noteq> ''id'' \<longrightarrow> k \<noteq> ''order'' \<longrightarrow> k \<in> set FIELDS_TO_SIMPLIFY \<longrightarrow>
        (\<forall>xs. v = JArr xs \<longrightarrow> getField (rec_fields (simplifyRecord r)) k = simplifyArray xs)"
    using fields by blast
  have small: "\<forall>xs. xs \<noteq> [] \<longrightarrow> length xs \<le> 3 \<longrightarrow> simplifyArray xs = JArr (map simplifyItem xs)"
    using simplifyArray_small by blast
  have link: "\<forall>kvs. map_of kvs ''id'' \<noteq> None \<longrightarrow>
           simplifyItem (JObj kvs)
             = JObj [(''id'', getField kvs ''id''), (''value'', getField kvs ''value'')]"
    using simplifyItem_link by blast
  have large: "\<forall>x rest. 3 \<le> length rest \<longrightarrow>
           simplifyArray (x # rest)
             = JObj [(''_count'', JNum (of_nat (length (x # rest)))),
                     (''_first'', if isObjectWithId x then JObj [(''id'', optProp x ''id'')] else x),
                     (''_note'', JStr (showNat (length (x # rest)) @ '' items (simplified)''))]"
    using simplifyArray_large by blast
  have e: "simplifyArray [] = JArr []" by simp
  have other: "\<forall>item. \<not> isObjectWithId item \<longrightarrow> simplifyItem item = item"
    by (simp add: simplifyItem_def)
  have guard: "\<forall>item. isObjectWithIdChecked item = Inr (isObjectWithId item)"
  proof
    fix item
    show "isObjectWithIdChecked item = Inr (isObjectWithId item)"
      by (cases item) (simp_all add: isObjectWithIdChecked_def)
  qed
  from f' e small link other guard large over under len frame show ?thesis by blast
qed


lemma showInt_40: "showInt 40 = ''40''"
  by code_simp

theorem simplifyResponse_shape_witness:
  "distinct (map fst (rec_fields example_record))
   \<and> lr_results example_page = replicate 12 example_record
   \<and> length (example_stringify (map simplifyRecord (take 25 (lr_results example_page)))) > 50000
   \<and> length (take 25 (lr_results example_page)) > 10
   \<and> length (lr_results (simplifyResponse example_stringify example_page)) = 10
   \<and> lr_note (simplifyResponse example_stringify example_page)
       = Some ''Response truncated: showing 10 of 40 records. Use filters for specific data.''
   \<and> lr_results long_page = replicate 30 example_record
   \<and> \<not> length (small_stringify (map simplifyRecord (take 25 (lr_results long_page)))) > 50000
   \<and> 25 < length (lr_results long_page)
   \<and> length (lr_results (simplifyResponse small_stringify long_page)) = 25
   \<and> lr_note (simplifyResponse small_stringify long_page)
       = Some ''Response limited: showing 25 of 40 records. Use pagination or filters.''
   \<and> simplifyItem (JNum 5) = JNum 5
   \<and> simplifyItem (JObj [(''ids'', JNum 1), (''value'', JStr ''120'')])
       = JObj [(''ids'', JNum 1), (''value'', JStr ''120'')]
   \<and> isObjectWithIdChecked JNull = Inr False
   \<and> isObjectWithIdChecked (JNum 5) = Inr False"
proof -
  have d1: "\<forall>r \<in> set (lr_results example_page). distinct (map fst (rec_fields r))"
    by (simp add: example_page_def example_record_def)
  have d2: "\<forall>r \<in> set (lr_results long_page). distinct (map fst (rec_fields r))"
    by (simp add: long_page_def example_record_def)
  have a: "length (example_stringify (map simplifyRecord (take 25 (lr_results example_page)))) > 50000"
    "length (take 25 (lr_results example_page)) > 10"
    by (simp_all add: example_page_def example_stringify_def)
  have b: "\<not> length (small_stringify (map simplifyRecord (take 25 (lr_results long_page)))) > 50000"
    "25 < length (lr_results long_page)"
    by (simp_all add: long_page_def small_stringify_def)
  have c: "lr_count example_page = 40" "lr_count long_page = 40"
    by (simp_all add: example_page_def long_page_def)
  have d: "distinct (map fst (rec_fields example_record))"
    by (simp add: example_record_def)
  have e: "lr_results example_page = replicate 12 example_record"
    "lr_results long_page = replicate 30 example_record"
    by (simp_all add: example_page_def long_page_def)
  have w: "length (lr_results (simplifyResponse example_stringify example_page)) = 10
   \<and> lr_note (simplifyResponse example_stringify example_page)
       = Some ''Response truncated: showing 10 of 40 records. Use filters for specific data.''
   \<and> length (lr_results (simplifyResponse small_stringify long_page)) = 25
   \<and> lr_note (simplifyResponse small_stringify long_page)
       = Some ''Response limited: showing 25 of 40 records. Use pagination or filters.''"
    using simplifyResponse_shape [OF d1, of example_stringify]
      simplifyResponse_shape [OF d2, of small_stringify] a b
    by (simp add: c showInt_40)
  have o: "simplifyItem (JNum 5) = JNum 5"
    "simplifyItem (JObj [(''ids'', JNum 1), (''value'', JStr ''120'')])
       = JObj [(''ids'', JNum 1), (''value'', JStr ''120'')]"
    "isObjectWithIdChecked JNull = Inr False"
    "isObjectWithIdChecked (JNum 5) = Inr False"
    using simplifyResponse_shape [OF d1, of example_stringify] by simp_all
  from d e a b w o show ?thesis by blast
qed

subsection \<open>read\<close>

lemma simplifyResponse_length: "length (lr_results (simplifyResponse stringify response)) \<le> 25"
  by (auto simp: simplifyResponse_def MAX_RECORDS_PER_PAGE_def Let_def)

lemma limitedSize_clamped:
  "25 < n \<Longrightarrow> min n (int MAX_RECORDS_PER_PAGE) = 25"
  by (simp add: MAX_RECORDS_PER_PAGE_def)

text \<open>
  Claim C4. For every read request whose size argument exceeds the cap of 25: the size of
  the outbound list request is 25 (and it is the only request; a table that is not
  allowed gives none); when the store answers, the metadata of the response has
  \<open>size = 25\<close>; and whatever the store answered, a successful result holds at most 25
  records.
\<close>

theorem handleRead_clamps_size:
  assumes "25 < n"
  shows
    "(\<forall>err. validateAndGetTableId am t = Inl err \<longrightarrow>
        handleRead stringify R am t fs page (Some n) lg = (Inl err, lg))
     \<and> (\<forall>tid. validateAndGetTableId am t = Inr tid \<longrightarrow>
          snd (handleRead stringify R am t fs page (Some n) lg)
            = lg @ [ListRecords tid fs page (Some 25)])
     \<and> (\<forall>tid response. validateAndGetTableId am t = Inr tid
            \<and> r_list R lg tid fs page (Some 25) = Inr response \<longrightarrow>
          fst (handleRead stringify R am t fs page (Some n) lg)
            = Inr (SuccessResponse (simplifyResponse stringify response)
                     (Some \<lparr>md_count = lr_count response,
                            md_page = (case page of None \<Rightarrow> 1 | Some p \<Rightarrow> p),
                            md_size = 25,
                            md_next = lr_next response,
                            md_previous = lr_previous response\<rparr>)))
     \<and> (\<forall>resp. fst (handleRead stringify R am t fs page (Some n) lg) = Inr resp \<longrightarrow>
          (\<exists>d m. resp = SuccessResponse d (Some m) \<and> md_size m = 25
                 \<and> length (lr_results d) \<le> 25))"
proof -
  note c = limitedSize_clamped[OF assms]
  have 1: "handleRead stringify R am t fs page (Some n) lg = (Inl err, lg)"
    if "validateAndGetTableId am t = Inl err" for err
    using that by (simp add: handleRead_def readRecords_def c Let_def)
  have 2: "snd (handleRead stringify R am t fs page (Some n) lg)
            = lg @ [ListRecords tid fs page (Some 25)]"
    if "validateAndGetTableId am t = Inr tid" for tid
    using that
    by (simp add: handleRead_def readRecords_def client_listRecords_def c Let_def
        split: sum.splits)
  have 3: "fst (handleRead stringify R am t fs page (Some n) lg)
            = Inr (SuccessResponse (simplifyResponse stringify response)
                     (Some \<lparr>md_count = lr_count response,
                            md_page = (case page of None \<Rightarrow> 1 | Some p \<Rightarrow> p),
                            md_size = 25,
                            md_next = lr_next response,
                            md_previous = lr_previous response\<rparr>))"
    if "validateAndGetTableId am t = Inr tid \<and> r_list R lg tid fs page (Some 25) = Inr response"
    for tid response
    using that
    by (simp add: handleRead_def readRecords_def client_listRecords_def c Let_def)
  have 4: "\<exists>d m. resp = SuccessResponse d (Some m) \<and> md_size m = 25
                 \<and> length (lr_results d) \<le> 25"
    if "fst (handleRead stringify R am t fs page (Some n) lg) = Inr resp" for resp
    using that simplifyResponse_length
    by (auto simp: handleRead_def readRecords_def client_listRecords_def c Let_def
        split: sum.splits)
  from 1 2 3 4 show ?thesis by blast
qed

theorem handleRead_clamps_size_witness:
  "(25::int) < 200
   \<and> validateAndGetTableId example_manager ''parts'' = Inr 744797
   \<and> length (lr_results long_page) = 30
   \<and> snd (handleRead small_stringify long_remote example_manager ''parts'' None (Some 1) (Some 200) [])
       = [ListRecords 744797 None (Some 1) (Some 25)]
   \<and> (\<exists>d m. fst (handleRead small_stringify long_remote example_manager ''parts'' None (Some 1)
                    (Some 200) [])
              = Inr (SuccessResponse d (Some m))
            \<and> md_size m = 25 \<and> length (lr_results d) \<le> 25)"
proof -
  have n: "(25::int) < 200" by simp
  have v: "validateAndGetTableId example_manager ''parts'' = Inr 744797"
    by (simp add: validateAndGetTableId_def isTableAllowed_def getTableId_def
        example_manager_def mapHas_def mapGet_def ALLOWED_TABLE_NAMES_def)
  have r: "r_list long_remote [] 744797 None (Some 1) (Some 25) = Inr long_page"
    by (simp add: long_remote_def)
  have l: "length (lr_results long_page) = 30" by (simp add: long_page_def)
  show ?thesis
    using handleRead_clamps_size [OF n, of example_manager "''parts''" small_stringify
        long_remote None "Some 1" "[]"] v r l
    by auto
qed

subsection \<open>get_bom\<close>

lemma bomLoop_eq:
  "fst (bomLoop pf fg ms items isku) = items @ map (bomItemOf pf) (filter (retainedMapping fg) ms)"
proof (induction ms arbitrary: items isku)
  case Nil
  then show ?case by simp
next
  case (Cons m ms)
  show ?case
    by (simp add: Cons.IH Let_def retainedMapping_def bomItemOf_def)
qed

lemma getBOMFrom_parts:
  assumes "fg \<noteq> 0"
    and "validateAndGetTableId am ''fg_parts_mapping'' = Inr tid"
    and "r_list R lg tid (Some []) (Some 1) (Some 200) = Inr allMappings"
  shows "map_sum id (mapData gb_parts) (fst (getBOMFrom pf R am (Some fg) isku lg))
         = Inr (SuccessResponse
                  (map (bomItemOf pf) (filter (retainedMapping fg) (lr_results allMappings))) None)"
  using assms bomLoop_eq[of pf fg "lr_results allMappings" "[]" "JStr isku"]
  by (simp add: getBOMFrom_def readRecords_def client_listRecords_def case_prod_beta)

lemma getBOMFrom_fixed:
  assumes "fixedData R"
  shows "map_sum id (mapData gb_parts) (fst (getBOMFrom pf R am fg isku lg))
       = map_sum id (mapData gb_parts) (fst (getBOMFrom pf R am fg isku' lg'))"
proof -
  have l: "r_list R lg t f p s = r_list R lg' t f p s" for t f p s
    using assms unfolding fixedData_def by blast
  have b: "fst (bomLoop pf x ms [] (JStr isku)) = fst (bomLoop pf x ms [] (JStr isku'))" for x ms
    by (simp add: bomLoop_eq)
  show ?thesis
    using b
    by (auto simp: getBOMFrom_def readRecords_def client_listRecords_def l case_prod_beta
        split: option.splits sum.splits)
qed

text \<open>
  Claim C5. Let the store hold fixed data, let \<open>X\<close> be the identifier of a Finished
  Good (not zero) and \<open>Y\<close> a non-empty iSKU whose lookup in the Finished Goods table
  answers with a first record of identifier \<open>X\<close>. Then \<open>get_bom\<close> called with
  \<open>{fg_id: X}\<close> and called with \<open>{isku: Y}\<close> end alike as to the parts: with the same
  exception, or with the same \<open>parts\<close> list. When the fetch of the BOM mappings answers,
  that list is the projection \<open>bomItemOf\<close> (\<open>mapping_id\<close>, \<open>part_id\<close>, \<open>part_name\<close>,
  \<open>quantity_per_unit\<close>, \<open>part_role\<close>) of the fetched mappings, in order, whose
  \<open>Finished Good\<close> link has a first entry of identifier \<open>X\<close> and whose \<open>Part\<close> link
  is not empty.
\<close>

theorem get_bom_same_parts:
  assumes "fixedData R"
    and "X \<noteq> 0" and "Y \<noteq> []"
    and "validateAndGetTableId am ''finished_goods'' = Inr fgTable"
    and "r_list R lg fgTable (Some [(''iSKU'', JStr Y)]) (Some 1) (Some 1) = Inr fgResponse"
    and "lr_results fgResponse = fg # others"
    and "rec_id fg = X"
  shows "map_sum id (mapData gb_parts) (fst (handleGetBOM pf R am (Some X) None lg))
         = map_sum id (mapData gb_parts) (fst (handleGetBOM pf R am None (Some Y) lg))
       \<and> (\<forall>tid allMappings.
            validateAndGetTableId am ''fg_parts_mapping'' = Inr tid
            \<and> r_list R lg tid (Some []) (Some 1) (Some 200) = Inr allMappings \<longrightarrow>
            map_sum id (mapData gb_parts) (fst (handleGetBOM pf R am (Some X) None lg))
              = Inr (SuccessResponse
                       (map (bomItemOf pf)
                          (filter (retainedMapping X) (lr_results allMappings))) None))"
proof -
  have byId: "handleGetBOM pf R am (Some X) None lg = getBOMFrom pf R am (Some X) [] lg"
    using assms(2) by (simp add: handleGetBOM_def truthyNum_def truthyStr_def)
  have byIsku: "handleGetBOM pf R am None (Some Y) lg
      = getBOMFrom pf R am (Some X) Y
          (lg @ [ListRecords fgTable (Some [(''iSKU'', JStr Y)]) (Some 1) (Some 1)])"
    using assms(3-7)
    by (simp add: handleGetBOM_def truthyNum_def truthyStr_def readRecords_def
        client_listRecords_def)
  have same: "map_sum id (mapData gb_parts) (fst (handleGetBOM pf R am (Some X) None lg))
         = map_sum id (mapData gb_parts) (fst (handleGetBOM pf R am None (Some Y) lg))"
    unfolding byId byIsku by (rule getBOMFrom_fixed[OF assms(1)])
  have parts: "map_sum id (mapData gb_parts) (fst (handleGetBOM pf R am (Some X) None lg))
              = Inr (SuccessResponse
                       (map (bomItemOf pf)
                          (filter (retainedMapping X) (lr_results allMappings))) None)"
    if "validateAndGetTableId am ''fg_parts_mapping'' = Inr tid
            \<and> r_list R lg tid (Some []) (Some 1) (Some 200) = Inr allMappings"
    for tid allMappings
    unfolding byId using getBOMFrom_parts[OF assms(2), of am tid R lg allMappings pf "[]"] that
    by simp
  from same parts show ?thesis by blast
qed


lemma bom_manager_tables:
  "validateAndGetTableId bom_manager ''finished_goods'' = Inr 747400"
  "validateAndGetTableId bom_manager ''fg_parts_mapping'' = Inr 748088"
  by (simp_all add: validateAndGetTableId_def isTableAllowed_def getTableId_def
      bom_manager_def mapHas_def mapGet_def ALLOWED_TABLE_NAMES_def)

theorem get_bom_same_parts_witness:
  "fixedData bom_remote
   \<and> validateAndGetTableId bom_manager ''finished_goods'' = Inr 747400
   \<and> r_list bom_remote [] 747400 (Some [(''iSKU'', JStr ''TN-Stevia-8oz'')]) (Some 1) (Some 1)
       = Inr \<lparr>lr_count = 1, lr_next = None, lr_previous = None,
              lr_results = [\<lparr>rec_id = 2184, rec_order = ''1.0'',
                              rec_fields = [(''iSKU'', JStr ''TN-Stevia-8oz'')]\<rparr>],
              lr_note = None\<rparr>
   \<and> map_sum id (mapData gb_parts)
        (fst (handleGetBOM example_parseFloat bom_remote bom_manager (Some 2184) None []))
       = map_sum id (mapData gb_parts)
          (fst (handleGetBOM example_parseFloat bom_remote bom_manager None
                  (Some ''TN-Stevia-8oz'') []))
   \<and> map_sum id (mapData gb_parts)
        (fst (handleGetBOM example_parseFloat bom_remote bom_manager None
                (Some ''TN-Stevia-8oz'') []))
       = Inr (SuccessResponse
                [\<lparr>mapping_id = 101, part_id = JNum 31, part_name = JStr ''RM-PWD-Stevia'',
                  quantity_per_unit = JStr ''2.5'', part_role = JStr ''Raw Material''\<rparr>] None)"
proof -
  have f: "fixedData bom_remote"
    by (simp add: fixedData_def bom_remote_def)
  have x: "(2184::int) \<noteq> 0" and y: "''TN-Stevia-8oz'' \<noteq> []" by simp_all
  have r: "r_list bom_remote [] 747400 (Some [(''iSKU'', JStr ''TN-Stevia-8oz'')]) (Some 1) (Some 1)
       = Inr \<lparr>lr_count = 1, lr_next = None, lr_previous = None,
              lr_results = [\<lparr>rec_id = 2184, rec_order = ''1.0'',
                              rec_fields = [(''iSKU'', JStr ''TN-Stevia-8oz'')]\<rparr>],
              lr_note = None\<rparr>"
    by (simp add: bom_remote_def)
  have m: "r_list bom_remote [] 748088 (Some []) (Some 1) (Some 200)
       = Inr \<lparr>lr_count = 3, lr_next = None, lr_previous = None, lr_results = bom_mappings,
              lr_note = None\<rparr>"
    by (simp add: bom_remote_def)
  have p: "map (bomItemOf example_parseFloat) (filter (retainedMapping 2184) bom_mappings)
       = [\<lparr>mapping_id = 101, part_id = JNum 31, part_name = JStr ''RM-PWD-Stevia'',
           quantity_per_unit = JStr ''2.5'', part_role = JStr ''Raw Material''\<rparr>]"
    by (simp add: bom_mappings_def retainedMapping_def bomItemOf_def getField_def js_or_def
        example_parseFloat_def)
  have g: "lr_results \<lparr>lr_count = 1, lr_next = None, lr_previous = None,
              lr_results = [\<lparr>rec_id = 2184, rec_order = ''1.0'',
                              rec_fields = [(''iSKU'', JStr ''TN-Stevia-8oz'')]\<rparr>],
              lr_note = None\<rparr>
       = \<lparr>rec_id = 2184, rec_order = ''1.0'', rec_fields = [(''iSKU'', JStr ''TN-Stevia-8oz'')]\<rparr> # []"
    by simp
  have i: "rec_id \<lparr>rec_id = 2184, rec_order = ''1.0'',
                     rec_fields = [(''iSKU'', JStr ''TN-Stevia-8oz'')]\<rparr> = 2184"
    by simp
  note t = get_bom_same_parts [OF f x y bom_manager_tables(1) r g i, of example_parseFloat]
  have e1: "map_sum id (mapData gb_parts)
        (fst (handleGetBOM example_parseFloat bom_remote bom_manager (Some 2184) None []))
       = map_sum id (mapData gb_parts)
          (fst (handleGetBOM example_parseFloat bom_remote bom_manager None
                  (Some ''TN-Stevia-8oz'') []))"
    using t by (rule conjunct1)
  have e2: "map_sum id (mapData gb_parts)
        (fst (handleGetBOM example_parseFloat bom_remote bom_manager (Some 2184) None []))
       = Inr (SuccessResponse
                [\<lparr>mapping_id = 101, part_id = JNum 31, part_name = JStr ''RM-PWD-Stevia'',
                  quantity_per_unit = JStr ''2.5'', part_role = JStr ''Raw Material''\<rparr>] None)"
    using t [THEN conjunct2, rule_format, OF conjI, OF bom_manager_tables(2) m] p by simp
  have e3: "map_sum id (mapData gb_parts)
        (fst (handleGetBOM example_parseFloat bom_remote bom_manager None
                (Some ''TN-Stevia-8oz'') []))
       = Inr (SuccessResponse
                [\<lparr>mapping_id = 101, part_id = JNum 31, part_name = JStr ''RM-PWD-Stevia'',
                  quantity_per_unit = JStr ''2.5'', part_role = JStr ''Raw Material''\<rparr>] None)"
    using e1 e2 by simp
  from f bom_manager_tables(1) r e1 e3 show ?thesis by blast
qed

subsection \<open>search_parts\<close>

lemma toLowerCase_empty [simp]: "toLowerCase s = [] \<longleftrightarrow> s = []"
  by (simp add: toLowerCase_def)

lemma indexParts_keys:
  "indexParts ps idx = Inr idx' \<Longrightarrow> [] \<notin> fst ` set idx \<Longrightarrow> [] \<notin> fst ` set idx'"
proof (induction ps arbitrary: idx)
  case Nil
  then show ?case by simp
next
  case (Cons part ps)
  show ?case
  proof (cases "truthy (partNameOf part)")
    case False
    with Cons show ?thesis by simp
  next
    case True
    with Cons.prems(1) obtain name where n: "partNameOf part = JStr name"
      by (cases "partNameOf part") (auto simp: Let_def)
    with True have ne: "name \<noteq> []" by simp
    from Cons.prems(1) n ne have
      "indexParts ps (mapSet (toLowerCase name) \<lparr>pi_part_id = rec_id part, pi_part_name = name\<rparr> idx)
         = Inr idx'"
      by (simp add: Let_def)
    moreover have "[] \<notin> fst ` set (mapSet (toLowerCase name)
        \<lparr>pi_part_id = rec_id part, pi_part_name = name\<rparr> idx)"
      using Cons.prems(2) ne by (auto simp: mapSet_keys dest: sym)
    ultimately show ?thesis by (rule Cons.IH)
  qed
qed

lemma loadParts_keys:
  "loadParts R m page idx lg = (Inr idx', lg') \<Longrightarrow> [] \<notin> fst ` set idx \<Longrightarrow> [] \<notin> fst ` set idx'"
proof (induction R m page idx lg rule: loadParts.induct)
  case (1 R m page idx lg)
  from "1.prems"(1) obtain partsPage lg1 where
    rd: "readRecords R m ''parts'' (Some []) (Some page) (Some 200) lg = (Inr partsPage, lg1)"
    by (subst (asm) loadParts.simps) (auto split: prod.splits sum.splits)
  from "1.prems"(1) rd obtain idx1 where
    ix: "indexParts (lr_results partsPage) idx = Inr idx1"
    by (subst (asm) loadParts.simps) (auto split: sum.splits)
  have k1: "[] \<notin> fst ` set idx1" using indexParts_keys[OF ix "1.prems"(2)] .
  show ?case
  proof (cases "\<not> page + 1 > 50 \<and> lr_next partsPage \<noteq> None \<and> lr_results partsPage \<noteq> []")
    case True
    then have "loadParts R m page idx lg = loadParts R m (page + 1) idx1 lg1"
      using rd ix by (subst loadParts.simps) (simp add: Let_def)
    with "1.prems"(1) have "loadParts R m (page + 1) idx1 lg1 = (Inr idx', lg')" by simp
    then show ?thesis
      using "1.IH"[OF rd[symmetric] refl ix refl _ _ _ k1] True by (simp add: Let_def)
  next
    case False
    then have "loadParts R m page idx lg = (Inr idx1, lg1)"
      using rd ix by (subst loadParts.simps) (auto simp: Let_def)
    with "1.prems"(1) k1 show ?thesis by simp
  qed
qed

lemma readRecords_fixed:
  "fixedData R \<Longrightarrow>
   fst (readRecords R m t f p s lg) = fst (readRecords R m t f p s lg2)"
  unfolding fixedData_def readRecords_def client_listRecords_def
  by (cases "validateAndGetTableId m t") auto

lemma loadParts_fixed:
  "fixedData R \<Longrightarrow> fst (loadParts R m page idx lg) = fst (loadParts R m page idx lg2)"
proof (induction R m page idx lg arbitrary: lg2 rule: loadParts.induct)
  case (1 R m page idx lg)
  obtain a lg1 where rd: "readRecords R m ''parts'' (Some []) (Some page) (Some 200) lg = (a, lg1)"
    by (cases "readRecords R m ''parts'' (Some []) (Some page) (Some 200) lg") auto
  obtain a2 lg3 where rd2: "readRecords R m ''parts'' (Some []) (Some page) (Some 200) lg2 = (a2, lg3)"
    by (cases "readRecords R m ''parts'' (Some []) (Some page) (Some 200) lg2") auto
  have aa: "a2 = a"
    using readRecords_fixed[OF "1.prems", of m "''parts''" "Some []" "Some page" "Some 200" lg lg2]
      rd rd2 by simp
  show ?case
  proof (cases a)
    case (Inl err)
    then show ?thesis using rd rd2 aa
      by (subst loadParts.simps, subst (2) loadParts.simps) simp
  next
    case (Inr partsPage)
    show ?thesis
    proof (cases "indexParts (lr_results partsPage) idx")
      case (Inl err)
      then show ?thesis using rd rd2 aa Inr
        by (subst loadParts.simps, subst (2) loadParts.simps) simp
    next
      case ix: (Inr idx1)
      show ?thesis
      proof (cases "\<not> page + 1 > 50 \<and> lr_next partsPage \<noteq> None \<and> lr_results partsPage \<noteq> []")
        case True
        have l: "loadParts R m page idx lg = loadParts R m (page + 1) idx1 lg1"
          using rd ix Inr True by (subst loadParts.simps) (simp add: Let_def)
        have r: "loadParts R m page idx lg2 = loadParts R m (page + 1) idx1 lg3"
          using rd2 ix Inr aa True by (subst loadParts.simps) (simp add: Let_def)
        have "fst (loadParts R m (page + 1) idx1 lg1) = fst (loadParts R m (page + 1) idx1 lg3)"
          using "1.IH"[OF _ refl ix refl _ _ "1.prems", of lg1 lg3] rd Inr True
          by (simp add: Let_def)
        then show ?thesis using l r by simp
      next
        case False
        have l: "loadParts R m page idx lg = (Inr idx1, lg1)"
          using rd ix Inr False by (subst loadParts.simps) (auto simp: Let_def)
        have r: "loadParts R m page idx lg2 = (Inr idx1, lg3)"
          using rd2 ix Inr aa False by (subst loadParts.simps) (auto simp: Let_def)
        show ?thesis using l r by simp
      qed
    qed
  qed
qed

lemma searchLoop_eq:
  "searchLoop idx terms results notFound
     = (results @ map (searchTerm idx) terms,
        notFound @ filter (\<lambda>t. \<not> sr_found (searchTerm idx t)) terms)"
  by (induction terms arbitrary: results notFound) (auto simp: Let_def)

lemma handleSearchParts_results:
  "loadParts R m 1 [] lg = (Inr idx, lg') \<Longrightarrow>
   handleSearchParts R m terms lg
     = (Inr (SuccessResponse
               \<lparr>sp_results = map (searchTerm idx) terms,
                sp_found_count = length (filter sr_found (map (searchTerm idx) terms)),
                sp_not_found = filter (\<lambda>t. \<not> sr_found (searchTerm idx t)) terms\<rparr> None), lg')"
  by (simp add: handleSearchParts_def searchLoop_eq)

lemma handleSearchParts_fixed:
  "fixedData R \<Longrightarrow>
   fst (handleSearchParts R m terms lg) = fst (handleSearchParts R m terms lg2)"
  using loadParts_fixed[of R m 1 "[]" lg lg2]
  by (cases "loadParts R m 1 [] lg"; cases "loadParts R m 1 [] lg2")
     (auto simp: handleSearchParts_def searchLoop_eq split: sum.splits)

lemma searchTerm_exact:
  "mapGet idx (toLowerCase term) = Some info \<Longrightarrow>
   searchTerm idx term
     = \<lparr>sr_part_id = pi_part_id info, sr_part_name = pi_part_name info,
        sr_search_term = term, sr_found = True\<rparr>"
  by (simp add: searchTerm_def)

lemma strIncludes_empty [simp]: "strIncludes s []"
  by (induction s) auto

lemma searchTerm_empty:
  assumes "idx \<noteq> []" and "[] \<notin> fst ` set idx"
  shows "searchTerm idx []
     = \<lparr>sr_part_id = pi_part_id (snd (hd idx)), sr_part_name = pi_part_name (snd (hd idx)),
        sr_search_term = [], sr_found = True\<rparr>"
proof -
  obtain name info rest where i: "idx = (name, info) # rest"
    using assms(1) by (cases idx) auto
  have "map_of idx [] = None"
    using assms(2) by (simp add: map_of_eq_None_iff)
  then have g: "mapGet idx (toLowerCase []) = None"
    by (simp add: mapGet_def toLowerCase_def)
  have f: "findPartial idx (toLowerCase []) = Some info"
    by (simp add: i toLowerCase_def)
  have "searchTerm idx []
     = \<lparr>sr_part_id = pi_part_id info, sr_part_name = pi_part_name info,
        sr_search_term = [], sr_found = True\<rparr>"
    by (simp add: searchTerm_def Let_def g f)
  then show ?thesis unfolding i by simp
qed

text \<open>
  Claim C6. Given fixed remote data, \<open>search_parts\<close> called again with the same
  terms, after its own first call, returns the same result (the same response, or the same
  exception). And whenever the name index is built, the result holds one entry per term,
  in order, and for every term whose lower-cased form is a key of the index the entry is
  the one stored under that key, found: the partial match is not consulted, whatever the
  other entries of the index are.
\<close>

theorem search_parts_idempotent_exact_first:
  assumes "fixedData R"
  shows "fst (handleSearchParts R m terms (snd (handleSearchParts R m terms lg)))
           = fst (handleSearchParts R m terms lg)
       \<and> (\<forall>idx lg'. loadParts R m 1 [] lg = (Inr idx, lg') \<longrightarrow>
            (\<exists>resp. fst (handleSearchParts R m terms lg) = Inr (SuccessResponse resp None)
               \<and> length (sp_results resp) = length terms
               \<and> (\<forall>i < length terms. \<forall>info.
                     mapGet idx (toLowerCase (terms ! i)) = Some info \<longrightarrow>
                     sp_results resp ! i
                       = \<lparr>sr_part_id = pi_part_id info, sr_part_name = pi_part_name info,
                          sr_search_term = terms ! i, sr_found = True\<rparr>)))"
proof -
  have a: "fst (handleSearchParts R m terms (snd (handleSearchParts R m terms lg)))
           = fst (handleSearchParts R m terms lg)"
    by (rule handleSearchParts_fixed[OF assms])
  have b: "\<exists>resp. fst (handleSearchParts R m terms lg) = Inr (SuccessResponse resp None)
               \<and> length (sp_results resp) = length terms
               \<and> (\<forall>i < length terms. \<forall>info.
                     mapGet idx (toLowerCase (terms ! i)) = Some info \<longrightarrow>
                     sp_results resp ! i
                       = \<lparr>sr_part_id = pi_part_id info, sr_part_name = pi_part_name info,
                          sr_search_term = terms ! i, sr_found = True\<rparr>)"
    if "loadParts R m 1 [] lg = (Inr idx, lg')" for idx lg'
    using handleSearchParts_results[OF that, of terms] searchTerm_exact[of idx]
    by simp
  from a b show ?thesis by blast
qed

text \<open>
  Claim C9. For every \<open>search_parts\<close> call whose built name index is not empty, every
  search term equal to the empty string is reported found and matched to the first entry
  of the index in insertion order: the empty string is not a key of the index, so the
  exact lookup misses, and the partial match stops at the first entry.
\<close>

theorem search_parts_empty_term_first_entry:
  assumes "loadParts R m 1 [] lg = (Inr idx, lg')" and "idx \<noteq> []"
  shows "(\<exists>resp. handleSearchParts R m terms lg = (Inr (SuccessResponse resp None), lg')
            \<and> length (sp_results resp) = length terms
            \<and> (\<forall>i < length terms. terms ! i = [] \<longrightarrow>
                  sp_results resp ! i
                    = \<lparr>sr_part_id = pi_part_id (snd (hd idx)),
                       sr_part_name = pi_part_name (snd (hd idx)),
                       sr_search_term = [], sr_found = True\<rparr>))
       \<and> mapGet idx [] = None"
proof -
  have k: "[] \<notin> fst ` set idx"
    using loadParts_keys[OF assms(1)] by simp
  have g: "mapGet idx [] = None"
    using k by (simp add: mapGet_def map_of_eq_None_iff)
  show ?thesis
    using handleSearchParts_results[OF assms(1), of terms] searchTerm_empty[OF assms(2) k] g
    by simp
qed

lemma parts_loaded:
  "loadParts parts_remote example_manager 1 [] []
     = (Inr parts_index, [ListRecords 744797 (Some []) (Some 1) (Some 200)])"
  by code_simp

lemma parts_fixed: "fixedData parts_remote"
  by (simp add: fixedData_def parts_remote_def)

theorem search_parts_idempotent_exact_first_witness:
  "fixedData parts_remote
   \<and> loadParts parts_remote example_manager 1 [] []
       = (Inr parts_index, [ListRecords 744797 (Some []) (Some 1) (Some 200)])
   \<and> findPartial parts_index (toLowerCase ''Stevia'')
       = Some \<lparr>pi_part_id = 31, pi_part_name = ''Stevia Powder''\<rparr>
   \<and> mapGet parts_index (toLowerCase ''Stevia'')
       = Some \<lparr>pi_part_id = 32, pi_part_name = ''STEVIA''\<rparr>
   \<and> (\<exists>resp. fst (handleSearchParts parts_remote example_manager [''Stevia''] [])
               = Inr (SuccessResponse resp None)
             \<and> sp_results resp ! 0
                 = \<lparr>sr_part_id = 32, sr_part_name = ''STEVIA'', sr_search_term = ''Stevia'',
                    sr_found = True\<rparr>)
   \<and> fst (handleSearchParts parts_remote example_manager [''Stevia'']
            (snd (handleSearchParts parts_remote example_manager [''Stevia''] [])))
       = fst (handleSearchParts parts_remote example_manager [''Stevia''] [])"
proof -
  have p: "findPartial parts_index (toLowerCase ''Stevia'')
       = Some \<lparr>pi_part_id = 31, pi_part_name = ''Stevia Powder''\<rparr>"
    by code_simp
  have g: "mapGet parts_index (toLowerCase ''Stevia'')
       = Some \<lparr>pi_part_id = 32, pi_part_name = ''STEVIA''\<rparr>"
    by code_simp
  note t = search_parts_idempotent_exact_first [OF parts_fixed, of example_manager "[''Stevia'']" "[]"]
  have e: "\<exists>resp. fst (handleSearchParts parts_remote example_manager [''Stevia''] [])
               = Inr (SuccessResponse resp None)
             \<and> sp_results resp ! 0
                 = \<lparr>sr_part_id = 32, sr_part_name = ''STEVIA'', sr_search_term = ''Stevia'',
                    sr_found = True\<rparr>"
    using t [THEN conjunct2, rule_format, OF parts_loaded] g by auto
  from parts_fixed parts_loaded p g e t [THEN conjunct1] show ?thesis by blast
qed

theorem search_parts_empty_term_witness:
  "loadParts parts_remote example_manager 1 [] []
       = (Inr parts_index, [ListRecords 744797 (Some []) (Some 1) (Some 200)])
   \<and> parts_index \<noteq> []
   \<and> (\<exists>resp. handleSearchParts parts_remote example_manager [''xyz'', []] []
               = (Inr (SuccessResponse resp None), [ListRecords 744797 (Some []) (Some 1) (Some 200)])
             \<and> sp_results resp ! 1
                 = \<lparr>sr_part_id = 31, sr_part_name = ''Stevia Powder'', sr_search_term = [],
                    sr_found = True\<rparr>)"
proof -
  have n: "parts_index \<noteq> []" by (simp add: parts_index_def)
  have h: "pi_part_id (snd (hd parts_index)) = 31"
    "pi_part_name (snd (hd parts_index)) = ''Stevia Powder''"
    by (simp_all add: parts_index_def)
  have e: "\<exists>resp. handleSearchParts parts_remote example_manager [''xyz'', []] []
               = (Inr (SuccessResponse resp None), [ListRecords 744797 (Some []) (Some 1) (Some 200)])
             \<and> sp_results resp ! 1
                 = \<lparr>sr_part_id = 31, sr_part_name = ''Stevia Powder'', sr_search_term = [],
                    sr_found = True\<rparr>"
    using search_parts_empty_term_first_entry [OF parts_loaded n, of "[''xyz'', []]"] h by auto
  from parts_loaded n e show ?thesis by blast
qed

subsection \<open>process_bpr\<close>

lemma readRecords_ok_log:
  "readRecords R m t f p s lg = (Inr r, lg') \<Longrightarrow>
   \<exists>tid. validateAndGetTableId m t = Inr tid \<and> lg' = lg @ [ListRecords tid f p s]"
  by (auto simp: readRecords_def client_listRecords_def split: sum.splits)

lemma createRecord_ok_log:
  "createRecord R m t d lg = (Inr r, lg') \<Longrightarrow>
   \<exists>tid. validateAndGetTableId m t = Inr tid \<and> lg' = lg @ [CreateRecord tid d]"
  by (auto simp: createRecord_def client_createRecord_def split: sum.splits)

lemma updateRecord_ok_log:
  "updateRecord R m t i d lg = (Inr r, lg') \<Longrightarrow>
   \<exists>tid. validateAndGetTableId m t = Inr tid \<and> lg' = lg @ [UpdateRecord tid i d]"
  by (auto simp: updateRecord_def client_updateRecord_def split: sum.splits)

lemma lookupLots_ok_log:
  "lookupLots R m ns lg = (Inr l, lg') \<Longrightarrow> \<exists>cs. lg' = lg @ cs \<and> (\<forall>c \<in> set cs. isListCall c)"
  by (auto simp: lookupLots_def split: if_splits prod.splits sum.splits dest!: readRecords_ok_log)

lemma lookupLabels_ok_log:
  "lookupLabels R m ns lg = (Inr l, lg') \<Longrightarrow> \<exists>cs. lg' = lg @ cs \<and> (\<forall>c \<in> set cs. isListCall c)"
  by (auto simp: lookupLabels_def split: if_splits prod.splits sum.splits dest!: readRecords_ok_log)

lemma createUsage_ok_log:
  "createRecord R m ''mo_parts_usage'' d lg = (Inr r, lg') \<Longrightarrow>
   lg' = lg @ [CreateRecord (usageTableId m) d]"
  by (auto simp: usageTableId_def dest!: createRecord_ok_log)

lemma createUsageLoop_ok:
  "createUsageLoop R m moId moNumber enteredBy bomLookup lotLookup labelLookup parts recs lg
     = (Inr recs', lg') \<Longrightarrow>
   lg' = lg @ map (CreateRecord (usageTableId m))
                 (usageDataList moId moNumber enteredBy bomLookup lotLookup labelLookup parts)
   \<and> length recs' = length recs + length parts"
proof (induction parts arbitrary: recs lg)
  case Nil
  then show ?case by (simp add: usageDataList_def)
next
  case (Cons part parts)
  from Cons.prems obtain bomInfo where b: "mapGet bomLookup (bom_id part) = Some bomInfo"
    by (auto split: option.splits)
  from Cons.prems b obtain rcd lg1 where
    c: "createRecord R m ''mo_parts_usage''
          (usageData moId moNumber enteredBy bomInfo lotLookup labelLookup part) lg = (Inr rcd, lg1)"
    and r: "createUsageLoop R m moId moNumber enteredBy bomLookup lotLookup labelLookup parts
              (recs @ [rcd]) lg1 = (Inr recs', lg')"
    by (auto split: prod.splits sum.splits)
  show ?case
    using Cons.IH[OF r] createUsage_ok_log[OF c] b by (simp add: usageDataList_def)
qed

lemma usageData_fields:
  "getField (usageData moId moNumber enteredBy bomInfo lotLookup labelLookup part) ''Manufacturing Order''
     = JArr [JNum (of_int moId)]"
  "getField (usageData moId moNumber enteredBy bomInfo lotLookup labelLookup part) ''Actual Quantity Used''
     = JNum (quantity part)"
  by (simp_all add: usageData_def getField_def)

lemma updateData_fields:
  "getField (updateData completionDate grossProduced) ''MO Status'' = JNum 4554566"
  "getField (updateData completionDate grossProduced) ''Deduction Method'' = JNum 4669016"
  "getField (updateData completionDate grossProduced) ''Actual Usage Complete'' = JBool True"
  "getField (updateData completionDate grossProduced) ''MO Inventory Processed'' = JBool True"
  by (simp_all add: updateData_def getField_def MO_STATUS_CLOSED_def
      DEDUCTION_METHOD_ACTUAL_USAGE_def)

lemma createUsageLoop_table:
  assumes "createUsageLoop R m moId moNumber enteredBy bomLookup lotLookup labelLookup parts recs lg
             = (Inr recs', lg')"
    and "parts \<noteq> []"
  shows "validateAndGetTableId m ''mo_parts_usage'' = Inr (usageTableId m)"
proof -
  from assms(2) obtain part rest where p: "parts = part # rest" by (cases parts) auto
  from assms(1) p obtain bomInfo where b: "mapGet bomLookup (bom_id part) = Some bomInfo"
    by (auto split: option.splits)
  from assms(1) p b obtain rcd lg1 where
    "createRecord R m ''mo_parts_usage''
       (usageData moId moNumber enteredBy bomInfo lotLookup labelLookup part) lg = (Inr rcd, lg1)"
    by (auto split: prod.splits sum.splits)
  from createRecord_ok_log[OF this] show ?thesis by (auto simp: usageTableId_def)
qed

lemma createAndClose_ok:
  assumes "createAndClose R m moId moNumber completionDate grossProduced enteredBy bomLookup
             lotLookup labelLookup partsUsage lg = (Inr (SuccessResponse resp md), lg')"
  shows "\<exists>moTable.
           validateAndGetTableId m ''manufacturing_orders'' = Inr moTable
         \<and> (partsUsage \<noteq> [] \<longrightarrow>
              validateAndGetTableId m ''mo_parts_usage'' = Inr (usageTableId m))
         \<and> lg' = lg @ map (CreateRecord (usageTableId m))
                        (usageDataList moId moNumber enteredBy bomLookup lotLookup labelLookup
                           partsUsage)
                    @ [UpdateRecord moTable moId (updateData completionDate grossProduced)]
         \<and> pb_mo_id resp = moId \<and> pb_parts_usage_created resp = length partsUsage
         \<and> length (pb_parts_usage_ids resp) = length partsUsage \<and> pb_mo_updated resp"
proof -
  from assms obtain usageRecords lg1 where
    c: "createUsageLoop R m moId moNumber enteredBy bomLookup lotLookup labelLookup partsUsage []
          lg = (Inr usageRecords, lg1)"
    by (auto simp: createAndClose_def split: prod.splits sum.splits)
  from assms c obtain updated where
    u: "updateRecord R m ''manufacturing_orders'' moId (updateData completionDate grossProduced) lg1
          = (Inr updated, lg')"
    and r: "resp = \<lparr>pb_success = True, pb_mo_id = moId, pb_mo_number = moNumber,
                    pb_parts_usage_created = length usageRecords,
                    pb_parts_usage_ids = map rec_id usageRecords,
                    pb_mo_updated = True,
                    pb_summary =
                      ''BPR processed: MO '' @ moNumber @ '' closed with ''
                        @ showNat (length usageRecords)
                        @ '' parts usage records. Gross produced: '' @ grossProduced\<rparr>"
    by (auto simp: createAndClose_def split: prod.splits sum.splits)
  from createUsageLoop_ok[OF c] updateRecord_ok_log[OF u] r createUsageLoop_table[OF c]
  show ?thesis by auto
qed

text \<open>
  Claim C3. For every \<open>process_bpr\<close> request with \<open>n\<close> parts-usage items that runs
  to its end (the Manufacturing Order resolves, every \<open>bom_id\<close> resolves, every creation
  and the final update succeed, so that the success response is returned), the requests
  issued are, in this order:
  \<^item> the lookup of the Manufacturing Order by its number, in the table configured as
    \<open>manufacturing_orders\<close>; the resolved identifier is that of the first record the
    lookup returned;
  \<^item> further list requests and nothing else;
  \<^item> exactly \<open>n\<close> creations in the table configured as \<open>mo_parts_usage\<close>, one per
    item and in the order of the items, each with the data the handler builds for its item,
    which links the resolved Manufacturing Order and carries the quantity of the item;
  \<^item> exactly one update, in the table configured as \<open>manufacturing_orders\<close>, of the
    record with the resolved identifier, which sets \<open>MO Status\<close> to 4554566,
    \<open>Deduction Method\<close> to 4669016 and both \<open>Actual Usage Complete\<close> and
    \<open>MO Inventory Processed\<close> to true.
\<close>

theorem process_bpr_creates_each_item_and_closes_once:
  assumes "handleProcessBPR R m moNumber completionDate grossProduced partsUsage enteredBy lg
             = (Inr (SuccessResponse resp md), lg')"
  shows "\<exists>moTable usageTable moResponse lookups usage bomLookup lotLookup labelLookup.
           validateAndGetTableId m ''manufacturing_orders'' = Inr moTable
         \<and> (partsUsage = [] \<or> validateAndGetTableId m ''mo_parts_usage'' = Inr usageTable)
         \<and> readRecords R m ''manufacturing_orders'' (Some [(''MO Number'', JStr moNumber)])
               (Some 1) (Some 1) lg
             = (Inr moResponse,
                lg @ [ListRecords moTable (Some [(''MO Number'', JStr moNumber)]) (Some 1) (Some 1)])
         \<and> lr_results moResponse \<noteq> []
         \<and> pb_mo_id resp = rec_id (hd (lr_results moResponse))
         \<and> lg' = lg @ [ListRecords moTable (Some [(''MO Number'', JStr moNumber)]) (Some 1) (Some 1)]
                    @ lookups @ map (CreateRecord usageTable) usage
                    @ [UpdateRecord moTable (pb_mo_id resp) (updateData completionDate grossProduced)]
         \<and> list_all isListCall lookups
         \<and> usage = map (\<lambda>part. usageData (pb_mo_id resp) moNumber enteredBy
                                   (the (mapGet bomLookup (bom_id part))) lotLookup labelLookup part)
                      partsUsage
         \<and> list_all (\<lambda>part. mapHas bomLookup (bom_id part)) partsUsage
         \<and> length usage = length partsUsage
         \<and> list_all (\<lambda>data. getField data ''Manufacturing Order''
                               = JArr [JNum (of_int (pb_mo_id resp))]) usage
         \<and> map (\<lambda>data. getField data ''Actual Quantity Used'') usage
             = map (\<lambda>part. JNum (quantity part)) partsUsage
         \<and> length (filter isCreateCall (drop (length lg) lg')) = length partsUsage
         \<and> filter isUpdateCall (drop (length lg) lg')
             = [UpdateRecord moTable (pb_mo_id resp) (updateData completionDate grossProduced)]
         \<and> getField (updateData completionDate grossProduced) ''MO Status'' = JNum 4554566
         \<and> getField (updateData completionDate grossProduced) ''Deduction Method'' = JNum 4669016
         \<and> getField (updateData completionDate grossProduced) ''Actual Usage Complete'' = JBool True
         \<and> getField (updateData completionDate grossProduced) ''MO Inventory Processed'' = JBool True
         \<and> pb_parts_usage_created resp = length partsUsage
         \<and> pb_mo_updated resp"
proof -
  from assms obtain moResponse lg1 where
    r1: "readRecords R m ''manufacturing_orders'' (Some [(''MO Number'', JStr moNumber)])
           (Some 1) (Some 1) lg = (Inr moResponse, lg1)"
    by (auto simp: handleProcessBPR_def split: prod.splits sum.splits)
  from assms r1 obtain mo others where mo: "lr_results moResponse = mo # others"
    by (auto simp: handleProcessBPR_def split: list.splits)
  from assms r1 mo obtain mappingsResponse lg2 where
    r2: "readRecords R m ''fg_parts_mapping'' (Some []) (Some 1) (Some 200) lg1
           = (Inr mappingsResponse, lg2)"
    by (auto simp: handleProcessBPR_def Let_def split: prod.splits sum.splits)
  define bomLookup where
    "bomLookup = bomLookupLoop (map bom_id partsUsage) (lr_results mappingsResponse) []"
  from assms r1 mo r2 have
    found: "filter (\<lambda>i. \<not> mapHas bomLookup i) (map bom_id partsUsage) = []"
    by (auto simp: handleProcessBPR_def Let_def bomLookup_def split: if_splits)
  from assms r1 mo r2 obtain lotLookup lg3 where
    r3: "lookupLots R m (lotNumbersOf partsUsage) lg2 = (Inr lotLookup, lg3)"
    by (auto simp: handleProcessBPR_def Let_def split: prod.splits sum.splits if_splits)
  from assms r1 mo r2 r3 obtain labelLookup lg4 where
    r4: "lookupLabels R m (labelCodesOf partsUsage) lg3 = (Inr labelLookup, lg4)"
    by (auto simp: handleProcessBPR_def Let_def split: prod.splits sum.splits if_splits)
  from assms r1 mo r2 r3 r4 have
    r5: "createAndClose R m (rec_id mo) moNumber completionDate grossProduced enteredBy bomLookup
           lotLookup labelLookup partsUsage lg4 = (Inr (SuccessResponse resp md), lg')"
    by (auto simp: handleProcessBPR_def Let_def bomLookup_def split: if_splits)
  from createAndClose_ok[OF r5] obtain moTable where
    t: "validateAndGetTableId m ''manufacturing_orders'' = Inr moTable"
    and ut: "partsUsage \<noteq> [] \<longrightarrow>
              validateAndGetTableId m ''mo_parts_usage'' = Inr (usageTableId m)"
    and l5: "lg' = lg4 @ map (CreateRecord (usageTableId m))
                        (usageDataList (rec_id mo) moNumber enteredBy bomLookup lotLookup
                           labelLookup partsUsage)
                    @ [UpdateRecord moTable (rec_id mo) (updateData completionDate grossProduced)]"
    and p: "pb_mo_id resp = rec_id mo" "pb_parts_usage_created resp = length partsUsage"
      "pb_mo_updated resp"
    by blast
  let ?c1 = "ListRecords moTable (Some [(''MO Number'', JStr moNumber)]) (Some 1) (Some 1)"
  from readRecords_ok_log[OF r1] t have l1: "lg1 = lg @ [?c1]" by auto
  from readRecords_ok_log[OF r2] obtain c2 where l2: "lg2 = lg1 @ [c2]" "isListCall c2" by auto
  from lookupLots_ok_log[OF r3] obtain cs3 where
    l3: "lg3 = lg2 @ cs3" "\<forall>c \<in> set cs3. isListCall c" by blast
  from lookupLabels_ok_log[OF r4] obtain cs4 where
    l4: "lg4 = lg3 @ cs4" "\<forall>c \<in> set cs4. isListCall c" by blast
  define lookups where "lookups = [c2] @ cs3 @ cs4"
  define usage where "usage = usageDataList (rec_id mo) moNumber enteredBy bomLookup lotLookup
                           labelLookup partsUsage"
  have rd: "readRecords R m ''manufacturing_orders'' (Some [(''MO Number'', JStr moNumber)])
               (Some 1) (Some 1) lg = (Inr moResponse, lg @ [?c1])"
    using r1 l1 by simp
  have ne: "lr_results moResponse \<noteq> []" using mo by simp
  have first: "pb_mo_id resp = rec_id (hd (lr_results moResponse))" using p(1) mo by simp
  have tab: "partsUsage = [] \<or> validateAndGetTableId m ''mo_parts_usage'' = Inr (usageTableId m)"
    using ut by blast
  have shape: "lg' = lg @ [?c1] @ lookups @ map (CreateRecord (usageTableId m)) usage
                    @ [UpdateRecord moTable (pb_mo_id resp) (updateData completionDate grossProduced)]"
    using l1 l2 l3 l4 l5 p by (simp add: lookups_def usage_def)
  have lk: "list_all isListCall lookups"
    using l2 l3 l4 by (auto simp: lookups_def list_all_iff)
  have nc: "filter isCreateCall lookups = []" "filter isUpdateCall lookups = []"
    using lk by (auto simp: filter_empty_conv list_all_iff)
      (metis isCreateCall.elims(2) isListCall.simps(2),
        metis isUpdateCall.elims(2) isListCall.simps(3))
  have us: "usage = map (\<lambda>part. usageData (pb_mo_id resp) moNumber enteredBy
                                   (the (mapGet bomLookup (bom_id part))) lotLookup labelLookup part)
                      partsUsage"
    by (simp add: usage_def usageDataList_def p)
  have has: "list_all (\<lambda>part. mapHas bomLookup (bom_id part)) partsUsage"
    using found by (auto simp: filter_empty_conv list_all_iff)
  have len: "length usage = length partsUsage"
    by (simp add: usage_def usageDataList_def)
  have link: "list_all (\<lambda>data. getField data ''Manufacturing Order''
                               = JArr [JNum (of_int (pb_mo_id resp))]) usage"
    by (simp add: us list_all_iff usageData_fields)
  have qty: "map (\<lambda>data. getField data ''Actual Quantity Used'') usage
             = map (\<lambda>part. JNum (quantity part)) partsUsage"
    by (simp add: us usageData_fields)
  have fc: "filter isCreateCall (map (CreateRecord (usageTableId m)) usage)
              = map (CreateRecord (usageTableId m)) usage"
    "filter isUpdateCall (map (CreateRecord (usageTableId m)) usage) = []"
    by (induction usage) auto
  have cnt: "length (filter isCreateCall (drop (length lg) lg')) = length partsUsage"
    unfolding shape by (simp add: nc fc len)
  have upd: "filter isUpdateCall (drop (length lg) lg')
             = [UpdateRecord moTable (pb_mo_id resp) (updateData completionDate grossProduced)]"
    unfolding shape by (simp add: nc fc)
  show ?thesis
    by (rule exI[of _ moTable], rule exI[of _ "usageTableId m"], rule exI[of _ moResponse],
        rule exI[of _ lookups], rule exI[of _ usage], rule exI[of _ bomLookup],
        rule exI[of _ lotLookup], rule exI[of _ labelLookup])
       (intro conjI t tab rd ne first shape lk us has len link qty cnt upd updateData_fields p)
qed

lemma bpr_run:
  "handleProcessBPR bpr_remote bpr_manager ''MO-121525-11'' ''2025-12-15'' ''1000'' bpr_items None []
     = (Inr (SuccessResponse bpr_response None), bpr_log)"
  by code_simp

lemma bpr_tables:
  "validateAndGetTableId bpr_manager ''manufacturing_orders'' = Inr 749415"
  "validateAndGetTableId bpr_manager ''mo_parts_usage'' = Inr 758739"
  by (simp_all add: validateAndGetTableId_def isTableAllowed_def getTableId_def bpr_manager_def
      mapHas_def mapGet_def ALLOWED_TABLE_NAMES_def)

theorem process_bpr_creates_each_item_and_closes_once_witness:
  "handleProcessBPR bpr_remote bpr_manager ''MO-121525-11'' ''2025-12-15'' ''1000'' bpr_items None []
     = (Inr (SuccessResponse bpr_response None), bpr_log)
   \<and> length bpr_items = 3
   \<and> pb_mo_id bpr_response = 500
   \<and> validateAndGetTableId bpr_manager ''manufacturing_orders'' = Inr 749415
   \<and> validateAndGetTableId bpr_manager ''mo_parts_usage'' = Inr 758739
   \<and> (\<exists>lookups usage.
         bpr_log = [ListRecords 749415 (Some [(''MO Number'', JStr ''MO-121525-11'')]) (Some 1) (Some 1)]
                   @ lookups @ map (CreateRecord 758739) usage
                   @ [UpdateRecord 749415 500 (updateData ''2025-12-15'' ''1000'')]
         \<and> list_all isListCall lookups
         \<and> length usage = 3
         \<and> list_all (\<lambda>data. getField data ''Manufacturing Order'' = JArr [JNum 500]) usage
         \<and> map (\<lambda>data. getField data ''Actual Quantity Used'') usage
             = map (\<lambda>part. JNum (quantity part)) bpr_items)
   \<and> length (filter isCreateCall bpr_log) = 3
   \<and> filter isUpdateCall bpr_log = [UpdateRecord 749415 500 (updateData ''2025-12-15'' ''1000'')]
   \<and> pb_parts_usage_created bpr_response = 3"
proof -
  have n: "length bpr_items = 3" "bpr_items \<noteq> []" by (simp_all add: bpr_items_def)
  have i: "pb_mo_id bpr_response = 500" by (simp add: bpr_response_def)
  from process_bpr_creates_each_item_and_closes_once [OF bpr_run]
  obtain moTable usageTable lookups usage where
    t: "validateAndGetTableId bpr_manager ''manufacturing_orders'' = Inr moTable"
      "bpr_items = [] \<or> validateAndGetTableId bpr_manager ''mo_parts_usage'' = Inr usageTable"
    and s: "bpr_log = [] @ [ListRecords moTable (Some [(''MO Number'', JStr ''MO-121525-11'')])
                          (Some 1) (Some 1)]
                    @ lookups @ map (CreateRecord usageTable) usage
                    @ [UpdateRecord moTable (pb_mo_id bpr_response)
                         (updateData ''2025-12-15'' ''1000'')]"
      "list_all isListCall lookups"
      "length usage = length bpr_items"
      "list_all (\<lambda>data. getField data ''Manufacturing Order''
                               = JArr [JNum (of_int (pb_mo_id bpr_response))]) usage"
      "map (\<lambda>data. getField data ''Actual Quantity Used'') usage
             = map (\<lambda>part. JNum (quantity part)) bpr_items"
    and c: "length (filter isCreateCall (drop (length ([] :: int call list)) bpr_log))
              = length bpr_items"
      "filter isUpdateCall (drop (length ([] :: int call list)) bpr_log)
         = [UpdateRecord moTable (pb_mo_id bpr_response) (updateData ''2025-12-15'' ''1000'')]"
      "pb_parts_usage_created bpr_response = length bpr_items"
    by blast
  from t n bpr_tables have e: "moTable = 749415" "usageTable = 758739" by auto
  have x: "\<exists>lookups usage.
         bpr_log = [ListRecords 749415 (Some [(''MO Number'', JStr ''MO-121525-11'')]) (Some 1) (Some 1)]
                   @ lookups @ map (CreateRecord 758739) usage
                   @ [UpdateRecord 749415 500 (updateData ''2025-12-15'' ''1000'')]
         \<and> list_all isListCall lookups
         \<and> length usage = 3
         \<and> list_all (\<lambda>data. getField data ''Manufacturing Order'' = JArr [JNum 500]) usage
         \<and> map (\<lambda>data. getField data ''Actual Quantity Used'') usage
             = map (\<lambda>part. JNum (quantity part)) bpr_items"
    using s e i n(1) by (intro exI[of _ lookups] exI[of _ usage]) simp
  from bpr_run n(1) i bpr_tables x c e show ?thesis by simp
qed

lemma mapHas_keys: "mapHas m i \<longleftrightarrow> i \<in> fst ` set m"
  by (simp add: mapHas_def map_of_eq_None_iff)

lemma mapHas_mapSet: "mapHas (mapSet k v m) i \<longleftrightarrow> i = k \<or> mapHas m i"
  by (simp add: mapHas_keys mapSet_keys)

lemma bomLookupLoop_has:
  "mapHas (bomLookupLoop bomIds mappings acc) i
   \<longleftrightarrow> mapHas acc i \<or> (i \<in> set bomIds \<and> resolvesBom mappings i)"
  by (induction mappings arbitrary: acc)
     (auto simp: resolvesBom_def Let_def mapHas_mapSet)

text \<open>
  What the stdio handler does on an unresolved \<open>bom_id\<close>, once the Manufacturing Order
  is found and the mappings are fetched: it answers \<open>BOM_NOT_FOUND\<close>, naming every
  unresolved \<open>bom_id\<close> of the request, and issues no request beyond the two lookups.
\<close>

lemma handleProcessBPR_bom_not_found:
  assumes "readRecords R m ''manufacturing_orders'' (Some [(''MO Number'', JStr moNumber)])
             (Some 1) (Some 1) lg = (Inr moResponse, lg1)"
    and "lr_results moResponse = mo # others"
    and "readRecords R m ''fg_parts_mapping'' (Some []) (Some 1) (Some 200) lg1
           = (Inr mappingsResponse, lg2)"
    and "\<exists>part \<in> set partsUsage. \<not> resolvesBom (lr_results mappingsResponse) (bom_id part)"
  shows "handleProcessBPR R m moNumber completionDate grossProduced partsUsage enteredBy lg
         = (Inr (ErrorResponse ''BOM_NOT_FOUND''
                   (''BOM mapping IDs not found: ''
                      @ join '', ''
                          (map showInt
                             (filter (\<lambda>i. \<not> resolvesBom (lr_results mappingsResponse) i)
                                (map bom_id partsUsage)))) None), lg2)
       \<and> (\<exists>c1 c2. lg2 = lg @ [c1, c2] \<and> isListCall c1 \<and> isListCall c2)"
proof -
  let ?bomIds = "map bom_id partsUsage"
  let ?lookup = "bomLookupLoop ?bomIds (lr_results mappingsResponse) []"
  have h: "mapHas ?lookup i \<longleftrightarrow> i \<in> set ?bomIds \<and> resolvesBom (lr_results mappingsResponse) i"
    for i by (simp add: bomLookupLoop_has) (simp add: mapHas_def)
  have f: "filter (\<lambda>i. \<not> mapHas ?lookup i) ?bomIds
         = filter (\<lambda>i. \<not> resolvesBom (lr_results mappingsResponse) i) ?bomIds"
    by (rule filter_cong) (simp_all add: h)
  have ne: "filter (\<lambda>i. \<not> resolvesBom (lr_results mappingsResponse) i) ?bomIds \<noteq> []"
    using assms(4) by (auto simp: filter_empty_conv)
  have 1: "handleProcessBPR R m moNumber completionDate grossProduced partsUsage enteredBy lg
         = (Inr (ErrorResponse ''BOM_NOT_FOUND''
                   (''BOM mapping IDs not found: ''
                      @ join '', ''
                          (map showInt
                             (filter (\<lambda>i. \<not> resolvesBom (lr_results mappingsResponse) i)
                                (map bom_id partsUsage)))) None), lg2)"
    using assms(1-3) ne by (simp add: handleProcessBPR_def Let_def f)
  from readRecords_ok_log[OF assms(1)] obtain c1 where l1: "lg1 = lg @ [c1]" "isListCall c1"
    by auto
  from readRecords_ok_log[OF assms(3)] obtain c2 where l2: "lg2 = lg1 @ [c2]" "isListCall c2"
    by auto
  from 1 l1 l2 show ?thesis by auto
qed

text \<open>
  Claim C2 says that a \<open>process_bpr\<close> request with a \<open>bom_id\<close> that does not resolve
  against the fetched BOM mappings fails with \<open>BOM_NOT_FOUND\<close>, creates no usage record
  and does not update the Manufacturing Order. The stdio handler does so (lemma
  \<open>handleProcessBPR_bom_not_found\<close>). The Worker server does not: at the request whose
  items name the mappings 101 and 999, of which 999 is in no fetched mapping, it skips the
  second item, creates the usage record of the first, updates the Manufacturing Order to
  closed and answers success with one usage record. On the same store and request the
  stdio handler answers \<open>BOM_NOT_FOUND\<close> after its two lookups.
\<close>

theorem MCPServer_processBPR_skips_unresolved_bom:
  "999 \<notin> set (map rec_id bpr_mappings)
   \<and> MCPServer_processBPR worker_remote worker_tables ''MO-121525-11'' ''2025-12-15'' ''1000''
       unresolved_items None []
     = (Inr (SuccessResponse
               \<lparr>wb_mo_id = 500, wb_mo_number = ''MO-121525-11'',
                wb_parts_usage_created = 1, wb_parts_usage_ids = [9002],
                wb_mo_updated = True,
                wb_summary = ''BPR processed: MO MO-121525-11 closed with 1 parts usage records''\<rparr>
               None),
        [ListRecords ''749415'' (Some [(''MO Number'', JStr ''MO-121525-11'')]) (Some 1) (Some 1),
         ListRecords ''748088'' None (Some 1) (Some 200),
         CreateRecord ''758739''
           [(''Manufacturing Order'', JArr [JNum 500]),
            (''Parts'', JArr [JNum 31]), (''Finished Goods'', JArr [JNum 2184]),
            (''Actual Quantity Used'', JNum (5 / 2)),
            (''Notes'', JStr ''From BPR scan - MO-121525-11''),
            (''Entered By'', JStr ''Alexa via Claude'')],
         UpdateRecord ''749415'' 500
           [(''MO Status'', JNum 4554566), (''Deduction Method'', JNum 4669016),
            (''MFG Date Completed'', JStr ''2025-12-15''),
            (''Gross Produced'', JStr ''1000''),
            (''Actual Usage Complete'', JBool True),
            (''MO Inventory Processed'', JBool True)]])
   \<and> handleProcessBPR bpr_remote bpr_manager ''MO-121525-11'' ''2025-12-15'' ''1000''
       unresolved_items None []
     = (Inr (ErrorResponse ''BOM_NOT_FOUND'' ''BOM mapping IDs not found: 999'' None),
        [ListRecords 749415 (Some [(''MO Number'', JStr ''MO-121525-11'')]) (Some 1) (Some 1),
         ListRecords 748088 (Some []) (Some 1) (Some 200)])"
  by code_simp

text \<open>The lemma on the stdio handler, at a concrete request.\<close>

lemma handleProcessBPR_bom_not_found_example:
  "(\<exists>part \<in> set unresolved_items. \<not> resolvesBom bpr_mappings (bom_id part))
   \<and> fst (handleProcessBPR bpr_remote bpr_manager ''MO-121525-11'' ''2025-12-15'' ''1000''
           unresolved_items None [])
     = Inr (ErrorResponse ''BOM_NOT_FOUND'' ''BOM mapping IDs not found: 999'' None)"
proof -
  have v: "validateAndGetTableId bpr_manager ''manufacturing_orders'' = Inr 749415"
    "validateAndGetTableId bpr_manager ''fg_parts_mapping'' = Inr 748088"
    by (simp_all add: validateAndGetTableId_def isTableAllowed_def getTableId_def
        bpr_manager_def mapHas_def mapGet_def ALLOWED_TABLE_NAMES_def)
  let ?lg1 = "[ListRecords 749415 (Some [(''MO Number'', JStr ''MO-121525-11'')]) (Some 1) (Some 1)]"
  have r1: "readRecords bpr_remote bpr_manager ''manufacturing_orders''
              (Some [(''MO Number'', JStr ''MO-121525-11'')]) (Some 1) (Some 1) []
            = (Inr (bpr_page [\<lparr>rec_id = 500, rec_order = ''1.0'',
                         rec_fields = [(''MO Number'', JStr ''MO-121525-11'')]\<rparr>]), ?lg1)"
    by (simp add: readRecords_def v client_listRecords_def bpr_remote_def bpr_list_def)
  have r2: "readRecords bpr_remote bpr_manager ''fg_parts_mapping'' (Some []) (Some 1) (Some 200) ?lg1
            = (Inr (bpr_page bpr_mappings),
               ?lg1 @ [ListRecords 748088 (Some []) (Some 1) (Some 200)])"
    by (simp add: readRecords_def v client_listRecords_def bpr_remote_def bpr_list_def)
  have m: "lr_results (bpr_page [\<lparr>rec_id = 500, rec_order = ''1.0'',
                         rec_fields = [(''MO Number'', JStr ''MO-121525-11'')]\<rparr>])
           = \<lparr>rec_id = 500, rec_order = ''1.0'',
                         rec_fields = [(''MO Number'', JStr ''MO-121525-11'')]\<rparr> # []"
    by (simp add: bpr_page_def)
  have n: "\<not> resolvesBom bpr_mappings 999" "resolvesBom bpr_mappings 101"
    by (simp_all add: resolvesBom_def bpr_mappings_def bom_mappings_def getField_def)
  have u: "\<exists>part \<in> set unresolved_items. \<not> resolvesBom (lr_results (bpr_page bpr_mappings)) (bom_id part)"
    using n by (simp add: unresolved_items_def bpr_page_def)
  have s: "showInt 999 = ''999''" by code_simp
  have "fst (handleProcessBPR bpr_remote bpr_manager ''MO-121525-11'' ''2025-12-15'' ''1000''
           unresolved_items None [])
     = Inr (ErrorResponse ''BOM_NOT_FOUND'' ''BOM mapping IDs not found: 999'' None)"
    using handleProcessBPR_bom_not_found [OF r1 m r2 u, of "''2025-12-15''" "''1000''" None] n
    by (simp add: unresolved_items_def bpr_page_def s)
  with u show ?thesis by (simp add: bpr_page_def)
qed

end
